(* ===== verification/Prelude.thy ===== *)
theory Prelude
  imports Complex_Main "HOL-Library.List_Lexorder" "HOL-Library.Char_ord" "HOL-Library.Product_Lexorder"
begin

text \<open>
  Shared vocabulary of the development: the list operations that pandas performs on
  the program's behalf (splitting a table into fixed-size batches, first-occurrence
  deduplication as done by \<open>Series.unique\<close> and \<open>DataFrame.duplicated\<close>), and the
  generic lemmas about them that the component theories use. The collection
  \<open>chunk_simps\<close> gathers the facts that let a property of a batch-wise fold be reduced
  to the same property of the whole list.
\<close>

named_theorems chunk_simps "facts reducing batch-wise processing to whole-list processing"

section \<open>Fixed-size batches\<close>

text \<open>
  \<open>chunks n xs\<close> cuts \<open>xs\<close> into consecutive batches of \<open>n\<close> elements, the last one
  possibly shorter; this is the row grouping of \<open>pd.read_csv(..., chunksize=n)\<close>.
  A batch size of 0 is refused by pandas; the model then returns the whole list as one
  batch so that the function is total.
\<close>

function chunks :: "nat \<Rightarrow> 'a list \<Rightarrow> 'a list list" where
  "chunks n xs =
     (if xs = [] then []
      else if n = 0 then [xs]
      else take n xs # chunks n (drop n xs))"
  by pat_completeness auto
termination
  by (relation "measure (\<lambda>(n, xs). length xs)") auto

declare chunks.simps [simp del]

lemma chunks_Nil [simp]: "chunks n [] = []"
  by (simp add: chunks.simps)

lemma chunks_Cons:
  "0 < n \<Longrightarrow> xs \<noteq> [] \<Longrightarrow> chunks n xs = take n xs # chunks n (drop n xs)"
  by (simp add: chunks.simps)

lemma concat_chunks [simp, chunk_simps]: "concat (chunks n xs) = xs"
proof (induction n xs rule: chunks.induct)
  case (1 n xs)
  then show ?case by (auto simp: chunks.simps [of n xs])
qed

lemma chunks_nonempty: "c \<in> set (chunks n xs) \<Longrightarrow> c \<noteq> []"
proof (induction n xs rule: chunks.induct)
  case (1 n xs)
  then show ?case by (auto simp: chunks.simps [of n xs] split: if_splits)
qed

lemma chunks_length_le: "0 < n \<Longrightarrow> c \<in> set (chunks n xs) \<Longrightarrow> length c \<le> n"
proof (induction n xs rule: chunks.induct)
  case (1 n xs)
  then show ?case by (auto simp: chunks.simps [of n xs] split: if_splits)
qed

text \<open>
  Taking the first \<open>k\<close> batches takes a prefix of the rows whose length is a multiple
  of the batch size (or all rows).
\<close>

lemma concat_take_chunks:
  "0 < n \<Longrightarrow> concat (take k (chunks n xs)) = take (k * n) xs"
proof (induction n xs arbitrary: k rule: chunks.induct)
  case (1 n xs)
  show ?case
  proof (cases "xs = [] \<or> k = 0")
    case True
    then show ?thesis by auto
  next
    case False
    then obtain k' where k: "k = Suc k'" and ne: "xs \<noteq> []" by (cases k) auto
    have "concat (take k (chunks n xs)) = take n xs @ take (k' * n) (drop n xs)"
      using "1.IH" [of k'] "1.prems" ne k by (simp add: chunks_Cons)
    also have "\<dots> = take (k * n) xs"
      using k by (simp add: take_add [symmetric] add.commute)
    finally show ?thesis .
  qed
qed

section \<open>First-occurrence deduplication\<close>

text \<open>
  pandas' \<open>unique()\<close> keeps the values in order of first appearance, and
  \<open>duplicated()\<close> (with its default \<open>keep='first'\<close>) marks every occurrence after the
  first. Both walk the sequence with a set of values already seen; \<open>unique_from\<close>
  and \<open>dup_marks\<close> do the same with the seen values as a list.
\<close>

fun unique_from :: "'a list \<Rightarrow> 'a list \<Rightarrow> 'a list" where
  "unique_from seen [] = []"
| "unique_from seen (x # xs) =
     (if x \<in> set seen then unique_from seen xs else x # unique_from (x # seen) xs)"

definition unique :: "'a list \<Rightarrow> 'a list" where
  "unique xs = unique_from [] xs"

fun dup_marks :: "'a list \<Rightarrow> 'a list \<Rightarrow> bool list" where
  "dup_marks seen [] = []"
| "dup_marks seen (x # xs) = (x \<in> set seen) # dup_marks (x # seen) xs"

definition duplicated :: "'a list \<Rightarrow> bool list" where
  "duplicated xs = dup_marks [] xs"

text \<open>The reference meaning: Isabelle's \<open>remdups\<close> keeps last occurrences, so the
  first-occurrence version is \<open>remdups\<close> under reversal.\<close>

definition remdups_first :: "'a list \<Rightarrow> 'a list" where
  "remdups_first xs = rev (remdups (rev xs))"

lemma set_unique_from: "set (unique_from seen xs) = set xs - set seen"
  by (induction seen xs rule: unique_from.induct) auto

lemma distinct_unique_from: "distinct (unique_from seen xs)"
  by (induction seen xs rule: unique_from.induct) (auto simp: set_unique_from)

lemma unique_from_append:
  "unique_from seen (xs @ ys) = unique_from seen xs @ unique_from (rev (unique_from seen xs) @ seen) ys"
proof (induction seen xs rule: unique_from.induct)
  case (1 seen)
  then show ?case by simp
next
  case (2 seen x xs)
  then show ?case by simp
qed

lemma remdups_snoc: "remdups (zs @ [x]) = remdups (filter (\<lambda>z. z \<noteq> x) zs) @ [x]"
  by (induction zs) auto

lemma remdups_first_Cons:
  "remdups_first (x # ys) = x # remdups_first (filter (\<lambda>y. y \<noteq> x) ys)"
  by (simp add: remdups_first_def remdups_snoc rev_filter)

text \<open>The walking version computes the reference meaning, for any set of values
  already seen.\<close>

lemma unique_from_eq_remdups_first:
  "unique_from seen xs = remdups_first (filter (\<lambda>x. x \<notin> set seen) xs)"
proof (induction xs arbitrary: seen)
  case Nil
  then show ?case by (simp add: remdups_first_def)
next
  case (Cons x xs)
  show ?case
  proof (cases "x \<in> set seen")
    case True
    then show ?thesis using Cons.IH by simp
  next
    case False
    then have "unique_from seen (x # xs) = x # remdups_first (filter (\<lambda>y. y \<notin> set (x # seen)) xs)"
      using Cons.IH by simp
    also have "\<dots> = remdups_first (filter (\<lambda>y. y \<notin> set seen) (x # xs))"
      using False by (simp add: remdups_first_Cons filter_filter conj_commute)
    finally show ?thesis .
  qed
qed

lemma unique_eq_remdups_first: "unique xs = remdups_first xs"
  by (simp add: unique_def unique_from_eq_remdups_first)

lemma set_unique [simp]: "set (unique xs) = set xs"
  by (simp add: unique_def set_unique_from)

lemma distinct_unique [simp]: "distinct (unique xs)"
  by (simp add: unique_def distinct_unique_from)

lemma length_dup_marks [simp]: "length (dup_marks seen xs) = length xs"
  by (induction seen xs rule: dup_marks.induct) auto

lemma unique_from_seen_cong:
  "set s1 = set s2 \<Longrightarrow> unique_from s1 xs = unique_from s2 xs"
proof (induction xs arbitrary: s1 s2)
  case Nil
  then show ?case by simp
next
  case (Cons x xs)
  have "unique_from (x # s1) xs = unique_from (x # s2) xs"
    by (rule Cons.IH) (simp add: Cons.prems)
  moreover have "unique_from s1 xs = unique_from s2 xs"
    by (rule Cons.IH) (rule Cons.prems)
  ultimately show ?case using Cons.prems by simp
qed

lemma count_dup_marks:
  "count_list (dup_marks seen xs) False = length (unique_from seen xs)"
proof (induction seen xs rule: dup_marks.induct)
  case (1 seen)
  then show ?case by simp
next
  case (2 seen x xs)
  have "x \<in> set seen \<Longrightarrow> unique_from (x # seen) xs = unique_from seen xs"
    by (rule unique_from_seen_cong) auto
  with "2.IH" show ?case by auto
qed

text \<open>Number of rows flagged by \<open>duplicated()\<close>, as \<open>.sum()\<close> computes it.\<close>

definition dup_count :: "'a list \<Rightarrow> nat" where
  "dup_count xs = count_list (duplicated xs) True"

lemma count_list_bool: "count_list bs True + count_list bs False = length bs"
  by (induction bs) auto

lemma dup_count_eq: "dup_count xs = length xs - length (unique xs)"
  using count_list_bool [of "duplicated xs"] count_dup_marks [of "[]" xs]
  by (simp add: dup_count_def duplicated_def unique_def)

lemma length_unique_le: "length (unique xs) \<le> length xs"
  using length_remdups_leq [of "rev xs"] by (simp add: unique_eq_remdups_first remdups_first_def)


lemma count_list_filter_eq: "count_list xs x = length (filter (\<lambda>y. y = x) xs)"
  by (induction xs) auto

lemma count_list_nth: "count_list xs x = length (filter (\<lambda>j. xs ! j = x) [0..<length xs])"
proof -
  have "count_list xs x = length (filter (\<lambda>y. y = x) (map ((!) xs) [0..<length xs]))"
    by (simp add: map_nth count_list_filter_eq)
  also have "\<dots> = length (filter (\<lambda>j. xs ! j = x) [0..<length xs])"
    by (simp add: filter_map comp_def)
  finally show ?thesis .
qed


lemma length_filter_nth_not: "length (filter (\<lambda>i. \<not> bs ! i) [0..<length bs]) = count_list bs False"
  by (simp add: count_list_nth [of bs False])

section \<open>Updating every key of a dictionary once\<close>

text \<open>
  The controllers keep one dictionary entry per column and, per batch, update each
  column's entry once (\<open>for col in columns: d[col] = f(col, d[col])\<close>). With the
  dictionary as a function and the columns paired with their positions:
\<close>

fun upd_each :: "('j \<Rightarrow> 'v \<Rightarrow> 'v) \<Rightarrow> ('k \<Rightarrow> 'v) \<Rightarrow> ('k \<times> 'j) list \<Rightarrow> 'k \<Rightarrow> 'v" where
  "upd_each f m [] = m"
| "upd_each f m ((k, j) # ps) = upd_each f (m(k := f j (m k))) ps"

lemma upd_each_other: "k \<notin> fst ` set ps \<Longrightarrow> upd_each f m ps k = m k"
  by (induction f m ps rule: upd_each.induct) auto

lemma upd_each_at:
  "distinct (map fst ps) \<Longrightarrow> (k, j) \<in> set ps \<Longrightarrow> upd_each f m ps k = f j (m k)"
proof (induction f m ps rule: upd_each.induct)
  case (1 f m)
  then show ?case by simp
next
  case (2 f m k' j' ps)
  show ?case
  proof (cases "k = k'")
    case True
    with "2.prems" have "j = j'" and "k \<notin> fst ` set ps" by (auto simp: image_iff)
    with True show ?thesis by (simp add: upd_each_other)
  next
    case False
    with "2.prems" "2.IH" show ?thesis by (auto simp: fun_upd_def)
  qed
qed

lemma upd_each_column:
  "distinct ks \<Longrightarrow> j < length ks \<Longrightarrow> upd_each f m (zip ks [0..<length ks]) (ks ! j) = f j (m (ks ! j))"
  by (rule upd_each_at) (auto simp: set_zip)


lemma upd_each_inv: "(\<forall>k. P (m k)) \<Longrightarrow> (\<And>j v. P v \<Longrightarrow> P (f j v)) \<Longrightarrow> P (upd_each f m ps k)"
  by (induction f m ps rule: upd_each.induct) auto

end
