(* ===== verification/Py_Builtins.thy ===== *)
theory Py_Builtins
  imports Prelude
begin

text \<open>
  The Python string methods the controllers call, modelled from the Python language
  reference on \<open>string\<close> (a list of byte-sized characters): \<open>str.strip\<close>,
  \<open>str.lower\<close>, \<open>str.replace\<close>, \<open>str.split(sep)\<close>, \<open>str.rsplit(sep, 1)\<close> and
  \<open>sep.join\<close>. Python strings are sequences of code points; the model covers ASCII
  text, where code points and bytes coincide: \<open>py_isspace\<close> is Python's
  \<open>str.isspace\<close> on ASCII (it includes the separators 0x1C to 0x1F), and
  \<open>py_lower\<close> lowers ASCII letters only.
\<close>

section \<open>Whitespace and case\<close>

definition py_isspace :: "char \<Rightarrow> bool" where
  "py_isspace c \<longleftrightarrow> (let n = of_char c :: nat in (9 \<le> n \<and> n \<le> 13) \<or> (28 \<le> n \<and> n \<le> 32))"

definition py_lstrip :: "string \<Rightarrow> string" where
  "py_lstrip s = dropWhile py_isspace s"

definition py_rstrip :: "string \<Rightarrow> string" where
  "py_rstrip s = rev (dropWhile py_isspace (rev s))"

definition py_strip :: "string \<Rightarrow> string" where
  "py_strip s = py_rstrip (py_lstrip s)"

definition ascii_upper :: string where
  "ascii_upper = ''ABCDEFGHIJKLMNOPQRSTUVWXYZ''"

definition ascii_lower :: string where
  "ascii_lower = ''abcdefghijklmnopqrstuvwxyz''"

definition py_lower_char :: "char \<Rightarrow> char" where
  "py_lower_char c = (case map_of (zip ascii_upper ascii_lower) c of Some d \<Rightarrow> d | None \<Rightarrow> c)"

definition py_lower :: "string \<Rightarrow> string" where
  "py_lower s = map py_lower_char s"

lemma py_isspace_simps [simp]:
  "py_isspace (CHR '' '')" "py_isspace (CHR 0x09)" "py_isspace (CHR 0x0A)" "py_isspace (CHR 0x0D)"
  "\<not> py_isspace (CHR ''_'')"
  by (simp_all add: py_isspace_def)

lemma py_lstrip_idem [simp]: "py_lstrip (py_lstrip s) = py_lstrip s"
  by (induction s) (auto simp: py_lstrip_def)

lemma py_rstrip_idem [simp]: "py_rstrip (py_rstrip s) = py_rstrip s"
  by (simp add: py_rstrip_def)

lemma hd_dropWhile_not: "dropWhile P xs = y # ys \<Longrightarrow> \<not> P y"
  by (induction xs) (auto split: if_splits)

lemma dropWhile_hd_not: "xs \<noteq> [] \<Longrightarrow> \<not> P (hd xs) \<Longrightarrow> dropWhile P xs = xs"
  by (cases xs) auto

text \<open>Stripping the right end keeps a non-space first character in place.\<close>

lemma py_rstrip_hd:
  assumes "t \<noteq> []" and "\<not> py_isspace (hd t)"
  shows "py_rstrip t \<noteq> [] \<and> hd (py_rstrip t) = hd t"
proof -
  obtain x t' where t: "t = x # t'" using assms(1) by (cases t) auto
  have "dropWhile py_isspace (rev t' @ [x]) = dropWhile py_isspace (rev t') @ [x]"
    using assms(2) t by (cases "\<forall>y\<in>set (rev t'). py_isspace y") (simp_all add: dropWhile_append)
  then show ?thesis using t by (simp add: py_rstrip_def)
qed

lemma py_lstrip_hd: "py_lstrip s \<noteq> [] \<Longrightarrow> \<not> py_isspace (hd (py_lstrip s))"
  unfolding py_lstrip_def by (metis hd_dropWhile_not list.collapse)

lemma py_strip_idem [simp]: "py_strip (py_strip s) = py_strip s"
proof (cases "py_rstrip (py_lstrip s) = []")
  case True
  then have e: "py_strip s = []" by (simp add: py_strip_def)
  have "py_strip [] = []" by (simp add: py_strip_def py_lstrip_def py_rstrip_def)
  with e show ?thesis by simp
next
  case False
  have ne: "py_lstrip s \<noteq> []"
  proof
    assume "py_lstrip s = []"
    with False show False by (simp add: py_rstrip_def)
  qed
  have h1: "py_rstrip (py_lstrip s) \<noteq> []"
    and h2: "hd (py_rstrip (py_lstrip s)) = hd (py_lstrip s)"
    using py_rstrip_hd [OF ne py_lstrip_hd [OF ne]] by auto
  have h3: "\<not> py_isspace (hd (py_rstrip (py_lstrip s)))"
    using h2 py_lstrip_hd [OF ne] by simp
  have "py_lstrip (py_rstrip (py_lstrip s)) = py_rstrip (py_lstrip s)"
    unfolding py_lstrip_def [of "py_rstrip (py_lstrip s)"] by (rule dropWhile_hd_not [where P = py_isspace, OF h1 h3])
  then show ?thesis by (simp add: py_strip_def)
qed

lemma py_lower_char_idem [simp]: "py_lower_char (py_lower_char c) = py_lower_char c"
proof (cases "map_of (zip ascii_upper ascii_lower) c")
  case None
  then show ?thesis by (simp add: py_lower_char_def)
next
  case (Some d)
  then have "d \<in> set ascii_lower" by (auto dest: map_of_SomeD set_zip_rightD)
  then have "d \<notin> set ascii_upper" by (auto simp: ascii_lower_def ascii_upper_def)
  then have "map_of (zip ascii_upper ascii_lower) d = None"
    by (auto simp: map_of_eq_None_iff dest: set_zip_leftD)
  then show ?thesis using Some by (simp add: py_lower_char_def)
qed

lemma py_lower_idem [simp]: "py_lower (py_lower s) = py_lower s"
  by (simp add: py_lower_def comp_def)

section \<open>Substring replacement\<close>

text \<open>
  \<open>s.replace(old, new)\<close> replaces every non-overlapping occurrence of \<open>old\<close>,
  scanning left to right. For an empty \<open>old\<close> Python inserts \<open>new\<close> before every
  character and at the end.
\<close>

function replace_ne :: "string \<Rightarrow> string \<Rightarrow> string \<Rightarrow> string" where
  "replace_ne old new s =
     (if s = [] then []
      else if old \<noteq> [] \<and> take (length old) s = old
      then new @ replace_ne old new (drop (length old) s)
      else hd s # replace_ne old new (tl s))"
  by pat_completeness auto
termination
  by (relation "measure (\<lambda>(old, new, s). length s)") auto

declare replace_ne.simps [simp del]

definition py_replace :: "string \<Rightarrow> string \<Rightarrow> string \<Rightarrow> string" where
  "py_replace s old new =
     (if old = [] then new @ concat (map (\<lambda>c. c # new) s) else replace_ne old new s)"

text \<open>\<open>old\<close> occurs in \<open>s\<close> when it is a contiguous slice of it.\<close>

definition occurs_in :: "string \<Rightarrow> string \<Rightarrow> bool" where
  "occurs_in old s \<longleftrightarrow> (\<exists>i \<le> length s. take (length old) (drop i s) = old)"

lemma replace_ne_no_occurrence:
  "(\<forall>i \<le> length s. take (length old) (drop i s) \<noteq> old) \<Longrightarrow> replace_ne old new s = s"
proof (induction old new s rule: replace_ne.induct)
  case (1 old new s)
  show ?case
  proof (cases s)
    case Nil
    then show ?thesis by (simp add: replace_ne.simps)
  next
    case (Cons c cs)
    have no0: "take (length old) s \<noteq> old" using "1.prems" [rule_format, of 0] by simp
    have "\<forall>i \<le> length cs. take (length old) (drop i cs) \<noteq> old"
    proof (intro allI impI)
      fix i assume "i \<le> length cs"
      then show "take (length old) (drop i cs) \<noteq> old"
        using "1.prems" [rule_format, of "Suc i"] Cons by simp
    qed
    then have "replace_ne old new cs = cs"
      using "1.IH"(2) Cons no0 by simp
    then show ?thesis using Cons no0 by (subst replace_ne.simps) simp
  qed
qed

lemma py_replace_absent:
  "old \<noteq> [] \<Longrightarrow> \<not> occurs_in old s \<Longrightarrow> py_replace s old new = s"
  by (auto simp: py_replace_def occurs_in_def intro: replace_ne_no_occurrence)

section \<open>Splitting and joining\<close>

text \<open>\<open>s.split(c)\<close> for a one-character separator: every occurrence separates two
  fields, so the result has one more field than \<open>s\<close> has separators.\<close>

fun split_on :: "char \<Rightarrow> string \<Rightarrow> string list" where
  "split_on c [] = [[]]"
| "split_on c (x # xs) =
     (let r = split_on c xs in if x = c then [] # r else (x # hd r) # tl r)"

fun py_join :: "string \<Rightarrow> string list \<Rightarrow> string" where
  "py_join sep [] = []"
| "py_join sep [w] = w"
| "py_join sep (w # ws) = w @ sep @ py_join sep ws"

lemma split_on_nonempty [simp]: "split_on c s \<noteq> []"
  by (induction s) (auto simp: Let_def)

lemma split_on_no_sep: "w \<in> set (split_on c s) \<Longrightarrow> c \<notin> set w"
proof (induction s arbitrary: w)
  case Nil
  then show ?case by simp
next
  case (Cons x xs)
  then show ?case
    by (cases "split_on c xs") (auto simp: Let_def split: if_splits)
qed

lemma py_join_Cons_hd: "ws \<noteq> [] \<Longrightarrow> py_join sep ((x # hd ws) # tl ws) = x # py_join sep ws"
  by (cases ws; cases "tl ws") auto

text \<open>Splitting then joining with the same separator gives the string back.\<close>

lemma py_join_split_on: "py_join [c] (split_on c s) = s"
proof (induction s)
  case Nil
  then show ?case by simp
next
  case (Cons x xs)
  show ?case
  proof (cases "x = c")
    case True
    then show ?thesis using Cons.IH
      by (cases "split_on c xs") (auto simp: Let_def)
  next
    case False
    then show ?thesis using Cons.IH by (simp add: Let_def py_join_Cons_hd)
  qed
qed

text \<open>Joining separator-free fields then splitting gives the fields back.\<close>

lemma split_on_append_sep:
  "c \<notin> set w \<Longrightarrow> split_on c (w @ c # s) = w # split_on c s"
  by (induction w) (auto simp: Let_def)

lemma split_on_sep_free: "c \<notin> set w \<Longrightarrow> split_on c w = [w]"
  by (induction w) (auto simp: Let_def)

lemma split_on_py_join:
  "ws \<noteq> [] \<Longrightarrow> \<forall>w\<in>set ws. c \<notin> set w \<Longrightarrow> split_on c (py_join [c] ws) = ws"
proof (induction ws)
  case Nil
  then show ?case by simp
next
  case (Cons w ws)
  show ?case
  proof (cases "ws = []")
    case True
    with Cons.prems show ?thesis by (simp add: split_on_sep_free)
  next
    case False
    then obtain v vs where ws: "ws = v # vs" by (cases ws) auto
    have "split_on c (py_join [c] ws) = ws" using Cons.IH Cons.prems False by simp
    with Cons.prems ws show ?thesis by (simp add: split_on_append_sep)
  qed
qed

text \<open>\<open>s.rsplit(c, 1)\<close>: at most one split, at the last occurrence of \<open>c\<close>.\<close>

definition py_rsplit1 :: "char \<Rightarrow> string \<Rightarrow> string list" where
  "py_rsplit1 c s =
     (if c \<in> set s
      then [rev (tl (dropWhile (\<lambda>x. x \<noteq> c) (rev s))), rev (takeWhile (\<lambda>x. x \<noteq> c) (rev s))]
      else [s])"

lemma py_rsplit1_last: "c \<in> set s \<Longrightarrow> py_rsplit1 c s ! 1 = rev (takeWhile (\<lambda>x. x \<noteq> c) (rev s))"
  by (simp add: py_rsplit1_def)

end
