(* ===== verification/Values.thy ===== *)
theory Values
  imports Py_Builtins
begin

text \<open>
  The Value Normalizer: \<open>safe_convert_value\<close> (src/server/controllers/csv_controller.py,
  lines 59-72) turns a cell value produced by pandas into a JSON-serialisable Python
  value. Cell values are \<open>pyval\<close>: Python's \<open>None\<close> and NaN, Python ints, bools and
  strings, the numpy scalar types the reader produces, and numpy arrays. JSON values
  are \<open>jval\<close>; \<open>JNaN\<close> is a float NaN, which \<open>jsonify\<close> would print as the non-JSON
  token \<open>NaN\<close>. Python floats other than NaN never reach the function from pandas
  (float cells are \<open>np.float64\<close>) and are not a constructor of the model.
  The theory also holds Python truthiness of JSON values and \<open>dict.get\<close>, which the
  transform engine uses to read its options.
\<close>

section \<open>Values\<close>

datatype pyval =
    PyNone
  | PyNaN
  | PyInt int
  | PyBool bool
  | PyStr string
  | NpInt int
  | NpFloat real
  | NpBool bool
  | NdArray "pyval list"

datatype jval =
    JNull
  | JNaN
  | JInt int
  | JFloat real
  | JBool bool
  | JStr string
  | JList "jval list"
  | JObj "(string \<times> jval) list"

text \<open>The exception \<open>if pd.isna(arr):\<close> raises for an array of size other than one:
  "The truth value of an array with more than one element is ambiguous" (and, since
  NumPy 2.2, also for the empty array).\<close>

datatype py_error = AmbiguousTruth

section \<open>Decimal rendering of integers\<close>

fun show_nat :: "nat \<Rightarrow> string" where
  "show_nat n =
     (if n < 10 then [''0123456789'' ! n] else show_nat (n div 10) @ [''0123456789'' ! (n mod 10)])"

declare show_nat.simps [simp del]

definition show_int :: "int \<Rightarrow> string" where
  "show_int i = (if i < 0 then CHR ''-'' # show_nat (nat (- i)) else show_nat (nat i))"

section \<open>The normalizer\<close>

text \<open>Element-wise \<open>pd.isna\<close> on the elements of an object array.\<close>

definition isna_elem :: "pyval \<Rightarrow> bool" where
  "isna_elem v \<longleftrightarrow> v = PyNone \<or> v = PyNaN"

text \<open>The truth value that \<open>if pd.isna(value):\<close> tests: a bool for a scalar, the
  single element's test for an array of size one, an exception otherwise.\<close>

fun isna_truth :: "pyval \<Rightarrow> py_error + bool" where
  "isna_truth (NdArray [x]) = Inr (isna_elem x)"
| "isna_truth (NdArray xs) = Inl AmbiguousTruth"
| "isna_truth v = Inr (isna_elem v)"

text \<open>\<open>ndarray.tolist()\<close>: numpy scalars become Python scalars, elementwise.\<close>

fun to_py :: "pyval \<Rightarrow> jval" where
  "to_py PyNone = JNull"
| "to_py PyNaN = JNaN"
| "to_py (PyInt i) = JInt i"
| "to_py (PyBool b) = JBool b"
| "to_py (PyStr s) = JStr s"
| "to_py (NpInt i) = JInt i"
| "to_py (NpFloat r) = JFloat r"
| "to_py (NpBool b) = JBool b"
| "to_py (NdArray xs) = JList (map to_py xs)"

text \<open>The branches after the missing-value test, in the source's order: numpy integer,
  numpy float, ndarray, bool (numpy or Python), and \<open>str(value)\<close> for the rest.
  \<open>None\<close> and NaN never get here (the first test returned \<open>None\<close> for them); the
  model gives them \<open>JNull\<close> so that the case is complete.\<close>

fun convert_present :: "pyval \<Rightarrow> jval" where
  "convert_present (NpInt i) = JInt i"
| "convert_present (NpFloat r) = JFloat r"
| "convert_present (NdArray xs) = JList (map to_py xs)"
| "convert_present (NpBool b) = JBool b"
| "convert_present (PyBool b) = JBool b"
| "convert_present (PyInt i) = JStr (show_int i)"
| "convert_present (PyStr s) = JStr s"
| "convert_present PyNone = JNull"
| "convert_present PyNaN = JNull"

definition safe_convert_value :: "pyval \<Rightarrow> py_error + jval" where
  "safe_convert_value v =
     (case isna_truth v of
        Inl e \<Rightarrow> Inl e
      | Inr True \<Rightarrow> Inr JNull
      | Inr False \<Rightarrow> Inr (convert_present v))"

text \<open>A JSON value is safe to serialise when it contains no float NaN.\<close>

fun json_safe :: "jval \<Rightarrow> bool" where
  "json_safe JNaN = False"
| "json_safe (JList xs) = (\<forall>x\<in>set xs. json_safe x)"
| "json_safe (JObj kvs) = (\<forall>kv\<in>set kvs. json_safe (snd kv))"
| "json_safe _ = True"

fun is_array :: "pyval \<Rightarrow> bool" where
  "is_array (NdArray xs) = True"
| "is_array _ = False"

section \<open>Python truthiness and dict access\<close>

text \<open>\<open>bool(x)\<close> for the values \<open>json.loads\<close> produces; NaN is truthy.\<close>

fun py_truthy :: "jval \<Rightarrow> bool" where
  "py_truthy JNull = False"
| "py_truthy JNaN = True"
| "py_truthy (JInt i) = (i \<noteq> 0)"
| "py_truthy (JFloat r) = (r \<noteq> 0)"
| "py_truthy (JBool b) = b"
| "py_truthy (JStr s) = (s \<noteq> [])"
| "py_truthy (JList xs) = (xs \<noteq> [])"
| "py_truthy (JObj kvs) = (kvs \<noteq> [])"

text \<open>A JSON object as \<open>json.loads\<close> builds it: a later duplicate key wins.\<close>

type_synonym py_dict = "(string \<times> jval) list"

definition dict_get :: "py_dict \<Rightarrow> string \<Rightarrow> jval option" where
  "dict_get d k = map_of (rev d) k"

text \<open>\<open>if options.get(k):\<close>\<close>

definition opt_flag :: "py_dict \<Rightarrow> string \<Rightarrow> bool" where
  "opt_flag d k = (case dict_get d k of None \<Rightarrow> False | Some v \<Rightarrow> py_truthy v)"

section \<open>Properties of the normalizer\<close>

lemma safe_convert_value_str [simp]: "safe_convert_value (PyStr s) = Inr (JStr s)"
  by (simp add: safe_convert_value_def isna_elem_def)

lemma safe_convert_value_missing [simp]:
  "safe_convert_value PyNone = Inr JNull" "safe_convert_value PyNaN = Inr JNull"
  by (simp_all add: safe_convert_value_def isna_elem_def)

lemma isna_truth_scalar: "\<not> is_array v \<Longrightarrow> isna_truth v = Inr (isna_elem v)"
  by (cases v) auto

lemma to_py_json_safe: "\<not> is_array v \<Longrightarrow> \<not> isna_elem v \<Longrightarrow> json_safe (to_py v)"
  by (cases v) (auto simp: isna_elem_def)

lemma convert_present_json_safe:
  "\<not> isna_elem v \<Longrightarrow> (\<forall>x\<in>set (case v of NdArray xs \<Rightarrow> xs | _ \<Rightarrow> []). \<not> is_array x \<and> \<not> isna_elem x)
   \<Longrightarrow> json_safe (convert_present v)"
  by (cases v) (auto simp: isna_elem_def to_py_json_safe)

end
