(* ===== verification/Csv_Reader.thy ===== *)
theory Csv_Reader
  imports Values
begin

text \<open>
  The Chunked Reader: what \<open>pd.read_csv\<close> hands to the controller. This is library
  code, modelled from the spec (section 4.1) and the documented pandas behaviour:
  \<^item> the file is split into lines at newlines; empty lines are skipped
    (\<open>skip_blank_lines=True\<close>); the first line is the header; fields are separated by
    commas (quoting is not modelled). CRLF line ends, and lines of blanks only (which
    pandas also skips), are not modelled: the model keeps the carriage return in the
    last field and reads a line of blanks as a row;
  \<^item> a field equal to one of pandas' default NA markers is missing (\<open>None\<close>);
  \<^item> when the first data line has more fields than the header, pandas takes the
    extra leading fields of every line as an implicit index (\<open>leading_cols\<close>):
    every line then has \<open>data_width\<close> fields, the index fields are not columns of
    the table;
  \<^item> a data line with fewer fields than that width is padded with missing cells, a line
    with more fields is a \<open>ParserError\<close> in strict reading and is skipped with
    \<open>on_bad_lines="skip"\<close>;
  \<^item> a file without any line raises \<open>EmptyDataError\<close>;
  \<^item> \<open>nrows=m\<close> reads the first \<open>m\<close> data lines only (and fails only on those);
  \<^item> \<open>chunksize=n\<close> yields batches of \<open>n\<close> rows; a file with a header and no rows
    yields one empty batch; the batch that contains a bad line raises, after the earlier
    batches have been yielded.
  Reading with \<open>dtype=str\<close> keeps every cell as text (\<open>table\<close>); reading without it
  infers a type per column and per batch (\<open>frame\<close>, \<open>infer_column\<close>).
\<close>

section \<open>Tables of text cells\<close>

datatype read_error =
    EmptyDataError
  | ParserError nat nat  \<comment> \<open>expected number of fields, number seen\<close>
  | UnsupportedOption string  \<comment> \<open>\<open>ValueError\<close> of the option check\<close>

record table =
  tcolumns :: "string list"
  trows :: "string option list list"

definition na_values :: "string list" where
  "na_values = ['''', ''#N/A'', ''#N/A N/A'', ''#NA'', ''-1.#IND'', ''-1.#QNAN'', ''-NaN'', ''-nan'',
     ''1.#IND'', ''1.#QNAN'', ''<NA>'', ''N/A'', ''NA'', ''NULL'', ''NaN'', ''None'', ''n/a'', ''nan'', ''null'']"

definition read_cell :: "string \<Rightarrow> string option" where
  "read_cell s = (if s \<in> set na_values then None else Some s)"

definition csv_lines :: "string \<Rightarrow> string list list" where
  "csv_lines text = map (split_on (CHR '','')) (filter (\<lambda>l. l \<noteq> []) (split_on (CHR 0x0A) text))"

text \<open>Header and raw data lines.\<close>

definition read_header :: "string \<Rightarrow> read_error + (string list \<times> string list list)" where
  "read_header text = (case csv_lines text of [] \<Rightarrow> Inl EmptyDataError | h # ls \<Rightarrow> Inr (h, ls))"

definition pad_row :: "nat \<Rightarrow> string list \<Rightarrow> string option list" where
  "pad_row w fs = map read_cell fs @ replicate (w - length fs) None"

definition row_ok :: "nat \<Rightarrow> string list \<Rightarrow> bool" where
  "row_ok w fs \<longleftrightarrow> length fs \<le> w"

fun first_bad :: "nat \<Rightarrow> string list list \<Rightarrow> (nat \<times> nat) option" where
  "first_bad w [] = None"
| "first_bad w (l # ls) =
     (if row_ok w l then map_option (\<lambda>(k, saw). (Suc k, saw)) (first_bad w ls) else Some (0, length l))"

text \<open>The number of fields pandas expects per line: the header's, or the first data
  line's when that is wider (its extra leading fields become the index).\<close>

definition data_width :: "string list \<Rightarrow> string list list \<Rightarrow> nat" where
  "data_width h ls = (case ls of [] \<Rightarrow> length h | l # _ \<Rightarrow> max (length h) (length l))"

text \<open>One line as a row of the table: padded to the width, index fields dropped.\<close>

definition read_row :: "nat \<Rightarrow> nat \<Rightarrow> string list \<Rightarrow> string option list" where
  "read_row n w l = drop (w - n) (pad_row w l)"

definition mk_table :: "string list \<Rightarrow> string list list \<Rightarrow> table" where
  "mk_table h ls = \<lparr>tcolumns = h, trows = map (read_row (length h) (data_width h ls)) ls\<rparr>"

text \<open>\<open>pd.read_csv(path, dtype=str)\<close>: strict, whole file.\<close>

definition read_csv_strict :: "string \<Rightarrow> read_error + table" where
  "read_csv_strict text =
     (case read_header text of
        Inl e \<Rightarrow> Inl e
      | Inr (h, ls) \<Rightarrow>
          (case first_bad (data_width h ls) ls of
             Some (_, saw) \<Rightarrow> Inl (ParserError (data_width h ls) saw)
           | None \<Rightarrow> Inr (mk_table h ls)))"

text \<open>\<open>pd.read_csv(path, nrows=m, dtype=str)\<close>; the width comes from the first data
  line of the file (\<open>m\<close> is positive in every call of the code).\<close>

definition read_csv_nrows :: "nat \<Rightarrow> string \<Rightarrow> read_error + table" where
  "read_csv_nrows m text =
     (case read_header text of
        Inl e \<Rightarrow> Inl e
      | Inr (h, ls) \<Rightarrow>
          (case first_bad (data_width h ls) (take m ls) of
             Some (_, saw) \<Rightarrow> Inl (ParserError (data_width h ls) saw)
           | None \<Rightarrow> Inr \<lparr>tcolumns = h, trows = map (read_row (length h) (data_width h ls)) (take m ls)\<rparr>))"

text \<open>\<open>pd.read_csv(path, nrows=m, dtype=str, engine="python", on_bad_lines="skip")\<close>:
  bad lines are dropped, then the first \<open>m\<close> remaining lines are read.\<close>

definition read_csv_lenient :: "nat \<Rightarrow> string \<Rightarrow> read_error + table" where
  "read_csv_lenient m text =
     (case read_header text of
        Inl e \<Rightarrow> Inl e
      | Inr (h, ls) \<Rightarrow>
          Inr \<lparr>tcolumns = h, trows = map (read_row (length h) (data_width h ls)) (take m (filter (row_ok (data_width h ls)) ls))\<rparr>)"

text \<open>pandas checks its options before it opens the file (\<open>_get_options_with_defaults\<close>):
  with \<open>engine="python"\<close>, an option of the C parser given a value other than its
  default raises \<open>ValueError: The 'low_memory' option is not supported with the 'python'
  engine\<close>. \<open>low_memory\<close> defaults to \<open>True\<close>; the flag is the value passed.\<close>

definition read_csv_python :: "bool \<Rightarrow> nat \<Rightarrow> string \<Rightarrow> read_error + table" where
  "read_csv_python low_memory m text =
     (if low_memory then read_csv_lenient m text else Inl (UnsupportedOption ''low_memory''))"

text \<open>The batches of \<open>chunksize=n\<close> over rows that all parsed.\<close>

definition pd_chunks :: "nat \<Rightarrow> 'a list \<Rightarrow> 'a list list" where
  "pd_chunks n rows = (if rows = [] then [[]] else chunks n rows)"

text \<open>\<open>pd.read_csv(path, chunksize=n, dtype=str)\<close>: the header (or the error that
  opening raises), the batches yielded, and the error that ends the iteration early.\<close>

definition read_csv_chunks ::
  "nat \<Rightarrow> string \<Rightarrow> read_error + (string list \<times> string option list list list \<times> read_error option)" where
  "read_csv_chunks n text =
     (case read_header text of
        Inl e \<Rightarrow> Inl e
      | Inr (h, ls) \<Rightarrow>
          (let w = data_width h ls; rows = map (read_row (length h) w) ls in
           case first_bad w ls of
             None \<Rightarrow> Inr (h, pd_chunks n rows, None)
           | Some (k, saw) \<Rightarrow> Inr (h, chunks n (take (k div n * n) rows), Some (ParserError w saw))))"

section \<open>Facts about reading\<close>

lemma first_bad_None_iff: "first_bad w ls = None \<longleftrightarrow> (\<forall>l\<in>set ls. row_ok w l)"
  by (induction ls) auto

lemma first_bad_Some:
  "first_bad w ls = Some (k, saw) \<Longrightarrow> k < length ls \<and> \<not> row_ok w (ls ! k) \<and> (\<forall>i<k. row_ok w (ls ! i)) \<and> saw = length (ls ! k)"
proof (induction ls arbitrary: k)
  case Nil
  then show ?case by simp
next
  case (Cons l ls)
  show ?case
  proof (cases "row_ok w l")
    case True
    with Cons.prems obtain k' where k: "k = Suc k'" and r: "first_bad w ls = Some (k', saw)"
      by (auto split: option.splits)
    from Cons.IH [OF r] True k show ?thesis by (auto simp: less_Suc_eq_0_disj)
  next
    case False
    with Cons.prems show ?thesis by auto
  qed
qed

lemma first_bad_take_None:
  "first_bad w ls = None \<Longrightarrow> first_bad w (take m ls) = None"
  by (auto simp: first_bad_None_iff dest: in_set_takeD)

lemma length_pad_row: "row_ok w fs \<Longrightarrow> length (pad_row w fs) = w"
  by (simp add: pad_row_def row_ok_def)

lemma length_read_row: "row_ok w fs \<Longrightarrow> n \<le> w \<Longrightarrow> length (read_row n w fs) = n"
  by (simp add: read_row_def length_pad_row)

lemma data_width_ge: "length h \<le> data_width h ls"
  by (simp add: data_width_def split: list.split)

lemma first_line_ok: "ls \<noteq> [] \<Longrightarrow> row_ok (data_width h ls) (hd ls)"
  by (cases ls) (simp_all add: data_width_def row_ok_def)

text \<open>Strict reading succeeds exactly when every data line has at most as many fields
  as the first data line or the header.\<close>

lemma read_csv_strict_Inr:
  "read_csv_strict text = Inr t \<longleftrightarrow>
     (\<exists>h ls. read_header text = Inr (h, ls) \<and> (\<forall>l\<in>set ls. row_ok (data_width h ls) l) \<and> t = mk_table h ls)"
  by (auto simp: read_csv_strict_def first_bad_None_iff [symmetric] split: sum.splits option.splits prod.splits)

text \<open>Once the whole file parses, the prefix and the lenient reads are its prefix.\<close>

lemma read_csv_nrows_strict:
  "read_csv_strict text = Inr t \<Longrightarrow>
   read_csv_nrows m text = Inr \<lparr>tcolumns = tcolumns t, trows = take m (trows t)\<rparr>"
  by (auto simp: read_csv_strict_Inr read_csv_nrows_def first_bad_take_None first_bad_None_iff
      mk_table_def take_map)

lemma read_csv_lenient_strict:
  "read_csv_strict text = Inr t \<Longrightarrow>
   read_csv_lenient m text = Inr \<lparr>tcolumns = tcolumns t, trows = take m (trows t)\<rparr>"
  by (auto simp: read_csv_strict_Inr read_csv_lenient_def mk_table_def take_map)

lemma read_csv_chunks_strict:
  "read_csv_strict text = Inr t \<Longrightarrow>
   read_csv_chunks n text = Inr (tcolumns t, pd_chunks n (trows t), None)"
  by (auto simp: read_csv_strict_Inr read_csv_chunks_def first_bad_None_iff [symmetric] mk_table_def)

lemma rows_width:
  "read_csv_strict text = Inr t \<Longrightarrow> r \<in> set (trows t) \<Longrightarrow> length r = length (tcolumns t)"
  by (auto simp: read_csv_strict_Inr mk_table_def length_read_row data_width_ge)

lemma concat_pd_chunks [simp]: "concat (pd_chunks n rows) = rows"
  by (simp add: pd_chunks_def)

text \<open>The example file used by the witnesses: three rows, one cell missing.\<close>

lemma ex_read:
  "read_csv_strict ''a,b\<newline>1,2\<newline>3,\<newline>5,6'' =
     Inr \<lparr>tcolumns = [''a'', ''b''], trows = [[Some ''1'', Some ''2''], [Some ''3'', None], [Some ''5'', Some ''6'']]\<rparr>"
  by (simp add: read_csv_strict_def read_header_def csv_lines_def mk_table_def pad_row_def read_cell_def
      na_values_def row_ok_def data_width_def read_row_def)

end
