(* ===== verification/Analyzer.thy ===== *)
theory Analyzer
  imports Csv_Reader
begin

text \<open>
  The Quality Analyzer: \<open>analyze_csv_quality_chunked\<close>
  (src/server/controllers/csv_controller.py, lines 74-178). It reads the first 1000
  rows for the column list, scans the file in batches of \<open>CHUNK_SIZE\<close> rows
  accumulating the row count and, per column, the missing count, up to 100 new
  distinct values from each of the first three batches, and the first three sample
  values; it then estimates duplicates from a lenient sample and assembles the report.
  The scan state is the record \<open>scan_state\<close>; the per-column dictionaries
  \<open>missing_counts\<close>, \<open>unique_trackers\<close>, \<open>sample_values\<close> are one function
  \<open>col_stats\<close> from column name to a record of the three entries.
  Every cell was read with \<open>dtype=str\<close>, so present cells are \<open>PyStr\<close> values and
  go through \<open>safe_convert_value\<close> as such.
\<close>

section \<open>Scan state\<close>

record col_stats =
  missing_count :: nat
  unique_tracker :: "jval list"
  sample_vals :: "jval list"

record scan_state =
  rows_seen :: nat
  col_stats :: "string \<Rightarrow> col_stats"

definition empty_stats :: col_stats where
  "empty_stats = \<lparr>missing_count = 0, unique_tracker = [], sample_vals = []\<rparr>"

definition init_scan :: scan_state where
  "init_scan = \<lparr>rows_seen = 0, col_stats = (\<lambda>_. empty_stats)\<rparr>"

text \<open>\<open>series.dropna()\<close>: the present cells, in order.\<close>

fun present :: "string option list \<Rightarrow> string list" where
  "present [] = []"
| "present (None # vs) = present vs"
| "present (Some s # vs) = s # present vs"

section \<open>One batch\<close>

text \<open>Lines 113-119: append each converted value not yet tracked; an exception from
  the conversion ends the loop for this column and batch, keeping what was appended.\<close>

fun track_uniques :: "jval list \<Rightarrow> string list \<Rightarrow> jval list" where
  "track_uniques tr [] = tr"
| "track_uniques tr (v # vs) =
     (case safe_convert_value (PyStr v) of
        Inl _ \<Rightarrow> tr
      | Inr j \<Rightarrow> track_uniques (if j \<in> set tr then tr else tr @ [j]) vs)"

text \<open>Lines 124-129.\<close>

fun collect_samples :: "jval list \<Rightarrow> string list \<Rightarrow> jval list" where
  "collect_samples sv [] = sv"
| "collect_samples sv (v # vs) =
     (case safe_convert_value (PyStr v) of
        Inl _ \<Rightarrow> sv
      | Inr j \<Rightarrow> collect_samples (if length sv < 3 then sv @ [j] else sv) vs)"

text \<open>Lines 102-129 for one column of batch number \<open>i\<close> (counted from 0).\<close>

definition col_step :: "nat \<Rightarrow> col_stats \<Rightarrow> string option list \<Rightarrow> col_stats" where
  "col_step i cs vals =
     (let cs1 = cs\<lparr>missing_count := missing_count cs + count_list vals None\<rparr>;
          cs2 = (if i < 3 \<and> length (unique_tracker cs1) < 1000
                 then cs1\<lparr>unique_tracker := track_uniques (unique_tracker cs1) (take 100 (unique (present vals)))\<rparr>
                 else cs1);
          cs3 = (if length (sample_vals cs2) < 3
                 then cs2\<lparr>sample_vals := collect_samples (sample_vals cs2) (take 3 (present vals))\<rparr>
                 else cs2)
      in cs3)"

text \<open>Lines 98-129: one batch, every column.\<close>

definition column_of :: "string option list list \<Rightarrow> nat \<Rightarrow> string option list" where
  "column_of rows j = map (\<lambda>r. r ! j) rows"

definition scan_chunk :: "string list \<Rightarrow> nat \<Rightarrow> scan_state \<Rightarrow> string option list list \<Rightarrow> scan_state" where
  "scan_chunk cols i st chunk =
     \<lparr>rows_seen = rows_seen st + length chunk,
      col_stats = upd_each (\<lambda>j cs. col_step i cs (column_of chunk j)) (col_stats st) (zip cols [0..<length cols])\<rparr>"

fun scan_chunks :: "string list \<Rightarrow> nat \<Rightarrow> scan_state \<Rightarrow> string option list list list \<Rightarrow> scan_state" where
  "scan_chunks cols i st [] = st"
| "scan_chunks cols i st (c # cks) = scan_chunks cols (Suc i) (scan_chunk cols i st c) cks"

section \<open>The report\<close>

datatype unique_count = UCount nat | UCapped  \<comment> \<open>the string \<open>'1000+'\<close>\<close>

record column_report =
  dtype :: string
  col_missing :: nat
  col_missing_pct :: real
  unique_values :: unique_count
  sample_values :: "jval list"

record quality_report =
  total_rows :: nat
  total_columns :: nat
  total_cells :: nat
  missing_cells :: nat
  missing_percentage :: real
  column_analysis :: "(string \<times> column_report) list"
  duplicate_rows :: nat
  memory_usage :: real
  is_large_file :: bool

text \<open>\<open>round(x, 2)\<close>, with the float computed exactly (rounding half up).\<close>

definition round2 :: "real \<Rightarrow> real" where
  "round2 x = of_int (round (x * 100)) / 100"

text \<open>\<open>str(first_chunk[col].dtype)\<close> for a column read with \<open>dtype=str\<close>: pandas 2
  stores such a column with dtype \<open>object\<close>.\<close>

definition str_column_dtype :: string where
  "str_column_dtype = ''object''"

text \<open>Lines 157-164.\<close>

definition mk_column_report :: "nat \<Rightarrow> col_stats \<Rightarrow> column_report" where
  "mk_column_report n_rows cs =
     \<lparr>dtype = str_column_dtype,
      col_missing = missing_count cs,
      col_missing_pct = (if 0 < n_rows then round2 (real (missing_count cs) / real n_rows * 100) else 0),
      unique_values = (let u = length (unique_tracker cs) in if u < 1000 then UCount u else UCapped),
      sample_values = take 3 (sample_vals cs)\<rparr>"

text \<open>Lines 136-140: duplicate rows of a lenient sample, extrapolated to the file;
  any failure gives 0 (the bare \<open>except\<close>). The read passes \<open>low_memory=False\<close> with
  \<open>engine="python"\<close>. \<open>int(d * (t / max(s, 1)))\<close> is computed exactly.\<close>

definition duplicate_estimate :: "nat \<Rightarrow> nat \<Rightarrow> string \<Rightarrow> nat" where
  "duplicate_estimate sample_size n_rows text =
     (case read_csv_python False (min sample_size n_rows) text of
        Inl _ \<Rightarrow> 0
      | Inr s \<Rightarrow> dup_count (trows s) * n_rows div max (length (trows s)) 1)"

text \<open>Lines 131-175, from the finished scan. \<open>sum(missing_counts.values())\<close> sums
  over the distinct keys of the dictionary.\<close>

definition build_report :: "string list \<Rightarrow> scan_state \<Rightarrow> nat \<Rightarrow> nat \<Rightarrow> string \<Rightarrow> quality_report" where
  "build_report cols st sample_size file_size text =
     (let n_rows = rows_seen st;
          cells = n_rows * length cols;
          miss = sum_list (map (\<lambda>c. missing_count (col_stats st c)) (remdups cols))
      in \<lparr>total_rows = n_rows,
          total_columns = length cols,
          total_cells = cells,
          missing_cells = miss,
          missing_percentage = (if 0 < cells then round2 (real miss / real cells * 100) else 0),
          column_analysis = map (\<lambda>c. (c, mk_column_report n_rows (col_stats st c))) cols,
          duplicate_rows = duplicate_estimate sample_size n_rows text,
          memory_usage = round2 (real file_size / 1024 / 1024),
          is_large_file = (50000 < n_rows)\<rparr>)"

text \<open>The whole function, for batch size \<open>n\<close>. An error of either read propagates
  (the source re-raises it wrapped as \<open>Exception("Error analyzing CSV: ...")\<close>).\<close>

definition analyze_csv_quality_chunked :: "nat \<Rightarrow> nat \<Rightarrow> nat \<Rightarrow> string \<Rightarrow> read_error + quality_report" where
  "analyze_csv_quality_chunked n sample_size file_size text =
     (case read_csv_nrows 1000 text of
        Inl e \<Rightarrow> Inl e
      | Inr first \<Rightarrow>
          (let cols = tcolumns first in
           case read_csv_chunks n text of
             Inl e \<Rightarrow> Inl e
           | Inr (_, cks, Some e) \<Rightarrow> Inl e
           | Inr (_, cks, None) \<Rightarrow>
               Inr (build_report cols (scan_chunks cols 0 init_scan cks) sample_size file_size text)))"

definition CHUNK_SIZE :: nat where
  "CHUNK_SIZE = 10000"

text \<open>The part of a report that is exact: all but the capped unique-value counts.\<close>

definition report_exact :: "quality_report \<Rightarrow> nat \<times> nat \<times> nat \<times> nat \<times> real \<times> (string \<times> string \<times> nat \<times> real \<times> jval list) list \<times> nat \<times> real \<times> bool" where
  "report_exact r = (total_rows r, total_columns r, total_cells r, missing_cells r, missing_percentage r,
     map (\<lambda>(c, cr). (c, dtype cr, col_missing cr, col_missing_pct cr, sample_values cr)) (column_analysis r),
     duplicate_rows r, memory_usage r, is_large_file r)"

section \<open>One column through the scan\<close>

fun col_scan :: "nat \<Rightarrow> nat \<Rightarrow> col_stats \<Rightarrow> string option list list list \<Rightarrow> col_stats" where
  "col_scan j i cs [] = cs"
| "col_scan j i cs (c # cks) = col_scan j (Suc i) (col_step i cs (column_of c j)) cks"

lemma rows_seen_scan_chunks [chunk_simps]:
  "rows_seen (scan_chunks cols i st cks) = rows_seen st + length (concat cks)"
  by (induction cols i st cks rule: scan_chunks.induct) (simp_all add: scan_chunk_def)

lemma scan_chunks_column:
  "distinct cols \<Longrightarrow> j < length cols \<Longrightarrow>
   col_stats (scan_chunks cols i st cks) (cols ! j) = col_scan j i (col_stats st (cols ! j)) cks"
  by (induction cols i st cks rule: scan_chunks.induct) (simp_all add: scan_chunk_def upd_each_column)

lemma column_of_append: "column_of (xs @ ys) j = column_of xs j @ column_of ys j"
  by (simp add: column_of_def)

lemma column_of_Nil [simp]: "column_of [] j = []"
  by (simp add: column_of_def)

lemma col_step_missing: "missing_count (col_step i cs vals) = missing_count cs + count_list vals None"
  by (simp add: col_step_def Let_def)

lemma col_scan_missing [chunk_simps]:
  "missing_count (col_scan j i cs cks) = missing_count cs + count_list (column_of (concat cks) j) None"
  by (induction j i cs cks rule: col_scan.induct) (simp_all add: col_step_missing column_of_append)

text \<open>Sample collection: the first three present values, whatever the batching.\<close>

lemma collect_samples_take: "length sv \<le> 3 \<Longrightarrow> collect_samples sv vs = take 3 (sv @ map JStr vs)"
proof (induction sv vs rule: collect_samples.induct)
  case (1 sv)
  then show ?case by simp
next
  case (2 sv v vs)
  show ?case
  proof (cases "length sv < 3")
    case True
    then have "collect_samples (sv @ [JStr v]) vs = take 3 ((sv @ [JStr v]) @ map JStr vs)"
      using "2.IH" by simp
    with True show ?thesis by simp
  next
    case False
    with "2.prems" have "length sv = 3" by simp
    with "2.IH" show ?thesis by simp
  qed
qed

lemma present_append: "present (xs @ ys) = present xs @ present ys"
  by (induction xs rule: present.induct) auto

lemma col_step_samples:
  "length (sample_vals cs) \<le> 3 \<Longrightarrow>
   sample_vals (col_step i cs vals) = take 3 (sample_vals cs @ map JStr (present vals))"
  by (auto simp: col_step_def Let_def collect_samples_take take_map min_def)

lemma length_col_step_samples:
  "length (sample_vals cs) \<le> 3 \<Longrightarrow> length (sample_vals (col_step i cs vals)) \<le> 3"
  by (simp add: col_step_samples)

lemma col_scan_samples [chunk_simps]:
  "length (sample_vals cs) \<le> 3 \<Longrightarrow>
   sample_vals (col_scan j i cs cks) = take 3 (sample_vals cs @ map JStr (present (column_of (concat cks) j)))"
proof (induction j i cs cks rule: col_scan.induct)
  case (1 j i cs)
  then show ?case by (simp add: take_map)
next
  case (2 j i cs c cks)
  have "length (sample_vals (col_step i cs (column_of c j))) \<le> 3"
    using "2.prems" by (rule length_col_step_samples)
  with "2.IH" "2.prems" show ?case
    by (simp add: col_step_samples column_of_append present_append take_map min_def)
qed

text \<open>Unique tracking: at most 100 values per batch, and only in batches 0 to 2.\<close>

lemma length_track_uniques: "length (track_uniques tr vs) \<le> length tr + length vs"
proof (induction tr vs rule: track_uniques.induct)
  case (1 tr)
  then show ?case by simp
next
  case (2 tr v vs)
  let ?tr = "if JStr v \<in> set tr then tr else tr @ [JStr v]"
  have "length (track_uniques ?tr vs) \<le> length ?tr + length vs" using "2.IH" by simp
  moreover have "length ?tr \<le> Suc (length tr)" by simp
  ultimately show ?case by simp
qed

lemma distinct_track_uniques: "distinct tr \<Longrightarrow> distinct (track_uniques tr vs)"
  by (induction tr vs rule: track_uniques.induct) auto

lemma col_step_uniques_bound:
  "length (unique_tracker (col_step i cs vals)) \<le> length (unique_tracker cs) + (if i < 3 then 100 else 0)"
proof -
  have "length (track_uniques tr (take 100 xs)) \<le> length tr + 100" for tr and xs :: "string list"
    using length_track_uniques [of tr "take 100 xs"] by simp
  then show ?thesis by (simp add: col_step_def Let_def)
qed

lemma col_scan_uniques_bound:
  "length (unique_tracker (col_scan j i cs cks)) \<le> length (unique_tracker cs) + 100 * (3 - i)"
proof (induction j i cs cks rule: col_scan.induct)
  case (1 j i cs)
  then show ?case by simp
next
  case (2 j i cs c cks)
  have "length (unique_tracker (col_step i cs (column_of c j))) \<le> length (unique_tracker cs) + (if i < 3 then 100 else 0)"
    by (rule col_step_uniques_bound)
  with "2.IH" show ?case by (auto split: if_splits)
qed

section \<open>The analysis of a file\<close>

lemma read_csv_chunks_unreadable:
  "read_csv_strict text = Inl e \<Longrightarrow>
   read_csv_chunks n text = Inl e \<or> (\<exists>h cks. read_csv_chunks n text = Inr (h, cks, Some e))"
  by (auto simp: read_csv_strict_def read_csv_chunks_def Let_def split: sum.splits option.splits prod.splits)

lemma analyze_unreadable:
  "read_csv_strict text = Inl e \<Longrightarrow> \<exists>e'. analyze_csv_quality_chunked n ss sz text = Inl e'"
  using read_csv_chunks_unreadable [of "text" e n]
  by (auto simp: analyze_csv_quality_chunked_def Let_def split: sum.splits)

lemma analyze_readable:
  "read_csv_strict text = Inr t \<Longrightarrow>
   analyze_csv_quality_chunked n ss sz text =
     Inr (build_report (tcolumns t) (scan_chunks (tcolumns t) 0 init_scan (pd_chunks n (trows t))) ss sz text)"
  by (simp add: analyze_csv_quality_chunked_def read_csv_nrows_strict read_csv_chunks_strict Let_def)

lemma analyze_Inr:
  assumes "analyze_csv_quality_chunked n ss sz text = Inr r"
  obtains t where "read_csv_strict text = Inr t"
    and "r = build_report (tcolumns t) (scan_chunks (tcolumns t) 0 init_scan (pd_chunks n (trows t))) ss sz text"
proof (cases "read_csv_strict text")
  case (Inl e)
  with assms analyze_unreadable [of "text" e n ss sz] show ?thesis by auto
next
  case (Inr t)
  with assms analyze_readable [of "text" t n ss sz] that show ?thesis by auto
qed

text \<open>What the report says of a readable file, batch by batch reduced to the whole
  file: the facts the claims below are made of.\<close>

lemma report_total_rows:
  "total_rows (build_report cols (scan_chunks cols 0 init_scan cks) ss sz text) = length (concat cks)"
  by (simp add: build_report_def Let_def rows_seen_scan_chunks init_scan_def)

lemma report_stats:
  "distinct cols \<Longrightarrow> j < length cols \<Longrightarrow>
   col_stats (scan_chunks cols 0 init_scan cks) (cols ! j) = col_scan j 0 empty_stats cks"
  by (simp add: scan_chunks_column init_scan_def)

lemma report_column:
  "j < length cols \<Longrightarrow>
   column_analysis (build_report cols st ss sz text) ! j = (cols ! j, mk_column_report (rows_seen st) (col_stats st (cols ! j)))"
  by (simp add: build_report_def Let_def)

lemma sum_list_indicator: "sum_list (map (\<lambda>j. if P j then 1 else 0) js) = length (filter P js)"
  by (induction js) auto

text \<open>Counting a value column by column counts it in the whole table.\<close>

lemma sum_columns_count:
  "\<forall>r\<in>set rows. length r = w \<Longrightarrow>
   sum_list (map (\<lambda>j. count_list (column_of rows j) x) [0..<w]) = count_list (concat rows) x"
proof (induction rows)
  case Nil
  then show ?case by (simp add: sum_list_triv)
next
  case (Cons r rows)
  have "(\<lambda>j. count_list (column_of (r # rows) j) x)
      = (\<lambda>j. (if r ! j = x then 1 else 0) + count_list (column_of rows j) x)"
    by (auto simp: column_of_def)
  then have "sum_list (map (\<lambda>j. count_list (column_of (r # rows) j) x) [0..<w])
      = sum_list (map (\<lambda>j. if r ! j = x then 1 else 0) [0..<w])
        + sum_list (map (\<lambda>j. count_list (column_of rows j) x) [0..<w])"
    by (simp add: sum_list_addf)
  also have "sum_list (map (\<lambda>j. if r ! j = x then 1 else 0) [0..<w]) = count_list r x"
    using Cons.prems by (simp add: sum_list_indicator count_list_nth)
  finally show ?case using Cons by simp
qed

lemma sum_list_map_nth: "sum_list (map f xs) = sum_list (map (\<lambda>j. f (xs ! j)) [0..<length xs])"
proof -
  have "map f xs = map f (map ((!) xs) [0..<length xs])" by (simp only: map_nth)
  then show ?thesis by (simp add: comp_def)
qed

lemma report_missing_cells:
  assumes "distinct cols"
  shows "missing_cells (build_report cols (scan_chunks cols 0 init_scan cks) ss sz text)
       = sum_list (map (\<lambda>j. count_list (column_of (concat cks) j) None) [0..<length cols])"
proof -
  let ?st = "scan_chunks cols 0 init_scan cks"
  have "missing_cells (build_report cols ?st ss sz text) = sum_list (map (\<lambda>c. missing_count (col_stats ?st c)) cols)"
    using assms by (simp add: build_report_def Let_def distinct_remdups_id)
  also have "\<dots> = sum_list (map (\<lambda>j. missing_count (col_stats ?st (cols ! j))) [0..<length cols])"
    by (rule sum_list_map_nth)
  also have "\<dots> = sum_list (map (\<lambda>j. count_list (column_of (concat cks) j) None) [0..<length cols])"
    using assms by (intro arg_cong [where f = sum_list] map_cong)
      (simp_all add: report_stats col_scan_missing empty_stats_def)
  finally show ?thesis .
qed

lemma duplicate_estimate_zero [simp]: "duplicate_estimate ss n_rows text = 0"
  by (simp add: duplicate_estimate_def read_csv_python_def)

section \<open>Properties of the analysis\<close>

lemma col_scan_samples_empty:
  "sample_vals (col_scan j 0 empty_stats cks) = take 3 (map JStr (present (column_of (concat cks) j)))"
  using col_scan_samples [of empty_stats j 0 cks] by (simp add: empty_stats_def)

lemma col_scan_missing_empty:
  "missing_count (col_scan j 0 empty_stats cks) = count_list (column_of (concat cks) j) None"
  by (simp add: col_scan_missing empty_stats_def)

lemma report_exact_cong:
  assumes rows: "rows_seen s1 = rows_seen s2"
    and miss: "\<And>c. c \<in> set cols \<Longrightarrow> missing_count (col_stats s1 c) = missing_count (col_stats s2 c)"
    and samp: "\<And>c. c \<in> set cols \<Longrightarrow> take 3 (sample_vals (col_stats s1 c)) = take 3 (sample_vals (col_stats s2 c))"
  shows "report_exact (build_report cols s1 ss sz text) = report_exact (build_report cols s2 ss sz text)"
proof -
  have m: "map (\<lambda>c. missing_count (col_stats s1 c)) (remdups cols) = map (\<lambda>c. missing_count (col_stats s2 c)) (remdups cols)"
    by (rule map_cong) (simp_all add: miss)
  have p: "(\<lambda>(c, cr). (c, dtype cr, col_missing cr, col_missing_pct cr, sample_values cr)) (c, mk_column_report (rows_seen s1) (col_stats s1 c))
         = (\<lambda>(c, cr). (c, dtype cr, col_missing cr, col_missing_pct cr, sample_values cr)) (c, mk_column_report (rows_seen s2) (col_stats s2 c))"
    if "c \<in> set cols" for c
    using miss [OF that] samp [OF that] rows by (simp add: mk_column_report_def)
  have cs: "map (\<lambda>(c, cr). (c, dtype cr, col_missing cr, col_missing_pct cr, sample_values cr)) (column_analysis (build_report cols s1 ss sz text))
          = map (\<lambda>(c, cr). (c, dtype cr, col_missing cr, col_missing_pct cr, sample_values cr)) (column_analysis (build_report cols s2 ss sz text))"
    unfolding build_report_def Let_def quality_report.simps map_map comp_def
    by (rule map_cong) (simp_all only: p)
  show ?thesis
    using cs unfolding report_exact_def
    by (simp add: build_report_def Let_def rows m)
qed

lemma report_exact_scan:
  assumes "distinct cols"
  shows "report_exact (build_report cols (scan_chunks cols 0 init_scan cks) ss sz text)
       = report_exact (build_report cols (scan_chunks cols 0 init_scan [concat cks]) ss sz text)"
proof (rule report_exact_cong)
  show "rows_seen (scan_chunks cols 0 init_scan cks) = rows_seen (scan_chunks cols 0 init_scan [concat cks])"
    by (simp only: rows_seen_scan_chunks) simp
next
  fix c assume "c \<in> set cols"
  then obtain j where j: "j < length cols" "c = cols ! j" by (auto simp: in_set_conv_nth)
  have s1: "col_stats (scan_chunks cols 0 init_scan cks) (cols ! j) = col_scan j 0 empty_stats cks"
    by (rule report_stats [OF assms j(1)])
  have s2: "col_stats (scan_chunks cols 0 init_scan [concat cks]) (cols ! j) = col_scan j 0 empty_stats [concat cks]"
    by (rule report_stats [OF assms j(1)])
  show "missing_count (col_stats (scan_chunks cols 0 init_scan cks) c)
      = missing_count (col_stats (scan_chunks cols 0 init_scan [concat cks]) c)"
    unfolding j(2) s1 s2 col_scan_missing_empty by simp
  show "take 3 (sample_vals (col_stats (scan_chunks cols 0 init_scan cks) c))
      = take 3 (sample_vals (col_stats (scan_chunks cols 0 init_scan [concat cks]) c))"
    unfolding j(2) s1 s2 col_scan_samples_empty by simp
qed

text \<open>C1: the quality report does not depend on the batch size used to scan the file: for any two positive batch sizes the analysis of a readable file with distinct column names gives the same row, column, cell and missing counts, percentages, per-column missing counts and samples, duplicate estimate, size and large-file flag (only the capped unique-value counts may differ).\<close>

theorem analyze_batch_size_independent:
  assumes "0 < n" and "0 < m" and "distinct (tcolumns t)" and "read_csv_strict text = Inr t"
  shows "map_sum id report_exact (analyze_csv_quality_chunked n ss sz text)
       = map_sum id report_exact (analyze_csv_quality_chunked m ss sz text)"
proof -
  have "report_exact (build_report (tcolumns t) (scan_chunks (tcolumns t) 0 init_scan (pd_chunks k (trows t))) ss sz text)
      = report_exact (build_report (tcolumns t) (scan_chunks (tcolumns t) 0 init_scan [trows t]) ss sz text)" for k
    using report_exact_scan [OF assms(3), of "pd_chunks k (trows t)"] by simp
  then show ?thesis using assms(4) by (simp add: analyze_readable)
qed


lemma col_scan_uniques_300: "length (unique_tracker (col_scan j 0 empty_stats cks)) \<le> 300"
  using col_scan_uniques_bound [of j 0 empty_stats cks] by (simp add: empty_stats_def)

lemma report_columns_fst: "map fst (column_analysis (build_report cols st ss sz text)) = cols"
  by (simp add: build_report_def Let_def comp_def)

lemma length_concat_width: "\<forall>r\<in>set rows. length r = w \<Longrightarrow> length (concat rows) = length rows * w"
  by (induction rows) auto

lemma round2_bounds: "0 \<le> x \<Longrightarrow> x \<le> 100 \<Longrightarrow> 0 \<le> round2 x \<and> round2 x \<le> 100"
proof -
  assume a: "0 \<le> x" "x \<le> 100"
  have "round (0::real) \<le> round (x * 100)" using a by (intro round_mono) simp
  moreover have "round (x * 100) \<le> round (10000::real)" using a by (intro round_mono) simp
  ultimately show ?thesis by (simp add: round2_def)
qed

text \<open>C2: the analysis of a file that pandas reads strictly succeeds, and its total_rows is exactly the number of data rows.\<close>

theorem analyze_total_rows:
  assumes "read_csv_strict text = Inr t"
  shows "\<exists>r. analyze_csv_quality_chunked n ss sz text = Inr r \<and> total_rows r = length (trows t)"
  using assms by (simp add: analyze_readable report_total_rows)

theorem analyze_total_rows_witness:
  "\<exists>r. analyze_csv_quality_chunked 2 10000 0 ''a,b\<newline>1,2\<newline>3,\<newline>5,6'' = Inr r \<and> total_rows r = 3"
  using analyze_total_rows [OF ex_read, of 2 10000 0] by (simp add: eval_nat_numeral)

lemma analyze_missing_count:
  assumes "read_csv_strict text = Inr t" and "distinct (tcolumns t)"
    and "analyze_csv_quality_chunked n ss sz text = Inr r"
  shows "missing_cells r = count_list (concat (trows t)) None"
proof -
  have r: "r = build_report (tcolumns t) (scan_chunks (tcolumns t) 0 init_scan (pd_chunks n (trows t))) ss sz text"
    using assms(1,3) by (simp add: analyze_readable)
  have "\<forall>row\<in>set (trows t). length row = length (tcolumns t)"
    using rows_width [OF assms(1)] by blast
  then show ?thesis
    using r assms(2) by (simp add: report_missing_cells sum_columns_count)
qed

text \<open>C3: missing_cells is exact: it is the number of missing cells in the whole file.\<close>

theorem analyze_missing_exact:
  assumes "read_csv_strict text = Inr t" and "distinct (tcolumns t)"
    and "analyze_csv_quality_chunked n ss sz text = Inr r"
  shows "missing_cells r = count_list (concat (trows t)) None"
  using assms by (rule analyze_missing_count)

theorem analyze_missing_exact_witness:
  "read_csv_strict ''a,b\<newline>1,2\<newline>3,\<newline>5,6'' = Inr \<lparr>tcolumns = [''a'', ''b''], trows = [[Some ''1'', Some ''2''], [Some ''3'', None], [Some ''5'', Some ''6'']]\<rparr>
   \<and> distinct [''a'', ''b'']
   \<and> analyze_csv_quality_chunked 2 10000 0 ''a,b\<newline>1,2\<newline>3,\<newline>5,6'' =
       Inr (build_report [''a'', ''b''] (scan_chunks [''a'', ''b''] 0 init_scan (pd_chunks 2 [[Some ''1'', Some ''2''], [Some ''3'', None], [Some ''5'', Some ''6'']])) 10000 0 ''a,b\<newline>1,2\<newline>3,\<newline>5,6'')
   \<and> missing_cells (build_report [''a'', ''b''] (scan_chunks [''a'', ''b''] 0 init_scan (pd_chunks 2 [[Some ''1'', Some ''2''], [Some ''3'', None], [Some ''5'', Some ''6'']])) 10000 0 ''a,b\<newline>1,2\<newline>3,\<newline>5,6'') = 1"
proof -
  note rd = ex_read
  have an: "analyze_csv_quality_chunked 2 10000 0 ''a,b\<newline>1,2\<newline>3,\<newline>5,6'' =
       Inr (build_report [''a'', ''b''] (scan_chunks [''a'', ''b''] 0 init_scan (pd_chunks 2 [[Some ''1'', Some ''2''], [Some ''3'', None], [Some ''5'', Some ''6'']])) 10000 0 ''a,b\<newline>1,2\<newline>3,\<newline>5,6'')"
    using analyze_readable [OF rd] by simp
  show ?thesis using analyze_missing_exact [OF rd _ an] rd an by simp
qed

text \<open>C6: the unique-value count of every column is at most 300 and never the sentinel 1000+: only the first three batches contribute, each at most 100 values.\<close>

theorem analyze_unique_never_capped:
  assumes "analyze_csv_quality_chunked n ss sz text = Inr r"
    and "distinct (map fst (column_analysis r))"
    and "cr \<in> snd ` set (column_analysis r)"
  shows "\<exists>u \<le> 300. unique_values cr = UCount u"
proof -
  obtain t where "read_csv_strict text = Inr t"
    and r: "r = build_report (tcolumns t) (scan_chunks (tcolumns t) 0 init_scan (pd_chunks n (trows t))) ss sz text"
    using assms(1) by (rule analyze_Inr)
  let ?cols = "tcolumns t"
  have d: "distinct ?cols" using assms(2) r by (simp add: report_columns_fst)
  from assms(3) obtain j where j: "j < length (column_analysis r)" "cr = snd (column_analysis r ! j)"
    by (auto simp: in_set_conv_nth)
  have jl: "j < length ?cols" using j(1) r by (simp add: build_report_def Let_def)
  let ?st = "scan_chunks ?cols 0 init_scan (pd_chunks n (trows t))"
  have "cr = mk_column_report (rows_seen ?st) (col_stats ?st (?cols ! j))"
    using j(2) r jl by (simp add: report_column)
  then have "cr = mk_column_report (rows_seen ?st) (col_scan j 0 empty_stats (pd_chunks n (trows t)))"
    by (simp only: report_stats [OF d jl])
  then show ?thesis
    using col_scan_uniques_300 [of j "pd_chunks n (trows t)"] by (auto simp: mk_column_report_def Let_def)
qed


lemma ex_analyze:
  "analyze_csv_quality_chunked 2 10000 0 ''a,b\<newline>1,2\<newline>3,\<newline>5,6'' = Inr (build_report [''a'', ''b''] (scan_chunks [''a'', ''b''] 0 init_scan (pd_chunks 2 [[Some ''1'', Some ''2''], [Some ''3'', None], [Some ''5'', Some ''6'']])) 10000 0 ''a,b\<newline>1,2\<newline>3,\<newline>5,6'')"
  using analyze_readable [OF ex_read] by simp

theorem analyze_unique_never_capped_witness:
  "analyze_csv_quality_chunked 2 10000 0 ''a,b\<newline>1,2\<newline>3,\<newline>5,6'' = Inr (build_report [''a'', ''b''] (scan_chunks [''a'', ''b''] 0 init_scan (pd_chunks 2 [[Some ''1'', Some ''2''], [Some ''3'', None], [Some ''5'', Some ''6'']])) 10000 0 ''a,b\<newline>1,2\<newline>3,\<newline>5,6'')
   \<and> distinct (map fst (column_analysis (build_report [''a'', ''b''] (scan_chunks [''a'', ''b''] 0 init_scan (pd_chunks 2 [[Some ''1'', Some ''2''], [Some ''3'', None], [Some ''5'', Some ''6'']])) 10000 0 ''a,b\<newline>1,2\<newline>3,\<newline>5,6'')))
   \<and> snd (column_analysis (build_report [''a'', ''b''] (scan_chunks [''a'', ''b''] 0 init_scan (pd_chunks 2 [[Some ''1'', Some ''2''], [Some ''3'', None], [Some ''5'', Some ''6'']])) 10000 0 ''a,b\<newline>1,2\<newline>3,\<newline>5,6'') ! 1) \<in> snd ` set (column_analysis (build_report [''a'', ''b''] (scan_chunks [''a'', ''b''] 0 init_scan (pd_chunks 2 [[Some ''1'', Some ''2''], [Some ''3'', None], [Some ''5'', Some ''6'']])) 10000 0 ''a,b\<newline>1,2\<newline>3,\<newline>5,6''))
   \<and> (\<exists>u \<le> 300. unique_values (snd (column_analysis (build_report [''a'', ''b''] (scan_chunks [''a'', ''b''] 0 init_scan (pd_chunks 2 [[Some ''1'', Some ''2''], [Some ''3'', None], [Some ''5'', Some ''6'']])) 10000 0 ''a,b\<newline>1,2\<newline>3,\<newline>5,6'') ! 1)) = UCount u)"
proof -
  have d: "distinct (map fst (column_analysis (build_report [''a'', ''b''] (scan_chunks [''a'', ''b''] 0 init_scan (pd_chunks 2 [[Some ''1'', Some ''2''], [Some ''3'', None], [Some ''5'', Some ''6'']])) 10000 0 ''a,b\<newline>1,2\<newline>3,\<newline>5,6'')))" by (simp only: report_columns_fst) simp
  have m: "snd (column_analysis (build_report [''a'', ''b''] (scan_chunks [''a'', ''b''] 0 init_scan (pd_chunks 2 [[Some ''1'', Some ''2''], [Some ''3'', None], [Some ''5'', Some ''6'']])) 10000 0 ''a,b\<newline>1,2\<newline>3,\<newline>5,6'') ! 1) \<in> snd ` set (column_analysis (build_report [''a'', ''b''] (scan_chunks [''a'', ''b''] 0 init_scan (pd_chunks 2 [[Some ''1'', Some ''2''], [Some ''3'', None], [Some ''5'', Some ''6'']])) 10000 0 ''a,b\<newline>1,2\<newline>3,\<newline>5,6''))"
    by (rule imageI, rule nth_mem) (simp add: build_report_def Let_def)
  show ?thesis using analyze_unique_never_capped [OF ex_analyze d m] ex_analyze d m by simp
qed

text \<open>C8: the duplicate estimate of every successful analysis is 0, however many rows of the file repeat: the sample read passes \<open>low_memory=False\<close> with \<open>engine="python"\<close>, pandas rejects that combination with a \<open>ValueError\<close>, and the bare \<open>except\<close> sets the estimate to 0.\<close>

theorem analyze_duplicates_zero:
  assumes "analyze_csv_quality_chunked n ss sz text = Inr r"
  shows "duplicate_rows r = 0"
proof -
  obtain t where "read_csv_strict text = Inr t"
    and r: "r = build_report (tcolumns t) (scan_chunks (tcolumns t) 0 init_scan (pd_chunks n (trows t))) ss sz text"
    using assms by (rule analyze_Inr)
  then show ?thesis by (simp add: build_report_def Let_def)
qed

theorem analyze_duplicates_zero_witness:
  "\<exists>r. analyze_csv_quality_chunked 2 10000 0 ''a\<newline>1\<newline>1'' = Inr r
     \<and> dup_count [[Some ''1''], [Some ''1'']] = 1 \<and> duplicate_rows r = 0"
proof -
  have rd: "read_csv_strict ''a\<newline>1\<newline>1'' = Inr \<lparr>tcolumns = [''a''], trows = [[Some ''1''], [Some ''1'']]\<rparr>"
    by (simp add: read_csv_strict_def read_header_def csv_lines_def mk_table_def pad_row_def read_cell_def
        na_values_def row_ok_def data_width_def read_row_def)
  note an = analyze_readable [OF rd, of 2 10000 0]
  have d: "dup_count [[Some ''1''], [Some ''1'']] = 1"
    by (simp add: dup_count_def duplicated_def)
  show ?thesis using analyze_duplicates_zero [OF an] an d by simp
qed

text \<open>C9: the analysis fails exactly when pandas cannot read the file strictly (no header, or a data line with more fields than the header), whatever the position of the bad line.\<close>

theorem analyze_fails_iff_unreadable:
  "(\<exists>e. analyze_csv_quality_chunked n ss sz text = Inl e) \<longleftrightarrow> (\<exists>e. read_csv_strict text = Inl e)"
proof
  assume "\<exists>e. analyze_csv_quality_chunked n ss sz text = Inl e"
  then show "\<exists>e. read_csv_strict text = Inl e"
    by (cases "read_csv_strict text") (auto simp: analyze_readable)
next
  assume "\<exists>e. read_csv_strict text = Inl e"
  then show "\<exists>e. analyze_csv_quality_chunked n ss sz text = Inl e"
    by (auto dest: analyze_unreadable)
qed

text \<open>C10: the reported missing percentage lies between 0 and 100.\<close>

theorem analyze_missing_percentage_bounds:
  assumes "analyze_csv_quality_chunked n ss sz text = Inr r"
    and "distinct (map fst (column_analysis r))"
  shows "0 \<le> missing_percentage r \<and> missing_percentage r \<le> 100"
proof -
  obtain t where rd: "read_csv_strict text = Inr t"
    and r: "r = build_report (tcolumns t) (scan_chunks (tcolumns t) 0 init_scan (pd_chunks n (trows t))) ss sz text"
    using assms(1) by (rule analyze_Inr)
  have d: "distinct (tcolumns t)" using assms(2) r by (simp add: report_columns_fst)
  have w: "\<forall>row\<in>set (trows t). length row = length (tcolumns t)"
    using rows_width [OF rd] by blast
  have m: "missing_cells r = count_list (concat (trows t)) None"
    by (rule analyze_missing_count [OF rd d assms(1)])
  have "total_cells r = length (trows t) * length (tcolumns t)"
    using r by (simp add: build_report_def Let_def rows_seen_scan_chunks init_scan_def)
  then have c: "total_cells r = length (concat (trows t))"
    by (simp add: length_concat_width [OF w])
  have le: "missing_cells r \<le> total_cells r"
    using m c by (simp add: count_list_filter_eq)
  have p: "missing_percentage r = (if 0 < total_cells r then round2 (real (missing_cells r) / real (total_cells r) * 100) else 0)"
    using r by (simp add: build_report_def Let_def)
  show ?thesis
  proof (cases "0 < total_cells r")
    case True
    from le have "real (missing_cells r) * 100 \<le> 100 * real (total_cells r)" by simp
    then have "real (missing_cells r) / real (total_cells r) * 100 \<le> 100" using True by (simp add: field_simps)
    then show ?thesis using True p round2_bounds by simp
  next
    case False
    then show ?thesis using p by simp
  qed
qed

theorem analyze_missing_percentage_bounds_witness:
  "analyze_csv_quality_chunked 2 10000 0 ''a,b\<newline>1,2\<newline>3,\<newline>5,6'' = Inr (build_report [''a'', ''b''] (scan_chunks [''a'', ''b''] 0 init_scan (pd_chunks 2 [[Some ''1'', Some ''2''], [Some ''3'', None], [Some ''5'', Some ''6'']])) 10000 0 ''a,b\<newline>1,2\<newline>3,\<newline>5,6'')
   \<and> distinct (map fst (column_analysis (build_report [''a'', ''b''] (scan_chunks [''a'', ''b''] 0 init_scan (pd_chunks 2 [[Some ''1'', Some ''2''], [Some ''3'', None], [Some ''5'', Some ''6'']])) 10000 0 ''a,b\<newline>1,2\<newline>3,\<newline>5,6'')))
   \<and> 0 \<le> missing_percentage (build_report [''a'', ''b''] (scan_chunks [''a'', ''b''] 0 init_scan (pd_chunks 2 [[Some ''1'', Some ''2''], [Some ''3'', None], [Some ''5'', Some ''6'']])) 10000 0 ''a,b\<newline>1,2\<newline>3,\<newline>5,6'') \<and> missing_percentage (build_report [''a'', ''b''] (scan_chunks [''a'', ''b''] 0 init_scan (pd_chunks 2 [[Some ''1'', Some ''2''], [Some ''3'', None], [Some ''5'', Some ''6'']])) 10000 0 ''a,b\<newline>1,2\<newline>3,\<newline>5,6'') \<le> 100"
proof -
  have d: "distinct (map fst (column_analysis (build_report [''a'', ''b''] (scan_chunks [''a'', ''b''] 0 init_scan (pd_chunks 2 [[Some ''1'', Some ''2''], [Some ''3'', None], [Some ''5'', Some ''6'']])) 10000 0 ''a,b\<newline>1,2\<newline>3,\<newline>5,6'')))" by (simp only: report_columns_fst) simp
  show ?thesis using analyze_missing_percentage_bounds [OF ex_analyze d] ex_analyze d by simp
qed


theorem analyze_batch_size_independent_witness:
  "0 < (1::nat) \<and> 0 < (2::nat) \<and> distinct [''a'', ''b'']
   \<and> read_csv_strict ''a,b\<newline>1,2\<newline>3,\<newline>5,6'' = Inr \<lparr>tcolumns = [''a'', ''b''], trows = [[Some ''1'', Some ''2''], [Some ''3'', None], [Some ''5'', Some ''6'']]\<rparr>
   \<and> map_sum id report_exact (analyze_csv_quality_chunked 1 10000 0 ''a,b\<newline>1,2\<newline>3,\<newline>5,6'')
     = map_sum id report_exact (analyze_csv_quality_chunked 2 10000 0 ''a,b\<newline>1,2\<newline>3,\<newline>5,6'')"
  using analyze_batch_size_independent [OF _ _ _ ex_read, of 1 2 10000 0] ex_read by simp

text \<open>C5: each column entry of the report names its column, counts exactly that column's missing cells, and samples its first three present values in file order.\<close>

theorem analyze_column_exact:
  assumes "read_csv_strict text = Inr t" and "distinct (tcolumns t)" and "j < length (tcolumns t)"
    and "analyze_csv_quality_chunked n ss sz text = Inr r"
  shows "fst (column_analysis r ! j) = tcolumns t ! j
       \<and> col_missing (snd (column_analysis r ! j)) = count_list (column_of (trows t) j) None
       \<and> sample_values (snd (column_analysis r ! j)) = take 3 (map JStr (present (column_of (trows t) j)))"
proof -
  let ?st = "scan_chunks (tcolumns t) 0 init_scan (pd_chunks n (trows t))"
  have r: "r = build_report (tcolumns t) ?st ss sz text"
    using assms(1,4) by (simp add: analyze_readable)
  have "column_analysis r ! j = (tcolumns t ! j, mk_column_report (rows_seen ?st) (col_stats ?st (tcolumns t ! j)))"
    using r assms(3) by (simp add: report_column)
  then have "column_analysis r ! j = (tcolumns t ! j, mk_column_report (rows_seen ?st) (col_scan j 0 empty_stats (pd_chunks n (trows t))))"
    by (simp only: report_stats [OF assms(2,3)])
  then show ?thesis
    by (simp add: mk_column_report_def col_scan_missing_empty col_scan_samples_empty)
qed

theorem analyze_column_exact_witness:
  "read_csv_strict ''a,b\<newline>1,2\<newline>3,\<newline>5,6'' = Inr \<lparr>tcolumns = [''a'', ''b''], trows = [[Some ''1'', Some ''2''], [Some ''3'', None], [Some ''5'', Some ''6'']]\<rparr>
   \<and> distinct [''a'', ''b''] \<and> 1 < length [''a'', ''b'']
   \<and> analyze_csv_quality_chunked 2 10000 0 ''a,b\<newline>1,2\<newline>3,\<newline>5,6'' = Inr (build_report [''a'', ''b''] (scan_chunks [''a'', ''b''] 0 init_scan (pd_chunks 2 [[Some ''1'', Some ''2''], [Some ''3'', None], [Some ''5'', Some ''6'']])) 10000 0 ''a,b\<newline>1,2\<newline>3,\<newline>5,6'')
   \<and> fst (column_analysis (build_report [''a'', ''b''] (scan_chunks [''a'', ''b''] 0 init_scan (pd_chunks 2 [[Some ''1'', Some ''2''], [Some ''3'', None], [Some ''5'', Some ''6'']])) 10000 0 ''a,b\<newline>1,2\<newline>3,\<newline>5,6'') ! 1) = ''b''
   \<and> col_missing (snd (column_analysis (build_report [''a'', ''b''] (scan_chunks [''a'', ''b''] 0 init_scan (pd_chunks 2 [[Some ''1'', Some ''2''], [Some ''3'', None], [Some ''5'', Some ''6'']])) 10000 0 ''a,b\<newline>1,2\<newline>3,\<newline>5,6'') ! 1)) = 1
   \<and> sample_values (snd (column_analysis (build_report [''a'', ''b''] (scan_chunks [''a'', ''b''] 0 init_scan (pd_chunks 2 [[Some ''1'', Some ''2''], [Some ''3'', None], [Some ''5'', Some ''6'']])) 10000 0 ''a,b\<newline>1,2\<newline>3,\<newline>5,6'') ! 1)) = [JStr ''2'', JStr ''6'']"
  using analyze_column_exact [OF ex_read _ _ ex_analyze, of 1] ex_read ex_analyze
  by (simp add: column_of_def)

text \<open>C4: the per-column missing counts of the report add up to missing_cells.\<close>

theorem analyze_missing_sum:
  assumes "analyze_csv_quality_chunked n ss sz text = Inr r"
    and "distinct (map fst (column_analysis r))"
  shows "sum_list (map (\<lambda>(c, cr). col_missing cr) (column_analysis r)) = missing_cells r"
proof -
  obtain t where "read_csv_strict text = Inr t"
    and r: "r = build_report (tcolumns t) (scan_chunks (tcolumns t) 0 init_scan (pd_chunks n (trows t))) ss sz text"
    using assms(1) by (rule analyze_Inr)
  have d: "distinct (tcolumns t)" using assms(2) r by (simp add: report_columns_fst)
  then show ?thesis
    using r by (simp add: build_report_def Let_def mk_column_report_def distinct_remdups_id comp_def)
qed

theorem analyze_missing_sum_witness:
  "analyze_csv_quality_chunked 2 10000 0 ''a,b\<newline>1,2\<newline>3,\<newline>5,6'' = Inr (build_report [''a'', ''b''] (scan_chunks [''a'', ''b''] 0 init_scan (pd_chunks 2 [[Some ''1'', Some ''2''], [Some ''3'', None], [Some ''5'', Some ''6'']])) 10000 0 ''a,b\<newline>1,2\<newline>3,\<newline>5,6'')
   \<and> distinct (map fst (column_analysis (build_report [''a'', ''b''] (scan_chunks [''a'', ''b''] 0 init_scan (pd_chunks 2 [[Some ''1'', Some ''2''], [Some ''3'', None], [Some ''5'', Some ''6'']])) 10000 0 ''a,b\<newline>1,2\<newline>3,\<newline>5,6'')))
   \<and> sum_list (map (\<lambda>(c, cr). col_missing cr) (column_analysis (build_report [''a'', ''b''] (scan_chunks [''a'', ''b''] 0 init_scan (pd_chunks 2 [[Some ''1'', Some ''2''], [Some ''3'', None], [Some ''5'', Some ''6'']])) 10000 0 ''a,b\<newline>1,2\<newline>3,\<newline>5,6''))) = missing_cells (build_report [''a'', ''b''] (scan_chunks [''a'', ''b''] 0 init_scan (pd_chunks 2 [[Some ''1'', Some ''2''], [Some ''3'', None], [Some ''5'', Some ''6'']])) 10000 0 ''a,b\<newline>1,2\<newline>3,\<newline>5,6'')"
proof -
  have d: "distinct (map fst (column_analysis (build_report [''a'', ''b''] (scan_chunks [''a'', ''b''] 0 init_scan (pd_chunks 2 [[Some ''1'', Some ''2''], [Some ''3'', None], [Some ''5'', Some ''6'']])) 10000 0 ''a,b\<newline>1,2\<newline>3,\<newline>5,6'')))" by (simp only: report_columns_fst) simp
  show ?thesis using analyze_missing_sum [OF ex_analyze d] ex_analyze d by simp
qed

end
