(* ===== verification/Frames.thy ===== *)
theory Frames
  imports Csv_Reader
begin

text \<open>
  Typed DataFrames, as \<open>pd.read_csv\<close> without \<open>dtype=str\<close> builds them and as the
  Transform Engine manipulates them. This is library behaviour, modelled from pandas'
  documentation: a column is \<open>int64\<close> (\<open>IntCol\<close>, never missing), \<open>float64\<close>
  (\<open>FloatCol\<close>, missing is NaN) or \<open>object\<close> (\<open>ObjCol\<close>, text or missing). A
  frame keeps its column names, its columns and the length of its index.
  The reader infers a column's type from its text: all present cells integer literals
  and none missing gives \<open>int64\<close>; all present cells numeric gives \<open>float64\<close>
  (an integer column with a missing cell also becomes \<open>float64\<close>); anything else
  stays \<open>object\<close>; a column without rows is \<open>object\<close>. Numeric literals are an
  optional sign, digits, an optional fraction and an optional exponent; the literals
  \<open>inf\<close>, thousands separators and surrounding blanks are not modelled.
\<close>

section \<open>Cells, columns, frames\<close>

datatype cell = NA | CInt int | CFloat real | CStr string

datatype column = IntCol "int list" | FloatCol "real option list" | ObjCol "string option list"

record frame =
  fcolumns :: "string list"
  fdata :: "column list"
  flen :: nat

fun col_len :: "column \<Rightarrow> nat" where
  "col_len (IntCol xs) = length xs"
| "col_len (FloatCol xs) = length xs"
| "col_len (ObjCol xs) = length xs"

fun cell_at :: "column \<Rightarrow> nat \<Rightarrow> cell" where
  "cell_at (IntCol xs) i = CInt (xs ! i)"
| "cell_at (FloatCol xs) i = (case xs ! i of None \<Rightarrow> NA | Some r \<Rightarrow> CFloat r)"
| "cell_at (ObjCol xs) i = (case xs ! i of None \<Rightarrow> NA | Some s \<Rightarrow> CStr s)"

definition frame_row :: "frame \<Rightarrow> nat \<Rightarrow> cell list" where
  "frame_row f i = map (\<lambda>c. cell_at c i) (fdata f)"

definition frame_rows :: "frame \<Rightarrow> cell list list" where
  "frame_rows f = map (frame_row f) [0..<flen f]"

fun select_col :: "nat list \<Rightarrow> column \<Rightarrow> column" where
  "select_col is (IntCol xs) = IntCol (map ((!) xs) is)"
| "select_col is (FloatCol xs) = FloatCol (map ((!) xs) is)"
| "select_col is (ObjCol xs) = ObjCol (map ((!) xs) is)"

text \<open>Keep the rows at the given positions, in that order (boolean-mask indexing).\<close>

definition select_rows :: "nat list \<Rightarrow> frame \<Rightarrow> frame" where
  "select_rows is f = f\<lparr>fdata := map (select_col is) (fdata f), flen := length is\<rparr>"

definition map_cols :: "(column \<Rightarrow> column) \<Rightarrow> frame \<Rightarrow> frame" where
  "map_cols g f = f\<lparr>fdata := map g (fdata f)\<rparr>"

text \<open>A frame is well formed when it has one column per name and every column is as
  long as the index.\<close>

definition wf_frame :: "frame \<Rightarrow> bool" where
  "wf_frame f \<longleftrightarrow> length (fdata f) = length (fcolumns f) \<and> (\<forall>c\<in>set (fdata f). col_len c = flen f)"

section \<open>Numeric literals\<close>

definition is_digit :: "char \<Rightarrow> bool" where
  "is_digit c \<longleftrightarrow> (let n = of_char c :: nat in 48 \<le> n \<and> n \<le> 57)"

definition digits_val :: "string \<Rightarrow> nat" where
  "digits_val ds = foldl (\<lambda>a c. 10 * a + (of_char c - 48)) 0 ds"

datatype num_lit = NInt int | NFloat real

definition lex_sign :: "string \<Rightarrow> int \<times> string" where
  "lex_sign s =
     (case s of
        [] \<Rightarrow> (1, [])
      | c # r \<Rightarrow> if c = CHR ''-'' then (-1, r) else if c = CHR ''+'' then (1, r) else (1, s))"

definition lex_exponent :: "string \<Rightarrow> int option" where
  "lex_exponent s =
     (case s of
        [] \<Rightarrow> Some 0
      | c # r \<Rightarrow>
          if c = CHR ''e'' \<or> c = CHR ''E''
          then (case lex_sign r of (sg, ds) \<Rightarrow>
                  if ds \<noteq> [] \<and> (\<forall>d\<in>set ds. is_digit d) then Some (sg * int (digits_val ds)) else None)
          else None)"

definition scale10 :: "int \<Rightarrow> real" where
  "scale10 e = (if 0 \<le> e then 10 ^ nat e else 1 / 10 ^ nat (- e))"

definition lex_number :: "string \<Rightarrow> num_lit option" where
  "lex_number s =
     (case lex_sign s of (sg, body) \<Rightarrow>
       let ip = takeWhile is_digit body; r1 = dropWhile is_digit body in
       if r1 = [] then (if ip = [] then None else Some (NInt (sg * int (digits_val ip))))
       else
         (let fp = (if hd r1 = CHR ''.'' then takeWhile is_digit (tl r1) else []);
              r2 = (if hd r1 = CHR ''.'' then dropWhile is_digit (tl r1) else r1)
          in if ip = [] \<and> fp = [] then None
             else (case lex_exponent r2 of
                     None \<Rightarrow> None
                   | Some e \<Rightarrow> Some (NFloat (of_int sg * real (digits_val (ip @ fp)) / 10 ^ length fp * scale10 e)))))"

fun num_real :: "num_lit \<Rightarrow> real" where
  "num_real (NInt i) = of_int i"
| "num_real (NFloat r) = r"

definition int_lit :: "string \<Rightarrow> int option" where
  "int_lit s = (case lex_number s of Some (NInt i) \<Rightarrow> Some i | _ \<Rightarrow> None)"

definition real_lit :: "string \<Rightarrow> real" where
  "real_lit s = (case lex_number s of Some l \<Rightarrow> num_real l | None \<Rightarrow> 0)"

section \<open>Type inference of the reader\<close>

definition all_present :: "(string \<Rightarrow> bool) \<Rightarrow> string option list \<Rightarrow> bool" where
  "all_present P vs \<longleftrightarrow> (\<forall>v\<in>set vs. case v of None \<Rightarrow> True | Some s \<Rightarrow> P s)"

definition infer_column :: "string option list \<Rightarrow> column" where
  "infer_column vs =
     (if vs = [] then ObjCol []
      else if all_present (\<lambda>s. int_lit s \<noteq> None) vs
      then (if None \<in> set vs then FloatCol (map (map_option real_lit) vs)
            else IntCol (map (\<lambda>v. case v of Some s \<Rightarrow> (case int_lit s of Some i \<Rightarrow> i | None \<Rightarrow> 0) | None \<Rightarrow> 0) vs))
      else if all_present (\<lambda>s. lex_number s \<noteq> None) vs then FloatCol (map (map_option real_lit) vs)
      else ObjCol vs)"

text \<open>The frame pandas builds from a table of text cells (one batch, or the file).\<close>

definition to_frame :: "table \<Rightarrow> frame" where
  "to_frame t =
     \<lparr>fcolumns = tcolumns t,
      fdata = map (\<lambda>j. infer_column (map (\<lambda>r. r ! j) (trows t))) [0..<length (tcolumns t)],
      flen = length (trows t)\<rparr>"

section \<open>Facts about frames\<close>

lemma col_len_infer [simp]: "col_len (infer_column vs) = length vs"
  by (simp add: infer_column_def)

lemma wf_to_frame: "wf_frame (to_frame t)"
  by (auto simp: wf_frame_def to_frame_def)

lemma length_frame_rows [simp]: "length (frame_rows f) = flen f"
  by (simp add: frame_rows_def)

lemma frame_rows_nth: "i < flen f \<Longrightarrow> j < length (fdata f) \<Longrightarrow> frame_rows f ! i ! j = cell_at (fdata f ! j) i"
  by (simp add: frame_rows_def frame_row_def)

lemma col_len_select [simp]: "col_len (select_col is c) = length is"
  by (cases c) auto

lemma wf_select_rows: "wf_frame f \<Longrightarrow> wf_frame (select_rows is f)"
  by (auto simp: wf_frame_def select_rows_def)

lemma cell_at_select: "\<forall>i\<in>set is. i < col_len c \<Longrightarrow> k < length is \<Longrightarrow> cell_at (select_col is c) k = cell_at c (is ! k)"
  by (cases c) auto

lemma frame_rows_select:
  assumes "wf_frame f" and "\<forall>i\<in>set is. i < flen f"
  shows "frame_rows (select_rows is f) = map (frame_row f) is"
proof -
  have "frame_row (select_rows is f) k = frame_row f (is ! k)" if "k < length is" for k
    using assms that by (auto simp: frame_row_def select_rows_def wf_frame_def cell_at_select)
  then show ?thesis
    by (auto simp: frame_rows_def select_rows_def intro: nth_equalityI)
qed

lemma wf_map_cols: "wf_frame f \<Longrightarrow> (\<And>c. col_len (g c) = col_len c) \<Longrightarrow> wf_frame (map_cols g f)"
  by (simp add: wf_frame_def map_cols_def)

end
