(* ===== verification/Transform.thy ===== *)
theory Transform
  imports Frames
begin

text \<open>
  The Transform Engine: \<open>apply_preprocessing_options\<close> (csv_controller.py, lines
  257-291) on a frame, and the background task \<open>preprocess_csv_task_chunked\<close>
  (lines 180-255) with its two modes. The options are the JSON object of the request
  (\<open>py_dict\<close>), read with \<open>options.get\<close> and Python truthiness (\<open>opt_flag\<close>).
  The task's effects are on a \<open>world\<close>: the CSV files it writes (\<open>outputs\<close>:
  header and rows of cells, \<open>to_csv\<close> mode \<open>'w'\<close> replacing, mode \<open>'a'\<close> without
  header appending) and the Redis store (\<open>redis\<close>: value and time-to-live), where
  each batch leaves its progress record \<open>progress:<path>\<close>. The input file's text is
  an argument; the batch size is a parameter (\<open>CHUNK_SIZE\<close> in the source).
\<close>

section \<open>Cleaning operations on a frame\<close>

fun somes :: "'a option list \<Rightarrow> 'a list" where
  "somes [] = []"
| "somes (None # xs) = somes xs"
| "somes (Some x # xs) = x # somes xs"

text \<open>\<open>df.dropna()\<close>: drop every row holding a missing cell.\<close>

definition dropna :: "frame \<Rightarrow> frame" where
  "dropna f = select_rows (filter (\<lambda>i. NA \<notin> set (frame_row f i)) [0..<flen f]) f"

text \<open>\<open>df.drop_duplicates()\<close>: keep the first of equal rows (all columns compared).\<close>

definition drop_duplicates :: "frame \<Rightarrow> frame" where
  "drop_duplicates f =
     select_rows (filter (\<lambda>i. \<not> duplicated (frame_rows f) ! i) [0..<flen f]) f"

definition mean_of :: "real list \<Rightarrow> real" where
  "mean_of xs = sum_list xs / real (length xs)"

definition median_of :: "real list \<Rightarrow> real" where
  "median_of xs =
     (let s = sort xs; n = length xs in
      if odd n then s ! (n div 2) else (s ! (n div 2 - 1) + s ! (n div 2)) / 2)"

text \<open>\<open>df[col] = df[col].fillna(stat)\<close> for the numeric columns; the statistic of a
  column without any value is NaN, and filling with NaN changes nothing.\<close>

fun fill_numeric :: "(real list \<Rightarrow> real) \<Rightarrow> column \<Rightarrow> column" where
  "fill_numeric stat (FloatCol xs) =
     (if somes xs = [] then FloatCol xs
      else FloatCol (map (\<lambda>v. case v of None \<Rightarrow> Some (stat (somes xs)) | Some r \<Rightarrow> Some r) xs))"
| "fill_numeric stat c = c"

text \<open>\<open>Series.mode()\<close>: the most frequent present values in ascending order; the code
  takes the first.\<close>

definition max_count :: "'a list \<Rightarrow> nat" where
  "max_count xs = foldr (\<lambda>x m. max (count_list xs x) m) xs 0"

definition mode_of :: "'a::linorder list \<Rightarrow> 'a option" where
  "mode_of xs =
     (case sort (filter (\<lambda>x. count_list xs x = max_count xs) (remdups xs)) of
        [] \<Rightarrow> None
      | m # _ \<Rightarrow> Some m)"

definition fill_with :: "'a \<Rightarrow> 'a option list \<Rightarrow> 'a option list" where
  "fill_with m xs = map (\<lambda>v. case v of None \<Rightarrow> Some m | Some x \<Rightarrow> Some x) xs"

text \<open>Lines 272-276, one column.\<close>

fun fill_mode :: "column \<Rightarrow> column" where
  "fill_mode (IntCol xs) = IntCol xs"
| "fill_mode (FloatCol xs) =
     (if None \<in> set xs then (case mode_of (somes xs) of None \<Rightarrow> FloatCol xs | Some m \<Rightarrow> FloatCol (fill_with m xs))
      else FloatCol xs)"
| "fill_mode (ObjCol xs) =
     (if None \<in> set xs then (case mode_of (somes xs) of None \<Rightarrow> ObjCol xs | Some m \<Rightarrow> ObjCol (fill_with m xs))
      else ObjCol xs)"

text \<open>Lines 279-281: \<open>df[col].astype(str).str.strip()\<close> on the object columns;
  \<open>astype(str)\<close> renders a missing cell as the text \<open>'nan'\<close>.\<close>

fun trim_column :: "column \<Rightarrow> column" where
  "trim_column (ObjCol xs) = ObjCol (map (\<lambda>v. Some (py_strip (case v of None \<Rightarrow> ''nan'' | Some s \<Rightarrow> s))) xs)"
| "trim_column c = c"

text \<open>Lines 284-289: \<open>pd.to_numeric(df[col])\<close>, left unchanged on \<open>ValueError\<close>.
  Text converts when it is a numeric literal; the empty text and \<open>nan\<close> become NaN.
  The result is \<open>int64\<close> when every cell is an integer, \<open>float64\<close> otherwise.\<close>

definition numeric_text :: "string \<Rightarrow> num_lit option option" where
  "numeric_text s =
     (if s \<in> {'''', ''nan'', ''NaN''} then Some None else map_option Some (lex_number s))"

definition to_numeric_obj :: "string option list \<Rightarrow> column option" where
  "to_numeric_obj xs =
     (if \<forall>v\<in>set xs. case v of None \<Rightarrow> True | Some s \<Rightarrow> numeric_text s \<noteq> None
      then (let ns = map (\<lambda>v. case v of None \<Rightarrow> None | Some s \<Rightarrow> (case numeric_text s of Some n \<Rightarrow> n | None \<Rightarrow> None)) xs in
            if \<forall>n\<in>set ns. case n of Some (NInt _) \<Rightarrow> True | _ \<Rightarrow> False
            then Some (IntCol (map (\<lambda>n. case n of Some (NInt i) \<Rightarrow> i | _ \<Rightarrow> 0) ns))
            else Some (FloatCol (map (map_option num_real) ns)))
      else None)"

fun to_numeric :: "column \<Rightarrow> column" where
  "to_numeric (ObjCol xs) = (case to_numeric_obj xs of None \<Rightarrow> ObjCol xs | Some c \<Rightarrow> c)"
| "to_numeric c = c"

text \<open>The whole of \<open>apply_preprocessing_options\<close>: missing values, then whitespace,
  then types.\<close>

definition handle_missing :: "py_dict \<Rightarrow> frame \<Rightarrow> frame" where
  "handle_missing opts f =
     (case dict_get opts ''handle_missing'' of
        Some (JStr s) \<Rightarrow>
          if s = ''drop'' then dropna f
          else if s = ''fill_mean'' then map_cols (fill_numeric mean_of) f
          else if s = ''fill_median'' then map_cols (fill_numeric median_of) f
          else if s = ''fill_mode'' then map_cols fill_mode f
          else f
      | _ \<Rightarrow> f)"

definition apply_preprocessing_options :: "py_dict \<Rightarrow> frame \<Rightarrow> frame" where
  "apply_preprocessing_options opts f =
     (let f1 = handle_missing opts f;
          f2 = (if opt_flag opts ''trim_whitespace'' then map_cols trim_column f1 else f1)
      in if opt_flag opts ''convert_types'' then map_cols to_numeric f2 else f2)"

section \<open>Names and paths\<close>

text \<open>Line 193: \<open>col.strip().lower().replace(' ', '_')\<close>.\<close>

definition standardize_name :: "string \<Rightarrow> string" where
  "standardize_name c = py_replace (py_lower (py_strip c)) '' '' ''_''"

text \<open>Line 183: \<open>file_path.replace('.csv', '_processed.csv')\<close>.\<close>

definition processed_path :: "string \<Rightarrow> string" where
  "processed_path p = py_replace p ''.csv'' ''_processed.csv''"

section \<open>The world the task acts on\<close>

record world =
  outputs :: "string \<Rightarrow> (string list \<times> cell list list) option"
  redis :: "string \<Rightarrow> (jval \<times> nat) option"

text \<open>No output file, no Redis key.\<close>

definition empty_world :: world where
  "empty_world = \<lparr>outputs = (\<lambda>_. None), redis = (\<lambda>_. None)\<rparr>"

definition write_csv :: "string \<Rightarrow> string list \<Rightarrow> cell list list \<Rightarrow> world \<Rightarrow> world" where
  "write_csv p hdr rows w = w\<lparr>outputs := (outputs w)(p \<mapsto> (hdr, rows))\<rparr>"

definition append_csv :: "string \<Rightarrow> cell list list \<Rightarrow> world \<Rightarrow> world" where
  "append_csv p rows w =
     w\<lparr>outputs := (outputs w)(p \<mapsto> (case outputs w p of Some (h, rs) \<Rightarrow> (h, rs @ rows) | None \<Rightarrow> ([], rows)))\<rparr>"

definition setex :: "string \<Rightarrow> nat \<Rightarrow> jval \<Rightarrow> world \<Rightarrow> world" where
  "setex k ttl v w = w\<lparr>redis := (redis w)(k \<mapsto> (v, ttl))\<rparr>"

definition progress_key :: "string \<Rightarrow> string" where
  "progress_key p = ''progress:'' @ p"

definition progress_value :: "nat \<Rightarrow> jval" where
  "progress_value n = JObj [(''rows_processed'', JInt (int n))]"

datatype task_result =
    TaskSuccess string nat "nat option" "string list"  \<comment> \<open>output path, rows_processed, rows_removed, columns\<close>
  | TaskError read_error

section \<open>The task\<close>

text \<open>One batch as the streaming loop transforms it (lines 222-226): the batch
  read with type inference, renamed when asked, cleaned.\<close>

definition proc_chunk :: "py_dict \<Rightarrow> string list option \<Rightarrow> string list \<Rightarrow> string option list list \<Rightarrow> frame" where
  "proc_chunk opts ren hdr chunk =
     (let f0 = to_frame \<lparr>tcolumns = hdr, trows = chunk\<rparr>;
          f1 = (case ren of Some names \<Rightarrow> f0\<lparr>fcolumns := names\<rparr> | None \<Rightarrow> f0)
      in apply_preprocessing_options opts f1)"

text \<open>One step of the streaming loop (lines 220-242): transform, write (the first
  batch with mode \<open>'w'\<close> and header, the others appended), count, report progress.\<close>

definition stream_step ::
  "py_dict \<Rightarrow> string \<Rightarrow> string list option \<Rightarrow> string list \<Rightarrow> bool \<times> nat \<times> world \<Rightarrow> string option list list \<Rightarrow> bool \<times> nat \<times> world" where
  "stream_step opts p ren hdr st chunk =
     (case st of (first, n_done, w) \<Rightarrow>
       let f2 = proc_chunk opts ren hdr chunk;
           w1 = (if first then write_csv (processed_path p) (fcolumns f2) (frame_rows f2) w
                 else append_csv (processed_path p) (frame_rows f2) w);
           n_done' = n_done + flen f2
       in (False, n_done', setex (progress_key p) 300 (progress_value n_done') w1))"

definition stream_chunks ::
  "py_dict \<Rightarrow> string \<Rightarrow> string list option \<Rightarrow> string list \<Rightarrow> bool \<times> nat \<times> world \<Rightarrow> string option list list list \<Rightarrow> bool \<times> nat \<times> world" where
  "stream_chunks opts p ren hdr st cks = foldl (stream_step opts p ren hdr) st cks"

text \<open>Lines 196-215: the whole file at once, duplicates dropped first.\<close>

definition dedup_mode :: "py_dict \<Rightarrow> string \<Rightarrow> world \<Rightarrow> table \<Rightarrow> task_result \<times> world" where
  "dedup_mode opts p w t =
     (let df = to_frame t;
          original_rows = flen df;
          df1 = drop_duplicates df;
          n_kept = flen df1;
          df2 = apply_preprocessing_options opts df1
      in (TaskSuccess (processed_path p) n_kept (Some (original_rows - n_kept)) (fcolumns df2),
          write_csv (processed_path p) (fcolumns df2) (frame_rows df2) w))"

text \<open>Lines 180-255. Every exception is caught and returned as an error result; the
  effects already performed stay.\<close>

definition preprocess_csv_task_chunked :: "nat \<Rightarrow> py_dict \<Rightarrow> string \<Rightarrow> string \<Rightarrow> world \<Rightarrow> task_result \<times> world" where
  "preprocess_csv_task_chunked n opts p text w =
     (case read_csv_nrows 100 text of
        Inl e \<Rightarrow> (TaskError e, w)
      | Inr first \<Rightarrow>
          (let cols = (if opt_flag opts ''standardize_columns'' then map standardize_name (tcolumns first)
                       else tcolumns first)
           in if opt_flag opts ''remove_duplicates''
              then (case read_csv_strict text of
                      Inl e \<Rightarrow> (TaskError e, w)
                    | Inr t \<Rightarrow> dedup_mode opts p w t)
              else (case read_csv_chunks n text of
                      Inl e \<Rightarrow> (TaskError e, w)
                    | Inr (hdr, cks, err) \<Rightarrow>
                        (case stream_chunks opts p (if opt_flag opts ''standardize_columns'' then Some cols else None) hdr (True, 0, w) cks of
                           (_, n_done, w') \<Rightarrow>
                             (case err of
                                Some e \<Rightarrow> (TaskError e, w')
                              | None \<Rightarrow> (TaskSuccess (processed_path p) n_done None cols, w'))))))"

section \<open>Facts about the transforms and the task\<close>

lemma ex_dup_read:
  "read_csv_strict ''a,b\<newline>1,x\<newline>2,y\<newline>1,x\<newline>3,z\<newline>4,w'' =
     Inr \<lparr>tcolumns = [''a'', ''b''], trows = [[Some ''1'', Some ''x''], [Some ''2'', Some ''y''],
       [Some ''1'', Some ''x''], [Some ''3'', Some ''z''], [Some ''4'', Some ''w'']]\<rparr>"
  by (simp add: read_csv_strict_def read_header_def csv_lines_def mk_table_def pad_row_def read_cell_def
      na_values_def row_ok_def data_width_def read_row_def)

lemma ex_names_read:
  "read_csv_strict ''First Name,Last Name\<newline>Ada,Lovelace'' =
     Inr \<lparr>tcolumns = [''First Name'', ''Last Name''], trows = [[Some ''Ada'', Some ''Lovelace'']]\<rparr>"
  by (simp add: read_csv_strict_def read_header_def csv_lines_def mk_table_def pad_row_def read_cell_def
      na_values_def row_ok_def data_width_def read_row_def)

lemma first_bad_replicate:
  "row_ok w l \<Longrightarrow> \<not> row_ok w l' \<Longrightarrow> first_bad w (replicate k l @ [l']) = Some (k, length l')"
  by (induction k) auto

lemma fcolumns_select_rows [simp]: "fcolumns (select_rows is f) = fcolumns f"
  by (simp add: select_rows_def)

lemma fcolumns_map_cols [simp]: "fcolumns (map_cols g f) = fcolumns f"
  by (simp add: map_cols_def)

lemma fcolumns_handle_missing [simp]: "fcolumns (handle_missing opts f) = fcolumns f"
  by (simp add: handle_missing_def dropna_def split: option.splits jval.splits)

lemma fcolumns_apply [simp]: "fcolumns (apply_preprocessing_options opts f) = fcolumns f"
  by (simp add: apply_preprocessing_options_def Let_def)

lemma stream_chunks_Cons:
  "stream_chunks opts p ren hdr st (c # cs) = stream_chunks opts p ren hdr (stream_step opts p ren hdr st c) cs"
  by (simp add: stream_chunks_def)

lemma stream_chunks_append:
  "outputs w (processed_path p) = Some (h, rs) \<Longrightarrow>
   stream_chunks opts p ren hdr (False, k, w) cks =
     (False, k + sum_list (map (\<lambda>c. flen (proc_chunk opts ren hdr c)) cks),
      w\<lparr>outputs := (outputs w)(processed_path p \<mapsto> (h, rs @ concat (map (\<lambda>c. frame_rows (proc_chunk opts ren hdr c)) cks))),
        redis := (if cks = [] then redis w
                  else (redis w)(progress_key p \<mapsto> (progress_value (k + sum_list (map (\<lambda>c. flen (proc_chunk opts ren hdr c)) cks)), 300)))\<rparr>)"
proof (induction cks arbitrary: k w rs)
  case Nil
  then show ?case by (simp add: stream_chunks_def fun_upd_idem)
next
  case (Cons c cs)
  let ?f = "proc_chunk opts ren hdr c"
  let ?w1 = "setex (progress_key p) 300 (progress_value (k + flen ?f)) (append_csv (processed_path p) (frame_rows ?f) w)"
  have step: "stream_step opts p ren hdr (False, k, w) c = (False, k + flen ?f, ?w1)"
    by (simp add: stream_step_def Let_def)
  have o1: "outputs ?w1 (processed_path p) = Some (h, rs @ frame_rows ?f)"
    using Cons.prems by (simp add: setex_def append_csv_def)
  have "stream_chunks opts p ren hdr (False, k, w) (c # cs) = stream_chunks opts p ren hdr (False, k + flen ?f, ?w1) cs"
    by (simp add: stream_chunks_Cons step)
  also have "\<dots> = (False, k + flen ?f + sum_list (map (\<lambda>c. flen (proc_chunk opts ren hdr c)) cs),
      ?w1\<lparr>outputs := (outputs ?w1)(processed_path p \<mapsto> (h, (rs @ frame_rows ?f) @ concat (map (\<lambda>c. frame_rows (proc_chunk opts ren hdr c)) cs))),
        redis := (if cs = [] then redis ?w1
                  else (redis ?w1)(progress_key p \<mapsto> (progress_value (k + flen ?f + sum_list (map (\<lambda>c. flen (proc_chunk opts ren hdr c)) cs)), 300)))\<rparr>)"
    by (rule Cons.IH [OF o1])
  also have "\<dots> = (False, k + sum_list (map (\<lambda>c. flen (proc_chunk opts ren hdr c)) (c # cs)),
      w\<lparr>outputs := (outputs w)(processed_path p \<mapsto> (h, rs @ concat (map (\<lambda>c. frame_rows (proc_chunk opts ren hdr c)) (c # cs)))),
        redis := (if c # cs = [] then redis w
                  else (redis w)(progress_key p \<mapsto> (progress_value (k + sum_list (map (\<lambda>c. flen (proc_chunk opts ren hdr c)) (c # cs))), 300)))\<rparr>)"
    by (cases "cs = []") (simp_all add: setex_def append_csv_def add.assoc)
  finally show ?case .
qed

lemma stream_chunks_first:
  "stream_chunks opts p ren hdr (True, 0, w) (c # cs) =
     (False, sum_list (map (\<lambda>c. flen (proc_chunk opts ren hdr c)) (c # cs)),
      w\<lparr>outputs := (outputs w)(processed_path p \<mapsto> (fcolumns (proc_chunk opts ren hdr c), concat (map (\<lambda>c. frame_rows (proc_chunk opts ren hdr c)) (c # cs)))),
        redis := (redis w)(progress_key p \<mapsto> (progress_value (sum_list (map (\<lambda>c. flen (proc_chunk opts ren hdr c)) (c # cs))), 300))\<rparr>)"
proof -
  let ?f = "proc_chunk opts ren hdr c"
  let ?w1 = "setex (progress_key p) 300 (progress_value (flen ?f)) (write_csv (processed_path p) (fcolumns ?f) (frame_rows ?f) w)"
  have step: "stream_step opts p ren hdr (True, 0, w) c = (False, flen ?f, ?w1)"
    by (simp add: stream_step_def Let_def)
  have o1: "outputs ?w1 (processed_path p) = Some (fcolumns ?f, frame_rows ?f)"
    by (simp add: setex_def write_csv_def)
  show ?thesis
    using stream_chunks_append [OF o1, of opts ren hdr "flen ?f" cs]
    by (simp add: stream_chunks_Cons step) (simp add: setex_def write_csv_def)
qed

lemma pd_chunks_ne: "\<exists>c cs. pd_chunks n rows = c # cs"
  by (cases "rows = []") (auto simp: pd_chunks_def chunks.simps [of n rows])

lemma sum_flen_rows:
  "length (concat (map (\<lambda>c. frame_rows (proc_chunk opts ren hdr c)) cks)) = sum_list (map (\<lambda>c. flen (proc_chunk opts ren hdr c)) cks)"
  by (induction cks) auto

lemma task_stream_eq:
  assumes "read_csv_strict text = Inr t" and "\<not> opt_flag opts ''remove_duplicates''"
    and "pd_chunks n (trows t) = c # cs"
  defines "cols \<equiv> (if opt_flag opts ''standardize_columns'' then map standardize_name (tcolumns t) else tcolumns t)"
  defines "ren \<equiv> (if opt_flag opts ''standardize_columns'' then Some cols else None)"
  defines "N \<equiv> sum_list (map (\<lambda>c. flen (proc_chunk opts ren (tcolumns t) c)) (c # cs))"
  shows "preprocess_csv_task_chunked n opts p text w =
    (TaskSuccess (processed_path p) N None cols,
     w\<lparr>outputs := (outputs w)(processed_path p \<mapsto> (fcolumns (proc_chunk opts ren (tcolumns t) c), concat (map (\<lambda>c. frame_rows (proc_chunk opts ren (tcolumns t) c)) (c # cs)))),
       redis := (redis w)(progress_key p \<mapsto> (progress_value N, 300))\<rparr>)"
  using assms(1-3)
  by (simp add: preprocess_csv_task_chunked_def read_csv_nrows_strict read_csv_chunks_strict
      stream_chunks_first cols_def ren_def N_def Let_def)

text \<open>C11: In streaming mode (no \<open>remove_duplicates\<close>), a file that pandas reads succeeds; the count \<open>rows_processed\<close> of the result equals the number of rows in the output file, and the last progress record stored at \<open>progress:<path>\<close> holds the same count with a 300-second expiry. The result header is the standardized one when \<open>standardize_columns\<close> is set.\<close>

theorem stream_rows_processed:
  assumes "read_csv_strict text = Inr t" and "\<not> opt_flag opts ''remove_duplicates''"
  shows "\<exists>N hdr rows w'. preprocess_csv_task_chunked n opts p text w
            = (TaskSuccess (processed_path p) N None
                 (if opt_flag opts ''standardize_columns'' then map standardize_name (tcolumns t) else tcolumns t), w')
         \<and> outputs w' (processed_path p) = Some (hdr, rows) \<and> length rows = N
         \<and> redis w' (progress_key p) = Some (progress_value N, 300)"
proof -
  obtain c cs where cks: "pd_chunks n (trows t) = c # cs" using pd_chunks_ne by blast
  show ?thesis
    using task_stream_eq [OF assms cks, of p w] by (simp add: sum_flen_rows)
qed

theorem stream_rows_processed_witness:
  "\<exists>N hdr rows w'. preprocess_csv_task_chunked 2 [] ''d.csv'' ''a,b\<newline>1,2\<newline>3,\<newline>5,6'' empty_world
     = (TaskSuccess (processed_path ''d.csv'') N None [''a'', ''b''], w')
   \<and> outputs w' (processed_path ''d.csv'') = Some (hdr, rows) \<and> length rows = N
   \<and> redis w' (progress_key ''d.csv'') = Some (progress_value N, 300)"
  using stream_rows_processed [OF ex_read, of "[]" 2 "''d.csv''" empty_world] by (simp add: opt_flag_def dict_get_def)

lemma cell_at_infer_present:
  "i < length vs \<Longrightarrow> vs ! i \<noteq> None \<Longrightarrow> cell_at (infer_column vs) i \<noteq> NA"
  by (auto simp: infer_column_def split: option.splits)

lemma dropna_to_frame_all:
  assumes "\<forall>r\<in>set (trows t). None \<notin> set r \<and> length r = length (tcolumns t)"
  shows "flen (dropna (to_frame t)) = length (trows t)"
proof -
  have "NA \<notin> set (frame_row (to_frame t) i)" if "i < length (trows t)" for i
  proof -
    have "cell_at (infer_column (map (\<lambda>r. r ! j) (trows t))) i \<noteq> NA" if "j < length (tcolumns t)" for j
    proof (rule cell_at_infer_present)
      have r: "trows t ! i \<in> set (trows t)" using \<open>i < length (trows t)\<close> by simp
      then have "j < length (trows t ! i)" using assms that by simp
      then have "trows t ! i ! j \<in> set (trows t ! i)" by (rule nth_mem)
      then show "map (\<lambda>r. r ! j) (trows t) ! i \<noteq> None"
        using assms r \<open>i < length (trows t)\<close> by (metis nth_map)
    qed (simp add: \<open>i < length (trows t)\<close>)
    then show ?thesis by (auto simp: frame_row_def to_frame_def) metis
  qed
  then have "filter (\<lambda>i. NA \<notin> set (frame_row (to_frame t) i)) [0..<flen (to_frame t)] = [0..<flen (to_frame t)]"
    by (simp add: to_frame_def)
  then show ?thesis by (simp add: dropna_def select_rows_def to_frame_def)
qed

lemma proc_chunk_drop_len:
  assumes "\<forall>r\<in>set c. None \<notin> set r \<and> length r = length hdr"
  shows "flen (proc_chunk [(''handle_missing'', JStr ''drop'')] None hdr c) = length c"
proof -
  have "flen (dropna (to_frame \<lparr>tcolumns = hdr, trows = c\<rparr>)) = length c"
    using dropna_to_frame_all [of "\<lparr>tcolumns = hdr, trows = c\<rparr>"] assms by simp
  then show ?thesis
    by (simp add: proc_chunk_def apply_preprocessing_options_def handle_missing_def
        dict_get_def opt_flag_def)
qed

text \<open>C13: With \<open>handle_missing = "drop"\<close> on a file without missing cells, no row is dropped: the processed count equals the row count, whatever the batch size. The output path must differ from the input (a name ending in \<open>.csv\<close>): when \<open>replace\<close> leaves the path unchanged the first write truncates the file pandas is still reading, which the model does not describe.\<close>

theorem stream_drop_keeps_complete_rows:
  assumes "read_csv_strict text = Inr t" and "\<forall>r\<in>set (trows t). None \<notin> set r"
    and "processed_path p \<noteq> p"
  shows "fst (preprocess_csv_task_chunked n [(''handle_missing'', JStr ''drop'')] p text w)
       = TaskSuccess (processed_path p) (length (trows t)) None (tcolumns t)"
proof -
  obtain c cs where cks: "pd_chunks n (trows t) = c # cs" using pd_chunks_ne by blast
  have nr: "\<not> opt_flag [(''handle_missing'', JStr ''drop'')] ''remove_duplicates''" "\<not> opt_flag [(''handle_missing'', JStr ''drop'')] ''standardize_columns''"
    by (simp_all add: opt_flag_def dict_get_def)
  have w: "\<forall>r\<in>set (trows t). None \<notin> set r \<and> length r = length (tcolumns t)"
    using assms(2) rows_width [OF assms(1)] by blast
  have "\<forall>ck\<in>set (c # cs). \<forall>r\<in>set ck. None \<notin> set r \<and> length r = length (tcolumns t)"
    using w cks [symmetric] concat_pd_chunks [of n "trows t"] by (metis UN_I set_concat)
  then have "map (\<lambda>ck. flen (proc_chunk [(''handle_missing'', JStr ''drop'')] None (tcolumns t) ck)) (c # cs) = map length (c # cs)"
    by (simp add: proc_chunk_drop_len)
  then have "sum_list (map (\<lambda>ck. flen (proc_chunk [(''handle_missing'', JStr ''drop'')] None (tcolumns t) ck)) (c # cs)) = length (trows t)"
    using concat_pd_chunks [of n "trows t"] cks by (metis length_concat)
  then show ?thesis
    using task_stream_eq [OF assms(1) nr(1) cks, of p w] nr(2) by simp
qed

theorem stream_drop_keeps_complete_rows_witness:
  "fst (preprocess_csv_task_chunked 2 [(''handle_missing'', JStr ''drop'')] ''d.csv'' ''a,b\<newline>1,2\<newline>3,4\<newline>5,6'' empty_world)
     = TaskSuccess (processed_path ''d.csv'') 3 None [''a'', ''b'']"
  using stream_drop_keeps_complete_rows [of "''a,b\<newline>1,2\<newline>3,4\<newline>5,6''"]
  by (simp add: processed_path_def py_replace_def replace_ne.simps read_csv_strict_def read_header_def csv_lines_def mk_table_def pad_row_def read_cell_def
      na_values_def row_ok_def data_width_def read_row_def)

lemma fcolumns_drop_duplicates [simp]: "fcolumns (drop_duplicates f) = fcolumns f"
  by (simp add: drop_duplicates_def)

lemma to_frame_sel [simp]: "fcolumns (to_frame t) = tcolumns t" "flen (to_frame t) = length (trows t)"
  by (simp_all add: to_frame_def)

lemma flen_drop_duplicates: "flen (drop_duplicates f) = length (unique (frame_rows f))"
proof -
  have "flen (drop_duplicates f) = length (filter (\<lambda>i. \<not> duplicated (frame_rows f) ! i) [0..<length (duplicated (frame_rows f))])"
    by (simp add: drop_duplicates_def select_rows_def duplicated_def)
  also have "\<dots> = length (unique (frame_rows f))"
    by (simp only: length_filter_nth_not) (simp add: duplicated_def unique_def count_dup_marks)
  finally show ?thesis .
qed

lemma task_dedup_eq:
  assumes "read_csv_strict text = Inr t" and "opt_flag opts ''remove_duplicates''"
  shows "preprocess_csv_task_chunked n opts p text w = dedup_mode opts p w t"
  using assms by (simp add: preprocess_csv_task_chunked_def read_csv_nrows_strict Let_def)

text \<open>C12: With \<open>remove_duplicates\<close>, the task reports as processed the number of distinct rows of the file (first occurrences kept) and as removed the number of repeated rows, for any batch size.\<close>

theorem dedup_counts:
  assumes "read_csv_strict text = Inr t" and "opt_flag opts ''remove_duplicates''"
  shows "fst (preprocess_csv_task_chunked n opts p text w)
       = TaskSuccess (processed_path p) (length (unique (frame_rows (to_frame t))))
           (Some (dup_count (frame_rows (to_frame t)))) (tcolumns t)"
proof -
  have "fst (dedup_mode opts p w t) = TaskSuccess (processed_path p) (length (unique (frame_rows (to_frame t))))
           (Some (dup_count (frame_rows (to_frame t)))) (tcolumns t)"
    by (simp add: dedup_mode_def Let_def flen_drop_duplicates dup_count_eq)
  then show ?thesis by (simp only: task_dedup_eq [OF assms])
qed

theorem dedup_counts_witness:
  "fst (preprocess_csv_task_chunked 2 [(''remove_duplicates'', JBool True)] ''d.csv''
          ''a,b\<newline>1,x\<newline>2,y\<newline>1,x\<newline>3,z\<newline>4,w'' empty_world)
     = TaskSuccess (processed_path ''d.csv'') 4 (Some 1) [''a'', ''b'']"
  using dedup_counts [OF ex_dup_read, of "[(''remove_duplicates'', JBool True)]" 2 "''d.csv''" empty_world]
  by (simp add: opt_flag_def dict_get_def to_frame_def frame_rows_def frame_row_def infer_column_def
      all_present_def int_lit_def lex_number_def lex_sign_def is_digit_def digits_val_def
      unique_def dup_count_def duplicated_def)

text \<open>C17: With \<open>remove_duplicates\<close>, the output header is the original column names, even when \<open>standardize_columns\<close> is set: the option is ignored on this path.\<close>

theorem dedup_ignores_standardize:
  assumes "read_csv_strict text = Inr t" and "opt_flag opts ''remove_duplicates''"
  shows "\<exists>rows. outputs (snd (preprocess_csv_task_chunked n opts p text w)) (processed_path p) = Some (tcolumns t, rows)"
proof -
  have "\<exists>rows. outputs (snd (dedup_mode opts p w t)) (processed_path p) = Some (tcolumns t, rows)"
    by (simp add: dedup_mode_def write_csv_def Let_def)
  then show ?thesis by (simp only: task_dedup_eq [OF assms])
qed

theorem dedup_ignores_standardize_witness:
  "\<exists>rows. outputs (snd (preprocess_csv_task_chunked 2 [(''remove_duplicates'', JBool True), (''standardize_columns'', JBool True)] ''d.csv''
       ''First Name,Last Name\<newline>Ada,Lovelace'' empty_world)) (processed_path ''d.csv'')
     = Some ([''First Name'', ''Last Name''], rows)"
  using dedup_ignores_standardize [OF ex_names_read, of "[(''remove_duplicates'', JBool True), (''standardize_columns'', JBool True)]" 2 "''d.csv''" empty_world]
  by (simp add: opt_flag_def dict_get_def)

lemma fcolumns_proc_chunk: "fcolumns (proc_chunk opts (Some names) hdr c) = names"
  by (simp add: proc_chunk_def Let_def)

text \<open>C16: In streaming mode with \<open>standardize_columns\<close>, the output file's header is the standardized names (stripped, lower-cased, blanks replaced by underscores).\<close>

theorem stream_standardized_header:
  assumes "read_csv_strict text = Inr t" and "\<not> opt_flag opts ''remove_duplicates''"
    and "opt_flag opts ''standardize_columns''"
  shows "\<exists>rows. outputs (snd (preprocess_csv_task_chunked n opts p text w)) (processed_path p)
           = Some (map standardize_name (tcolumns t), rows)"
proof -
  obtain c cs where cks: "pd_chunks n (trows t) = c # cs" using pd_chunks_ne by blast
  show ?thesis
    using task_stream_eq [OF assms(1,2) cks, of p w] assms(3) by (simp add: fcolumns_proc_chunk)
qed

theorem stream_standardized_header_witness:
  "\<exists>rows. outputs (snd (preprocess_csv_task_chunked 2 [(''standardize_columns'', JBool True)] ''d.csv''
       ''First Name,Last Name\<newline>Ada,Lovelace'' empty_world)) (processed_path ''d.csv'')
     = Some ([''first_name'', ''last_name''], rows)"
  using stream_standardized_header [OF ex_names_read, of "[(''standardize_columns'', JBool True)]" 2 "''d.csv''" empty_world]
  by (simp add: opt_flag_def dict_get_def standardize_name_def py_strip_def py_lstrip_def py_rstrip_def py_isspace_def
      py_lower_def py_lower_char_def ascii_upper_def ascii_lower_def py_replace_def replace_ne.simps)

lemma first_bad_take_Some:
  "first_bad w ls = Some (k, saw) \<Longrightarrow> k < m \<Longrightarrow> first_bad w (take m ls) = Some (k, saw)"
proof (induction ls arbitrary: k m)
  case Nil then show ?case by simp
next
  case (Cons l ls)
  show ?case
  proof (cases "row_ok w l")
    case True
    with Cons.prems obtain k' where k: "k = Suc k'" and r: "first_bad w ls = Some (k', saw)"
      by (auto split: option.splits)
    obtain m' where m: "m = Suc m'" using Cons.prems(2) k by (cases m) auto
    from Cons.IH [OF r, of m'] Cons.prems(2) True k m show ?thesis by simp
  next
    case False
    with Cons.prems show ?thesis by (cases m) auto
  qed
qed

text \<open>C14: A malformed line among the first 100 data lines (one with more fields than the header and the first data line) makes the task fail with the parser error before anything is written: no output file and no progress record.\<close>

theorem early_error_no_effect:
  assumes "read_header text = Inr (h, ls)" and "first_bad (data_width h ls) ls = Some (k, saw)" and "k < 100"
  shows "preprocess_csv_task_chunked n opts p text w = (TaskError (ParserError (data_width h ls) saw), w)"
  using first_bad_take_Some [OF assms(2,3)] assms(1)
  by (simp add: preprocess_csv_task_chunked_def read_csv_nrows_def)

theorem early_error_no_effect_witness:
  "preprocess_csv_task_chunked 2 [] ''d.csv'' ''a\<newline>1\<newline>1,2'' empty_world = (TaskError (ParserError 1 2), empty_world)"
  using early_error_no_effect [of "''a\<newline>1\<newline>1,2''" "[''a'']" "[[''1''], [''1'', ''2'']]" 1 2 2 "[]" "''d.csv''" empty_world]
  by (simp add: read_header_def csv_lines_def row_ok_def data_width_def)

lemma first_bad_take_prefix:
  "first_bad w ls = Some (k, saw) \<Longrightarrow> m \<le> k \<Longrightarrow> first_bad w (take m ls) = None"
  using first_bad_Some [of w ls k saw]
  by (auto simp: first_bad_None_iff in_set_conv_nth)

lemma chunks_ne: "0 < n \<Longrightarrow> xs \<noteq> [] \<Longrightarrow> \<exists>c cs. chunks n xs = c # cs"
  by (simp add: chunks_Cons)

text \<open>C15: A malformed line after the first 100 data lines (and after at least one full batch) makes the task return an error, yet the output file has been written with the batches before it and a progress record names their rows: the failure leaves a partial result. The output path differs from the input, as in the claim on dropped rows.\<close>

theorem late_error_partial_output:
  assumes hd: "read_header text = Inr (h, ls)" and bad: "first_bad (data_width h ls) ls = Some (k, saw)"
    and "100 \<le> k" and "0 < n" and "n \<le> k" and nr: "\<not> opt_flag opts ''remove_duplicates''"
    and "processed_path p \<noteq> p"
  shows "\<exists>w' hdr rows. preprocess_csv_task_chunked n opts p text w = (TaskError (ParserError (data_width h ls) saw), w')
           \<and> outputs w' (processed_path p) = Some (hdr, rows)
           \<and> redis w' (progress_key p) = Some (progress_value (length rows), 300)"
proof -
  let ?rows = "take (k div n * n) (map (read_row (length h) (data_width h ls)) ls)"
  have "k < length ls" using first_bad_Some [OF bad] by simp
  moreover have "1 \<le> k div n" using \<open>0 < n\<close> \<open>n \<le> k\<close> by (simp add: div_greater_zero_iff Suc_le_eq)
  then have "n \<le> k div n * n" using mult_le_mono1 [of 1 "k div n" n] by simp
  moreover have "k div n * n \<le> k" by (simp add: div_times_less_eq_dividend)
  ultimately have "?rows \<noteq> []" using \<open>0 < n\<close> by (cases ls) auto
  then obtain c cs where cks: "chunks n ?rows = c # cs" using chunks_ne \<open>0 < n\<close> by blast
  have r100: "read_csv_nrows 100 text = Inr \<lparr>tcolumns = h, trows = map (read_row (length h) (data_width h ls)) (take 100 ls)\<rparr>"
    using first_bad_take_prefix [OF bad \<open>100 \<le> k\<close>] hd by (simp add: read_csv_nrows_def)
  have rc: "read_csv_chunks n text = Inr (h, c # cs, Some (ParserError (data_width h ls) saw))"
    using hd bad cks by (simp add: read_csv_chunks_def Let_def)
  show ?thesis
    using r100 rc nr by (simp add: preprocess_csv_task_chunked_def stream_chunks_first sum_flen_rows
        mk_table_def Let_def)
qed

theorem late_error_partial_output_witness:
  "\<exists>w' hdr rows. preprocess_csv_task_chunked 100 [] ''d.csv'' (''a'' @ concat (replicate 100 ''\<newline>1'') @ ''\<newline>1,2'') empty_world
      = (TaskError (ParserError 1 2), w')
     \<and> outputs w' (processed_path ''d.csv'') = Some (hdr, rows)
     \<and> redis w' (progress_key ''d.csv'') = Some (progress_value (length rows), 300)"
proof -
  have h: "read_header (''a'' @ concat (replicate 100 ''\<newline>1'') @ ''\<newline>1,2'') = Inr ([''a''], replicate 100 [''1''] @ [[''1'', ''2'']])"
    by (simp add: read_header_def csv_lines_def numeral_eq_Suc)
  have dw: "data_width [''a''] (replicate 100 [''1''] @ [[''1'', ''2'']]) = 1"
    by (simp add: data_width_def numeral_eq_Suc)
  have b: "first_bad (data_width [''a''] (replicate 100 [''1''] @ [[''1'', ''2'']])) (replicate 100 [''1''] @ [[''1'', ''2'']]) = Some (100, 2)"
    using first_bad_replicate [of 1 "[''1'']" "[''1'', ''2'']" 100] unfolding dw by (simp add: row_ok_def)
  have ip: "processed_path ''d.csv'' \<noteq> ''d.csv''"
    by (simp add: processed_path_def py_replace_def replace_ne.simps)
  show ?thesis
    using late_error_partial_output [OF h b, of 100 "[]" "''d.csv''" empty_world] dw ip by (simp add: opt_flag_def dict_get_def)
qed

lemma col_len_fill_numeric [simp]: "col_len (fill_numeric stat c) = col_len c"
  by (cases "(stat, c)" rule: fill_numeric.cases) auto

lemma col_len_fill_mode [simp]: "col_len (fill_mode c) = col_len c"
  by (cases c) (auto simp: fill_with_def split: option.splits)

lemma col_len_trim [simp]: "col_len (trim_column c) = col_len c"
  by (cases c) auto

lemma col_len_to_numeric [simp]: "col_len (to_numeric c) = col_len c"
  by (cases c) (auto simp: to_numeric_obj_def Let_def split: option.splits)

lemma cell_at_fill_numeric:
  assumes "somes xs \<noteq> []" and "i < length xs"
  shows "cell_at (fill_numeric stat (FloatCol xs)) i
       = (case xs ! i of None \<Rightarrow> CFloat (stat (somes xs)) | Some r \<Rightarrow> CFloat r)"
  using assms by (simp split: option.splits)

text \<open>C19: \<open>fill_mean\<close> replaces every missing cell of a numeric column that has a value by the mean of the present values of that column, and keeps every present cell.\<close>

theorem fill_mean_cells:
  assumes "wf_frame f" and "j < length (fdata f)" and "fdata f ! j = FloatCol xs"
    and "somes xs \<noteq> []" and "i < flen f"
  shows "cell_at (fdata (apply_preprocessing_options [(''handle_missing'', JStr ''fill_mean'')] f) ! j) i
       = (case xs ! i of None \<Rightarrow> CFloat (mean_of (somes xs)) | Some r \<Rightarrow> CFloat r)"
proof -
  have "FloatCol xs \<in> set (fdata f)" using assms(2,3) by (metis nth_mem)
  then have i: "i < length xs" using assms(1,5) by (auto simp: wf_frame_def)
  have "fdata (apply_preprocessing_options [(''handle_missing'', JStr ''fill_mean'')] f) ! j
      = fill_numeric mean_of (FloatCol xs)"
    using assms(2,3)
    by (simp add: apply_preprocessing_options_def handle_missing_def dict_get_def opt_flag_def map_cols_def
        del: fill_numeric.simps)
  then show ?thesis using cell_at_fill_numeric [OF assms(4) i] by simp
qed

theorem fill_mean_cells_witness:
  "wf_frame \<lparr>fcolumns = [''a'', ''b''], fdata = [IntCol [1, 3, 5], FloatCol [Some 2, None, Some 6]], flen = 3\<rparr> \<and> somes [Some 2, None, Some (6::real)] \<noteq> [] \<and>
   cell_at (fdata (apply_preprocessing_options [(''handle_missing'', JStr ''fill_mean'')] \<lparr>fcolumns = [''a'', ''b''], fdata = [IntCol [1, 3, 5], FloatCol [Some 2, None, Some 6]], flen = 3\<rparr>) ! 1) 1 = CFloat 4"
  using fill_mean_cells [of "\<lparr>fcolumns = [''a'', ''b''], fdata = [IntCol [1, 3, 5], FloatCol [Some 2, None, Some 6]], flen = 3\<rparr>" 1 "[Some 2, None, Some 6]" 1]
  by (simp add: wf_frame_def mean_of_def)

lemma foldr_max_ge: "y \<in> set ys \<Longrightarrow> g y \<le> foldr (\<lambda>x m. max (g x) m) ys (0::nat)"
  by (induction ys) auto

lemma foldr_max_attained: "ys \<noteq> [] \<Longrightarrow> \<exists>y\<in>set ys. foldr (\<lambda>x m. max (g x) m) ys (0::nat) = g y"
proof (induction ys)
  case Nil then show ?case by simp
next
  case (Cons a ys)
  show ?case
  proof (cases "ys = []")
    case True then show ?thesis by simp
  next
    case False
    with Cons.IH obtain y where "y \<in> set ys" "foldr (\<lambda>x m. max (g x) m) ys 0 = g y" by blast
    then show ?thesis by (cases "g a \<le> g y") (auto simp: max_def)
  qed
qed

lemma max_count_ge: "y \<in> set xs \<Longrightarrow> count_list xs y \<le> max_count xs"
  unfolding max_count_def by (rule foldr_max_ge)

lemma max_count_attained: "xs \<noteq> [] \<Longrightarrow> \<exists>y\<in>set xs. max_count xs = count_list xs y"
  unfolding max_count_def by (rule foldr_max_attained)

lemma count_list_pos: "y \<in> set xs \<Longrightarrow> 0 < count_list xs y"
  by (induction xs) auto

lemma sort_Cons_le: "sort ys = m # r \<Longrightarrow> y \<in> set ys \<Longrightarrow> m \<le> (y::'a::linorder)"
  by (metis list.set_intros(1) order_refl set_ConsD set_sort sorted_simps(2) sorted_sort)

lemma sort_Nil_iff: "sort ys = [] \<longleftrightarrow> ys = []"
  by (metis length_0_conv length_sort)

lemma mode_of_Some_props:
  assumes "mode_of xs = Some m"
  shows "m \<in> set xs \<and> count_list xs m = max_count xs \<and>
         (\<forall>y\<in>set xs. count_list xs y = count_list xs m \<longrightarrow> m \<le> y)"
proof -
  let ?F = "filter (\<lambda>x. count_list xs x = max_count xs) (remdups xs)"
  obtain r where s: "sort ?F = m # r" using assms by (auto simp: mode_of_def split: list.splits)
  then have "m \<in> set ?F" by (metis list.set_intros(1) set_sort)
  then show ?thesis using sort_Cons_le [OF s] by auto
qed

lemma mode_of_iff:
  "mode_of xs = Some m \<longleftrightarrow>
     m \<in> set xs \<and> (\<forall>y\<in>set xs. count_list xs y \<le> count_list xs m) \<and>
     (\<forall>y\<in>set xs. count_list xs y = count_list xs m \<longrightarrow> m \<le> y)"
proof
  assume "mode_of xs = Some m"
  then show "m \<in> set xs \<and> (\<forall>y\<in>set xs. count_list xs y \<le> count_list xs m) \<and>
     (\<forall>y\<in>set xs. count_list xs y = count_list xs m \<longrightarrow> m \<le> y)"
    using mode_of_Some_props max_count_ge by metis
next
  assume m: "m \<in> set xs \<and> (\<forall>y\<in>set xs. count_list xs y \<le> count_list xs m) \<and>
     (\<forall>y\<in>set xs. count_list xs y = count_list xs m \<longrightarrow> m \<le> y)"
  then have ne: "xs \<noteq> []" by auto
  obtain y0 where "y0 \<in> set xs" "max_count xs = count_list xs y0" using max_count_attained [OF ne] by blast
  then have cm: "count_list xs m = max_count xs" using m max_count_ge [of m xs] by fastforce
  let ?F = "filter (\<lambda>x. count_list xs x = max_count xs) (remdups xs)"
  have "m \<in> set ?F" using m cm by simp
  then obtain m' r where s: "sort ?F = m' # r" by (cases "sort ?F") (auto simp: sort_Nil_iff filter_empty_conv)
  then have "mode_of xs = Some m'" by (simp add: mode_of_def)
  then have p: "m' \<in> set xs \<and> count_list xs m' = max_count xs \<and>
      (\<forall>y\<in>set xs. count_list xs y = count_list xs m' \<longrightarrow> m' \<le> y)" by (rule mode_of_Some_props)
  then have "m \<le> m'" "m' \<le> m" using m cm by auto
  then show "mode_of xs = Some m" using \<open>mode_of xs = Some m'\<close> by simp
qed

lemma mode_of_None: "mode_of xs = None \<longleftrightarrow> xs = []"
proof
  assume "mode_of xs = None"
  show "xs = []"
  proof (rule ccontr)
    assume ne: "xs \<noteq> []"
    obtain y0 where "y0 \<in> set xs" "max_count xs = count_list xs y0" using max_count_attained [OF ne] by blast
    then have "y0 \<in> set (filter (\<lambda>x. count_list xs x = max_count xs) (remdups xs))" by simp
    then show False using \<open>mode_of xs = None\<close>
      by (auto simp: mode_of_def sort_Nil_iff filter_empty_conv split: list.splits)
  qed
qed (simp add: mode_of_def max_count_def)

lemma fill_with_no_missing: "None \<notin> set xs \<Longrightarrow> fill_with m xs = xs"
  unfolding fill_with_def by (rule map_idI) (metis option.exhaust option.simps(5))

text \<open>C20: \<open>fill_mode\<close> on a text column with a present value fills every missing cell with \<open>Series.mode()[0]\<close>, the smallest of the most frequent present values (it occurs, no value occurs more often, every value occurring as often is at least as large), and keeps every present cell; a column without any present value is left as it is.\<close>

theorem fill_mode_obj:
  "(somes xs = [] \<longrightarrow> fill_mode (ObjCol xs) = ObjCol xs) \<and>
   (somes xs \<noteq> [] \<longrightarrow>
     (\<exists>m. fill_mode (ObjCol xs) = ObjCol (map (\<lambda>v. case v of None \<Rightarrow> Some m | Some s \<Rightarrow> Some s) xs)
        \<and> m \<in> set (somes xs)
        \<and> (\<forall>y\<in>set (somes xs). count_list (somes xs) y \<le> count_list (somes xs) m)
        \<and> (\<forall>y\<in>set (somes xs). count_list (somes xs) y = count_list (somes xs) m \<longrightarrow> m \<le> y)))"
proof (cases "somes xs = []")
  case True
  then show ?thesis using mode_of_None [of "somes xs"] by simp
next
  case False
  then obtain m where m: "mode_of (somes xs) = Some m" using mode_of_None [of "somes xs"] by (cases "mode_of (somes xs)") auto
  have "fill_mode (ObjCol xs) = ObjCol (fill_with m xs)"
    using m fill_with_no_missing [of xs m] by simp
  then show ?thesis using False m mode_of_iff [of "somes xs" m] by (auto simp: fill_with_def)
qed

theorem fill_mode_obj_witness:
  "somes [Some ''b'', None, Some ''a'', Some ''b'', Some ''a''] \<noteq> [] \<and>
   fill_mode (ObjCol [Some ''b'', None, Some ''a'', Some ''b'', Some ''a''])
     = ObjCol [Some ''b'', Some ''a'', Some ''a'', Some ''b'', Some ''a'']"
proof -
  have "mode_of (somes [Some ''b'', None, Some ''a'', Some ''b'', Some ''a'']) = Some ''a''"
    by (simp add: mode_of_def max_count_def)
  then show ?thesis
    using fill_mode_obj [of "[Some ''b'', None, Some ''a'', Some ''b'', Some ''a'']"] by (simp add: fill_with_def)
qed

lemma trim_column_idem: "trim_column (trim_column c) = trim_column c"
  by (cases c) auto

lemma to_numeric_obj_Some: "to_numeric_obj xs = Some c \<Longrightarrow> to_numeric c = c \<and> trim_column c = c"
  by (auto simp: to_numeric_obj_def Let_def split: if_splits)

lemma to_numeric_idem: "to_numeric (to_numeric c) = to_numeric c"
  by (cases c) (auto dest: to_numeric_obj_Some split: option.splits)

lemma trim_to_numeric_idem:
  "to_numeric (trim_column (to_numeric (trim_column c))) = to_numeric (trim_column c)"
proof (cases c)
  case (ObjCol xs)
  let ?ys = "map (\<lambda>v. Some (py_strip (case v of None \<Rightarrow> ''nan'' | Some s \<Rightarrow> s))) xs"
  have tr: "trim_column (ObjCol ?ys) = ObjCol ?ys" by (simp add: comp_def)
  show ?thesis
  proof (cases "to_numeric_obj ?ys")
    case None
    have t1: "trim_column c = ObjCol ?ys" using ObjCol by simp
    have t2: "to_numeric (ObjCol ?ys) = ObjCol ?ys" using None by simp
    show ?thesis by (simp only: t1 t2 tr)
  next
    case (Some c')
    then show ?thesis using ObjCol to_numeric_obj_Some [OF Some] by simp
  qed
qed simp_all

lemma map_cols_map_cols [simp]: "map_cols g (map_cols h f) = map_cols (g \<circ> h) f"
  by (simp add: map_cols_def)

lemma handle_missing_None: "dict_get opts ''handle_missing'' = None \<Longrightarrow> handle_missing opts f = f"
  by (simp add: handle_missing_def)

text \<open>C18: Without a missing-value strategy, applying the preprocessing options twice gives the same frame as applying them once (trimming and type conversion are idempotent together).\<close>

theorem apply_preprocessing_idempotent:
  assumes "dict_get opts ''handle_missing'' = None"
  shows "apply_preprocessing_options opts (apply_preprocessing_options opts f) = apply_preprocessing_options opts f"
  using assms
  by (simp add: apply_preprocessing_options_def handle_missing_None Let_def comp_def trim_column_idem
      to_numeric_idem trim_to_numeric_idem)

theorem apply_preprocessing_idempotent_witness:
  "dict_get [(''trim_whitespace'', JBool True), (''convert_types'', JBool True)] ''handle_missing'' = None \<and>
   apply_preprocessing_options [(''trim_whitespace'', JBool True), (''convert_types'', JBool True)]
     (apply_preprocessing_options [(''trim_whitespace'', JBool True), (''convert_types'', JBool True)] \<lparr>fcolumns = [''a'', ''b''], fdata = [IntCol [1, 3, 5], FloatCol [Some 2, None, Some 6]], flen = 3\<rparr>)
   = apply_preprocessing_options [(''trim_whitespace'', JBool True), (''convert_types'', JBool True)] \<lparr>fcolumns = [''a'', ''b''], fdata = [IntCol [1, 3, 5], FloatCol [Some 2, None, Some 6]], flen = 3\<rparr>"
  using apply_preprocessing_idempotent [of "[(''trim_whitespace'', JBool True), (''convert_types'', JBool True)]" "\<lparr>fcolumns = [''a'', ''b''], fdata = [IntCol [1, 3, 5], FloatCol [Some 2, None, Some 6]], flen = 3\<rparr>"]
  by (simp add: dict_get_def)

subsection \<open>Missing text cells under trimming\<close>

lemma infer_column_text:
  assumes "Some s \<in> set vs" and "lex_number s = None"
  shows "infer_column vs = ObjCol vs"
proof -
  have "\<not> all_present (\<lambda>s. lex_number s \<noteq> None) vs" using assms by (force simp: all_present_def)
  moreover have "\<not> all_present (\<lambda>s. int_lit s \<noteq> None) vs" using assms by (force simp: all_present_def int_lit_def)
  ultimately show ?thesis using assms(1) by (auto simp: infer_column_def)
qed

text \<open>C22: With \<open>trim_whitespace\<close> (and neither \<open>convert_types\<close> nor a missing-value strategy), every batch the task writes has the text \<open>nan\<close> in each missing cell of a column pandas reads as text (one holding a non-numeric value in that batch): \<open>astype(str)\<close> turns NaN into \<open>'nan'\<close> before stripping, so the cleaned file has a value where the input had none.\<close>

theorem trim_writes_missing_as_nan:
  assumes "opt_flag opts ''trim_whitespace''" and "\<not> opt_flag opts ''convert_types''"
    and "dict_get opts ''handle_missing'' = None"
    and "i < length ck" and "j < length hdr" and "ck ! i ! j = None"
    and "r \<in> set ck" and "r ! j = Some s" and "lex_number s = None"
  shows "frame_rows (proc_chunk opts ren hdr ck) ! i ! j = CStr ''nan''"
proof -
  let ?col = "map (\<lambda>r. r ! j) ck"
  have ic: "infer_column ?col = ObjCol ?col"
    using assms(7-9) by (intro infer_column_text [of s]) force+
  have f: "fdata (proc_chunk opts ren hdr ck) ! j = trim_column (infer_column ?col)"
    "flen (proc_chunk opts ren hdr ck) = length ck" "length (fdata (proc_chunk opts ren hdr ck)) = length hdr"
    using assms(1-3,5) by (simp_all add: proc_chunk_def apply_preprocessing_options_def handle_missing_def
        to_frame_def map_cols_def Let_def split: option.splits)
  then show ?thesis
    using frame_rows_nth [of i "proc_chunk opts ren hdr ck" j] ic assms(4-6)
    by (simp add: py_strip_def py_lstrip_def py_rstrip_def py_isspace_def)
qed

theorem trim_writes_missing_as_nan_witness:
  "frame_rows (proc_chunk [(''trim_whitespace'', JBool True)] None [''a'', ''b''] [[Some ''x'', None], [Some ''y'', Some ''z'']]) ! 0 ! 1
     = CStr ''nan''"
proof -
  have "lex_number ''z'' = None" by (simp add: lex_number_def lex_sign_def is_digit_def)
  then show ?thesis
    using trim_writes_missing_as_nan [of "[(''trim_whitespace'', JBool True)]" 0 "[[Some ''x'', None], [Some ''y'', Some ''z'']]"
        1 "[''a'', ''b'']" "[Some ''y'', Some ''z'']" "''z''" None]
    by (simp add: opt_flag_def dict_get_def)
qed

end
