(* ===== verification/Jwt.thy ===== *)
theory Jwt
  imports Values
begin

text \<open>
  JSON Web Tokens as PyJWT produces and checks them with \<open>algorithm='HS256'\<close>
  (\<open>jwt.encode\<close>, \<open>jwt.decode\<close>), used by both controllers. This is library code,
  modelled from its documentation:
  \<^item> a token is three dot-separated segments, header, payload and signature, each in an
    alphabet without dots (base64url in PyJWT, hexadecimal here);
  \<^item> the payload holds \<open>user_id\<close>, \<open>email\<close>, \<open>exp\<close> and \<open>iat\<close>, times in whole
    seconds since the epoch;
  \<^item> the signature is a function of the key and of the signed text \<open>header.payload\<close>;
    it is modelled by an injective encoding of the pair, so a token verifies under the
    key that signed it and under no other (the secrecy of the key is not modelled);
  \<^item> \<open>decode\<close> rejects a token whose form, header or signature is wrong
    (\<open>InvalidTokenError\<close>), then checks \<open>iat\<close> (not in the future, else
    \<open>ImmatureSignatureError\<close>, an \<open>InvalidTokenError\<close>) and \<open>exp\<close> (expired when
    \<open>exp \<le> now\<close>, \<open>ExpiredSignatureError\<close>), with no leeway.
  Encoding is deterministic: two tokens for the same user issued in the same second are
  the same string.
\<close>

section \<open>Hexadecimal segments\<close>

definition hex_digits :: string where
  "hex_digits = ''0123456789abcdef''"

definition hex_byte :: "char \<Rightarrow> string" where
  "hex_byte c = (let n = of_char c :: nat in [hex_digits ! (n div 16), hex_digits ! (n mod 16)])"

definition hex :: "string \<Rightarrow> string" where
  "hex s = concat (map hex_byte s)"

definition hex_val :: "char \<Rightarrow> nat option" where
  "hex_val d = map_of (zip hex_digits [0..<16]) d"

fun unhex :: "string \<Rightarrow> string option" where
  "unhex [] = Some []"
| "unhex [_] = None"
| "unhex (a # b # r) =
     (case (hex_val a, hex_val b) of
        (Some x, Some y) \<Rightarrow> map_option (Cons (char_of (16 * x + y))) (unhex r)
      | _ \<Rightarrow> None)"

section \<open>Numbers in the payload\<close>

definition digit_val :: "char \<Rightarrow> nat option" where
  "digit_val d = map_of (zip ''0123456789'' [0..<10]) d"

fun parse_digits :: "nat \<Rightarrow> string \<Rightarrow> nat option" where
  "parse_digits acc [] = Some acc"
| "parse_digits acc (d # ds) = (case digit_val d of None \<Rightarrow> None | Some k \<Rightarrow> parse_digits (10 * acc + k) ds)"

definition parse_nat :: "string \<Rightarrow> nat option" where
  "parse_nat s = (if s = [] then None else parse_digits 0 s)"

definition parse_int :: "string \<Rightarrow> int option" where
  "parse_int s =
     (case s of
        c # r \<Rightarrow> if c = CHR ''-'' then map_option (\<lambda>n. - int n) (parse_nat r) else map_option int (parse_nat s)
      | [] \<Rightarrow> None)"

section \<open>Tokens\<close>

record payload =
  jwt_user_id :: nat
  jwt_email :: string
  jwt_exp :: int
  jwt_iat :: int

text \<open>The payload text; the e-mail comes last, so it may hold any character.\<close>

definition payload_text :: "payload \<Rightarrow> string" where
  "payload_text p =
     show_nat (jwt_user_id p) @ '','' @ show_int (jwt_exp p) @ '','' @ show_int (jwt_iat p) @ '','' @ jwt_email p"

definition parse_payload :: "string \<Rightarrow> payload option" where
  "parse_payload s =
     (case split_on CHR '','' s of
        a # b # c # rest \<Rightarrow>
          (case (parse_nat a, parse_int b, parse_int c) of
             (Some u, Some e, Some i) \<Rightarrow>
               Some \<lparr>jwt_user_id = u, jwt_email = py_join '','' rest, jwt_exp = e, jwt_iat = i\<rparr>
           | _ \<Rightarrow> None)
      | _ \<Rightarrow> None)"

text \<open>The header segment of \<open>{"alg": "HS256", "typ": "JWT"}\<close>.\<close>

definition jwt_header :: string where
  "jwt_header = hex ''HS256''"

definition hs256 :: "string \<Rightarrow> string \<Rightarrow> string" where
  "hs256 key msg = hex (show_nat (length key) @ '':'' @ key @ msg)"

definition jwt_encode :: "string \<Rightarrow> payload \<Rightarrow> string" where
  "jwt_encode key p =
     (let si = jwt_header @ ''.'' @ hex (payload_text p) in si @ ''.'' @ hs256 key si)"

datatype jwt_error = ExpiredSignatureError | InvalidTokenError

text \<open>The checks of \<open>jwt.decode\<close> that do not depend on the clock: three segments,
  the HS256 header, a signature made with this key, a payload that parses.\<close>

definition jwt_parse :: "string \<Rightarrow> string \<Rightarrow> payload option" where
  "jwt_parse key t =
     (case split_on CHR ''.'' t of
        [h, b, s] \<Rightarrow>
          if h \<noteq> jwt_header \<or> s \<noteq> hs256 key (h @ ''.'' @ b) then None
          else (case unhex b of None \<Rightarrow> None | Some txt \<Rightarrow> parse_payload txt)
      | _ \<Rightarrow> None)"

definition jwt_decode :: "string \<Rightarrow> int \<Rightarrow> string \<Rightarrow> jwt_error + payload" where
  "jwt_decode key now t =
     (case jwt_parse key t of
        None \<Rightarrow> Inl InvalidTokenError
      | Some p \<Rightarrow>
          if now < jwt_iat p then Inl InvalidTokenError
          else if jwt_exp p \<le> now then Inl ExpiredSignatureError
          else Inr p)"

section \<open>Facts about tokens\<close>

lemma hex_val_nth: "k < 16 \<Longrightarrow> hex_val (hex_digits ! k) = Some k"
  using map_of_zip_nth [of hex_digits "[0..<16]" k] by (simp add: hex_val_def hex_digits_def)

lemma of_char_div_16: "(of_char c :: nat) div 16 < 16"
  using less_mult_imp_div_less [of "of_char c" 16 16] nat_of_char_less_256 [of c] by simp

lemma unhex_hex [simp]: "unhex (hex s) = Some s"
proof (induction s)
  case Nil
  then show ?case by (simp add: hex_def)
next
  case (Cons c s)
  let ?n = "of_char c :: nat"
  have lt: "?n div 16 < 16" "?n mod 16 < 16" using of_char_div_16 [of c] by auto
  have "16 * (?n div 16) + ?n mod 16 = ?n" by simp
  then have "char_of (16 * (?n div 16) + ?n mod 16) = c" by simp
  then show ?case
    using Cons.IH by (simp add: hex_def hex_byte_def Let_def hex_val_nth [OF lt(1)] hex_val_nth [OF lt(2)])
qed

lemma set_hex_digits: "set (hex s) \<subseteq> set hex_digits"
proof -
  have "set (hex_byte c) \<subseteq> set hex_digits" for c
  proof -
    have "of_char c div 16 < length hex_digits" "of_char c mod 16 < length hex_digits"
      using of_char_div_16 [of c] by (auto simp: hex_digits_def)
    then show ?thesis by (auto simp: hex_byte_def Let_def)
  qed
  then show ?thesis by (auto simp: hex_def)
qed

lemma dot_notin_hex [simp]: "CHR ''.'' \<notin> set (hex s)"
  using set_hex_digits [of s] by (auto simp: hex_digits_def)


lemma parse_digits_append:
  "parse_digits acc (xs @ ys) = (case parse_digits acc xs of None \<Rightarrow> None | Some a \<Rightarrow> parse_digits a ys)"
  by (induction acc xs rule: parse_digits.induct) (auto split: option.splits)

lemma digit_val_nth: "k < 10 \<Longrightarrow> digit_val (''0123456789'' ! k) = Some k"
  using map_of_zip_nth [of "''0123456789''" "[0..<10]" k] by (simp add: digit_val_def)

lemma show_nat_ne [simp]: "show_nat n \<noteq> []"
  by (subst show_nat.simps) simp

lemma parse_digits_show_nat: "parse_digits 0 (show_nat n) = Some n"
proof (induction n rule: show_nat.induct)
  case (1 n)
  show ?case
  proof (cases "n < 10")
    case True
    then show ?thesis by (subst show_nat.simps) (simp add: digit_val_nth)
  next
    case False
    then have "parse_digits 0 (show_nat (n div 10)) = Some (n div 10)" using "1" by simp
    moreover have "n mod 10 < 10" by simp
    ultimately show ?thesis using False
      by (subst show_nat.simps) (simp add: parse_digits_append digit_val_nth)
  qed
qed

lemma parse_nat_show_nat [simp]: "parse_nat (show_nat n) = Some n"
  by (simp add: parse_nat_def parse_digits_show_nat)

lemma set_show_nat: "set (show_nat n) \<subseteq> set ''0123456789''"
proof (induction n rule: show_nat.induct)
  case (1 n)
  have "''0123456789'' ! k \<in> set ''0123456789''" if "k < 10" for k
    using that by (intro nth_mem) simp
  then show ?case using "1" by (subst show_nat.simps) auto
qed

lemma hd_show_nat: "hd (show_nat n) \<noteq> CHR ''-''"
proof
  assume "hd (show_nat n) = CHR ''-''"
  moreover have "hd (show_nat n) \<in> set ''0123456789''"
    using set_show_nat [of n] hd_in_set [OF show_nat_ne [of n]] by blast
  ultimately show False by simp
qed

lemma parse_int_show_int [simp]: "parse_int (show_int i) = Some i"
proof (cases "i < 0")
  case True
  then show ?thesis by (simp add: show_int_def parse_int_def)
next
  case False
  obtain c r where cr: "show_nat (nat i) = c # r" by (cases "show_nat (nat i)") auto
  then have "c \<noteq> CHR ''-''" using hd_show_nat [of "nat i"] by simp
  then show ?thesis using False cr parse_nat_show_nat [of "nat i"]
    by (simp add: show_int_def parse_int_def)
qed

lemma comma_notin_show_nat [simp]: "CHR '','' \<notin> set (show_nat n)"
  using set_show_nat [of n] by auto

lemma comma_notin_show_int [simp]: "CHR '','' \<notin> set (show_int i)"
  by (simp add: show_int_def)

lemma parse_payload_text [simp]: "parse_payload (payload_text p) = Some p"
  by (simp add: parse_payload_def payload_text_def split_on_append_sep py_join_split_on)


lemma dot_notin_header [simp]: "CHR ''.'' \<notin> set jwt_header"
  by (simp add: jwt_header_def)

lemma dot_notin_hs256 [simp]: "CHR ''.'' \<notin> set (hs256 key msg)"
  by (simp add: hs256_def)

lemma split_jwt_encode:
  "split_on CHR ''.'' (jwt_encode key p)
     = [jwt_header, hex (payload_text p), hs256 key (jwt_header @ ''.'' @ hex (payload_text p))]"
  by (simp add: jwt_encode_def split_on_append_sep split_on_sep_free)

lemma jwt_parse_jwt_encode [simp]: "jwt_parse key (jwt_encode key p) = Some p"
  by (simp add: jwt_parse_def split_jwt_encode)

lemma colon_notin_show_nat [simp]: "CHR '':'' \<notin> set (show_nat n)"
  using set_show_nat [of n] by auto

lemma jwt_decode_window:
  "jwt_decode k t0 tok = Inr p \<Longrightarrow> jwt_iat p \<le> now \<Longrightarrow> now < jwt_exp p \<Longrightarrow> jwt_decode k now tok = Inr p"
  by (auto simp: jwt_decode_def split: option.splits if_splits)

lemma space_notin_hex [simp]: "CHR '' '' \<notin> set (hex s)"
  using set_hex_digits [of s] by (auto simp: hex_digits_def)

lemma space_notin_jwt_encode [simp]: "CHR '' '' \<notin> set (jwt_encode key p)"
  by (simp add: jwt_encode_def jwt_header_def hs256_def)

end
