(* ===== verification/Accounts.thy ===== *)
theory Accounts
  imports Jwt
begin

text \<open>
  User accounts and authentication: src/server/controllers/user_controller.py and the
  blacklist of src/server/models/token_model.py. The database is the record
  \<open>acct_db\<close>: the \<open>User\<close> rows in insertion order (the model class is not in the
  repository; its columns are read off the code), the next primary key, and the
  \<open>BlacklistedToken\<close> rows. Each route is a function from the request (the
  \<open>Authorization\<close> header, the JSON body) and the clock to a response and the new
  database; an uncaught exception is Flask's \<open>500\<close> response \<open>internal_error\<close>, a
  caught one the route's own error response, and an early return before
  \<open>db.session.commit()\<close> leaves the database unchanged (the session is discarded at the
  end of the request). Times are whole seconds; \<open>datetime.fromtimestamp\<close> gives local
  time, which differs from UTC by \<open>tz_offset\<close>. Password hashing
  (\<open>generate_password_hash\<close>, salted PBKDF2) is modelled by the password it hashes:
  \<open>check_password_hash\<close> accepts exactly that password.
\<close>

section \<open>Validation (lines 20-35)\<close>

definition is_ascii_upper :: "char \<Rightarrow> bool" where
  "is_ascii_upper c \<longleftrightarrow> (let n = of_char c :: nat in 65 \<le> n \<and> n \<le> 90)"

definition is_ascii_lower :: "char \<Rightarrow> bool" where
  "is_ascii_lower c \<longleftrightarrow> (let n = of_char c :: nat in 97 \<le> n \<and> n \<le> 122)"

definition is_ascii_digit :: "char \<Rightarrow> bool" where
  "is_ascii_digit c \<longleftrightarrow> (let n = of_char c :: nat in 48 \<le> n \<and> n \<le> 57)"

definition is_ascii_alpha :: "char \<Rightarrow> bool" where
  "is_ascii_alpha c \<longleftrightarrow> is_ascii_upper c \<or> is_ascii_lower c"

text \<open>The classes \<open>[a-zA-Z0-9._%+-]\<close> and \<open>[a-zA-Z0-9.-]\<close> of the e-mail pattern.\<close>

definition email_local_char :: "char \<Rightarrow> bool" where
  "email_local_char c \<longleftrightarrow> is_ascii_alpha c \<or> is_ascii_digit c \<or> c \<in> set ''._%+-''"

definition email_domain_char :: "char \<Rightarrow> bool" where
  "email_domain_char c \<longleftrightarrow> is_ascii_alpha c \<or> is_ascii_digit c \<or> c \<in> set ''.-''"

text \<open>\<open>[a-zA-Z0-9.-]+\.[a-zA-Z]{2,}\<close> on the text after the \<open>@\<close>: the letters after
  the last dot are the top-level domain.\<close>

definition email_domain_ok :: "string \<Rightarrow> bool" where
  "email_domain_ok r =
     (let t = rev (takeWhile is_ascii_alpha (rev r)); d = take (length r - length t) r in
      2 \<le> length t \<and> d \<noteq> [] \<and> last d = CHR ''.'' \<and> butlast d \<noteq> [] \<and> list_all email_domain_char (butlast d))"

text \<open>\<open>^[a-zA-Z0-9._%+-]+@...$\<close>, matched from the start (\<open>re.match\<close>).\<close>

definition email_match :: "string \<Rightarrow> bool" where
  "email_match s =
     (let l = takeWhile email_local_char s in
      l \<noteq> [] \<and> (case drop (length l) s of c # r \<Rightarrow> c = CHR ''@'' \<and> email_domain_ok r | [] \<Rightarrow> False))"

text \<open>Python's \<open>$\<close> also matches just before a final newline.\<close>

definition validate_email :: "string \<Rightarrow> bool" where
  "validate_email s \<longleftrightarrow> email_match s \<or> (s \<noteq> [] \<and> last s = CHR 0x0A \<and> email_match (butlast s))"

definition validate_password :: "string \<Rightarrow> bool \<times> string" where
  "validate_password p =
     (if length p < 8 then (False, ''Password must be at least 8 characters long'')
      else if \<not> list_ex is_ascii_upper p then (False, ''Password must contain at least one uppercase letter'')
      else if \<not> list_ex is_ascii_lower p then (False, ''Password must contain at least one lowercase letter'')
      else if \<not> list_ex is_ascii_digit p then (False, ''Password must contain at least one digit'')
      else (True, ''''))"

text \<open>\<open>validate_password\<close> applied to a JSON value: \<open>len\<close> works on lists and objects
  (so a short one is rejected with the length message), \<open>re.search\<close> then raises;
  on a number, a Boolean or \<open>null\<close> \<open>len\<close> raises (\<open>Inl\<close>).\<close>

definition validate_password_val :: "jval \<Rightarrow> unit + bool \<times> string" where
  "validate_password_val v =
     (case v of
        JStr s \<Rightarrow> Inr (validate_password s)
      | JList xs \<Rightarrow> if length xs < 8 then Inr (False, ''Password must be at least 8 characters long'') else Inl ()
      | JObj kvs \<Rightarrow> if length (remdups (map fst kvs)) < 8 then Inr (False, ''Password must be at least 8 characters long'') else Inl ()
      | _ \<Rightarrow> Inl ())"

section \<open>Passwords and rows\<close>

datatype pw_hash = Pbkdf2Sha256 string

definition generate_password_hash :: "string \<Rightarrow> pw_hash" where
  "generate_password_hash p = Pbkdf2Sha256 p"

text \<open>\<open>check_password_hash(h, password)\<close>; a password that is not a string raises.\<close>

fun check_password_hash :: "pw_hash \<Rightarrow> jval \<Rightarrow> unit + bool" where
  "check_password_hash (Pbkdf2Sha256 p) (JStr s) = Inr (p = s)"
| "check_password_hash (Pbkdf2Sha256 p) _ = Inl ()"

record user =
  uid :: nat
  email :: string
  username :: string
  password :: pw_hash
  created_at :: int
  last_login :: "int option"

record blacklisted =
  bl_token :: string
  bl_on :: int
  bl_expires :: int

record acct_db =
  users :: "user list"
  next_id :: nat
  blacklist :: "blacklisted list"

text \<open>The process environment: \<open>SECRET_KEY\<close> (\<open>None\<close> when unset) and the local time
  zone's offset from UTC in seconds.\<close>

record env =
  secret_key :: "string option"
  tz_offset :: int

definition empty_db :: acct_db where
  "empty_db = \<lparr>users = [], next_id = 1, blacklist = []\<rparr>"

datatype response = Resp nat jval

definition err :: "nat \<Rightarrow> string \<Rightarrow> response" where
  "err code msg = Resp code (JObj [(''error'', JStr msg)])"

definition internal_error :: response where
  "internal_error = Resp 500 JNull"

definition TOKEN_EXPIRY_HOURS :: int where
  "TOKEN_EXPIRY_HOURS = 24"

section \<open>Queries and request data\<close>

text \<open>\<open>User.query.filter_by(...).first()\<close> and \<open>User.query.get(id)\<close>.\<close>

definition find_user :: "(user \<Rightarrow> bool) \<Rightarrow> acct_db \<Rightarrow> user option" where
  "find_user P db = find P (users db)"

definition get_user :: "acct_db \<Rightarrow> nat \<Rightarrow> user option" where
  "get_user db i = find_user (\<lambda>u. uid u = i) db"

text \<open>Assigning to the attributes of a row and committing.\<close>

definition put_user :: "user \<Rightarrow> acct_db \<Rightarrow> acct_db" where
  "put_user u db = db\<lparr>users := map (\<lambda>v. if uid v = uid u then u else v) (users db)\<rparr>"

definition user_json :: "user \<Rightarrow> jval" where
  "user_json u = JObj [(''id'', JInt (int (uid u))), (''email'', JStr (email u)), (''username'', JStr (username u))]"

text \<open>\<open>data.get(k, default)\<close> and \<open>v.strip()\<close> (which raises on a value that is not a
  string).\<close>

definition get_default :: "py_dict \<Rightarrow> string \<Rightarrow> jval \<Rightarrow> jval" where
  "get_default d k v = (case dict_get d k of None \<Rightarrow> v | Some x \<Rightarrow> x)"

definition str_strip :: "jval \<Rightarrow> string option" where
  "str_strip v = (case v of JStr s \<Rightarrow> Some (py_strip s) | _ \<Rightarrow> None)"

text \<open>\<open>k in data\<close> and \<open>data[k]\<close> for a JSON body that need not be an object:
  membership is a key test on an object, an element test on a list, a substring test
  on a string, and raises otherwise; indexing by a string raises on anything but an
  object.\<close>

definition py_contains :: "jval \<Rightarrow> string \<Rightarrow> bool option" where
  "py_contains v k =
     (case v of
        JObj d \<Rightarrow> Some (dict_get d k \<noteq> None)
      | JList xs \<Rightarrow> Some (JStr k \<in> set xs)
      | JStr s \<Rightarrow> Some (occurs_in k s)
      | _ \<Rightarrow> None)"

definition py_getitem :: "jval \<Rightarrow> string \<Rightarrow> jval option" where
  "py_getitem v k = (case v of JObj d \<Rightarrow> dict_get d k | _ \<Rightarrow> None)"

text \<open>The token of an \<open>Authorization\<close> header: \<open>token.split(" ")[1]\<close> when it
  starts with \<open>Bearer \<close>, the header itself otherwise (lines 48-49, 183-184).\<close>

definition bearer_strip :: "string \<Rightarrow> string" where
  "bearer_strip h = (if take 7 h = ''Bearer '' then split_on CHR '' '' h ! 1 else h)"

definition token_payload :: "user \<Rightarrow> int \<Rightarrow> payload" where
  "token_payload u now =
     \<lparr>jwt_user_id = uid u, jwt_email = email u, jwt_exp = now + TOKEN_EXPIRY_HOURS * 3600, jwt_iat = now\<rparr>"

section \<open>The decorator \<open>token_required\<close> (lines 37-74)\<close>

text \<open>\<open>Inr\<close> is the authenticated user the route runs with; \<open>jwt.decode\<close> with an unset
  key raises a \<open>TypeError\<close>, caught by the last handler.\<close>

definition token_required :: "env \<Rightarrow> int \<Rightarrow> acct_db \<Rightarrow> string option \<Rightarrow> response + user" where
  "token_required ev now db hdr =
     (case hdr of
        None \<Rightarrow> Inl (err 401 ''Token is missing'')
      | Some h \<Rightarrow>
          if h = [] then Inl (err 401 ''Token is missing'')
          else
            (let t = bearer_strip h in
             if t \<in> set (map bl_token (blacklist db)) then Inl (err 401 ''Token has been revoked'')
             else
               (case secret_key ev of
                  None \<Rightarrow> Inl (err 401 ''Authentication failed'')
                | Some k \<Rightarrow>
                    (case jwt_decode k now t of
                       Inl ExpiredSignatureError \<Rightarrow> Inl (err 401 ''Token has expired'')
                     | Inl InvalidTokenError \<Rightarrow> Inl (err 401 ''Invalid token'')
                     | Inr p \<Rightarrow>
                         (case get_user db (jwt_user_id p) of
                            None \<Rightarrow> Inl (err 401 ''User not found'')
                          | Some u \<Rightarrow> Inr u)))))"

section \<open>Routes\<close>

text \<open>\<open>register\<close> (lines 76-129). A body that is not an object, or a field that is not
  a string where the code calls \<open>strip\<close>, raises before the \<open>try\<close>.\<close>

definition register :: "int \<Rightarrow> jval \<Rightarrow> acct_db \<Rightarrow> response \<times> acct_db" where
  "register now body db =
     (case body of
        JObj data \<Rightarrow>
          (case str_strip (get_default data ''email'' (JStr '''')) of
             None \<Rightarrow> (internal_error, db)
           | Some em \<Rightarrow>
               (let pw = get_default data ''password'' (JStr '''') in
                case str_strip (get_default data ''username'' (JStr '''')) of
                  None \<Rightarrow> (internal_error, db)
                | Some un \<Rightarrow>
                    if em = [] \<or> \<not> py_truthy pw \<or> un = []
                    then (err 400 ''Email, username, and password are required'', db)
                    else if \<not> validate_email em then (err 400 ''Invalid email format'', db)
                    else
                      (case validate_password_val pw of
                         Inl _ \<Rightarrow> (internal_error, db)
                       | Inr (ok, msg) \<Rightarrow>
                           if \<not> ok then (err 400 msg, db)
                           else if find_user (\<lambda>u. email u = em) db \<noteq> None then (err 409 ''Email already registered'', db)
                           else if find_user (\<lambda>u. username u = un) db \<noteq> None then (err 409 ''Username already taken'', db)
                           else
                             (case pw of
                                JStr p \<Rightarrow>
                                  (let u = \<lparr>uid = next_id db, email = em, username = un,
                                            password = generate_password_hash p, created_at = now, last_login = None\<rparr>
                                   in (Resp 201 (JObj [(''message'', JStr ''User registered successfully''), (''user'', user_json u)]),
                                       db\<lparr>users := users db @ [u], next_id := Suc (next_id db)\<rparr>))
                              | _ \<Rightarrow> (internal_error, db)))))
      | _ \<Rightarrow> (internal_error, db))"

text \<open>\<open>login\<close> (lines 131-175): \<open>last_login\<close> is committed before the token is
  encoded, so a failing \<open>jwt.encode\<close> (unset key) still records the login.\<close>

definition login :: "env \<Rightarrow> int \<Rightarrow> jval \<Rightarrow> acct_db \<Rightarrow> response \<times> acct_db" where
  "login ev now body db =
     (case body of
        JObj data \<Rightarrow>
          (case str_strip (get_default data ''email'' (JStr '''')) of
             None \<Rightarrow> (internal_error, db)
           | Some em \<Rightarrow>
               (let pw = get_default data ''password'' (JStr '''') in
                if em = [] \<or> \<not> py_truthy pw then (err 400 ''Email and password are required'', db)
                else
                  (case find_user (\<lambda>u. email u = em) db of
                     None \<Rightarrow> (err 401 ''Invalid email or password'', db)
                   | Some u \<Rightarrow>
                       (case check_password_hash (password u) pw of
                          Inl _ \<Rightarrow> (err 500 ''Login failed'', db)
                        | Inr False \<Rightarrow> (err 401 ''Invalid email or password'', db)
                        | Inr True \<Rightarrow>
                            (let db1 = put_user (u\<lparr>last_login := Some now\<rparr>) db in
                             case secret_key ev of
                               None \<Rightarrow> (err 500 ''Login failed'', db1)
                             | Some k \<Rightarrow>
                                 (Resp 200 (JObj [(''message'', JStr ''Login successful''),
                                                  (''token'', JStr (jwt_encode k (token_payload u now))),
                                                  (''user'', user_json u),
                                                  (''expires_in'', JInt (TOKEN_EXPIRY_HOURS * 3600))]), db1))))))
      | _ \<Rightarrow> (internal_error, db))"

text \<open>\<open>logout\<close> (lines 177-205): the token is decoded again and blacklisted with
  \<open>expires_at = datetime.fromtimestamp(exp)\<close>, a local time.\<close>

definition logout :: "env \<Rightarrow> int \<Rightarrow> string option \<Rightarrow> acct_db \<Rightarrow> response \<times> acct_db" where
  "logout ev now hdr db =
     (case token_required ev now db hdr of
        Inl r \<Rightarrow> (r, db)
      | Inr _ \<Rightarrow>
          (case (hdr, secret_key ev) of
             (Some h, Some k) \<Rightarrow>
               (let t = bearer_strip h in
                case jwt_decode k now t of
                  Inl _ \<Rightarrow> (err 500 ''Logout failed'', db)
                | Inr p \<Rightarrow>
                    (Resp 200 (JObj [(''message'', JStr ''Logout successful'')]),
                     db\<lparr>blacklist := blacklist db @ [\<lparr>bl_token = t, bl_on = now, bl_expires = jwt_exp p + tz_offset ev\<rparr>]\<rparr>))
           | _ \<Rightarrow> (err 500 ''Logout failed'', db)))"

text \<open>\<open>refresh_token\<close> (lines 207-231): a new token; the presented one stays valid.\<close>

definition refresh_token :: "env \<Rightarrow> int \<Rightarrow> string option \<Rightarrow> acct_db \<Rightarrow> response \<times> acct_db" where
  "refresh_token ev now hdr db =
     (case token_required ev now db hdr of
        Inl r \<Rightarrow> (r, db)
      | Inr u \<Rightarrow>
          (case secret_key ev of
             None \<Rightarrow> (err 500 ''Token refresh failed'', db)
           | Some k \<Rightarrow>
               (Resp 200 (JObj [(''message'', JStr ''Token refreshed successfully''),
                                (''token'', JStr (jwt_encode k (token_payload u now))),
                                (''expires_in'', JInt (TOKEN_EXPIRY_HOURS * 3600))]), db)))"

text \<open>\<open>get_profile\<close> (lines 233-247); datetimes are rendered as their seconds.\<close>

definition get_profile :: "env \<Rightarrow> int \<Rightarrow> string option \<Rightarrow> acct_db \<Rightarrow> response \<times> acct_db" where
  "get_profile ev now hdr db =
     (case token_required ev now db hdr of
        Inl r \<Rightarrow> (r, db)
      | Inr u \<Rightarrow>
          (Resp 200 (JObj [(''user'', JObj [(''id'', JInt (int (uid u))), (''email'', JStr (email u)),
              (''username'', JStr (username u)), (''created_at'', JInt (created_at u)),
              (''last_login'', case last_login u of None \<Rightarrow> JNull | Some t \<Rightarrow> JInt t)])]), db))"

text \<open>\<open>update_profile\<close> (lines 249-290), inside its \<open>try\<close>: the user name, then the
  e-mail, then one commit; every early return discards both changes.\<close>

definition update_username :: "acct_db \<Rightarrow> jval \<Rightarrow> user \<Rightarrow> response + user" where
  "update_username db data u =
     (case py_contains data ''username'' of
        None \<Rightarrow> Inl (err 500 ''Update failed'')
      | Some False \<Rightarrow> Inr u
      | Some True \<Rightarrow>
          (case py_getitem data ''username'' of
             None \<Rightarrow> Inl (err 500 ''Update failed'')
           | Some v \<Rightarrow>
               (case str_strip v of
                  None \<Rightarrow> Inl (err 500 ''Update failed'')
                | Some un \<Rightarrow>
                    if un \<noteq> username u
                    then (if find_user (\<lambda>v. username v = un) db \<noteq> None then Inl (err 409 ''Username already taken'')
                          else Inr (u\<lparr>username := un\<rparr>))
                    else Inr u)))"

definition update_email :: "acct_db \<Rightarrow> jval \<Rightarrow> user \<Rightarrow> response + user" where
  "update_email db data u =
     (case py_contains data ''email'' of
        None \<Rightarrow> Inl (err 500 ''Update failed'')
      | Some False \<Rightarrow> Inr u
      | Some True \<Rightarrow>
          (case py_getitem data ''email'' of
             None \<Rightarrow> Inl (err 500 ''Update failed'')
           | Some v \<Rightarrow>
               (case str_strip v of
                  None \<Rightarrow> Inl (err 500 ''Update failed'')
                | Some em \<Rightarrow>
                    if \<not> validate_email em then Inl (err 400 ''Invalid email format'')
                    else if em \<noteq> email u
                    then (if find_user (\<lambda>v. email v = em) db \<noteq> None then Inl (err 409 ''Email already registered'')
                          else Inr (u\<lparr>email := em\<rparr>))
                    else Inr u)))"

definition update_profile :: "env \<Rightarrow> int \<Rightarrow> string option \<Rightarrow> jval \<Rightarrow> acct_db \<Rightarrow> response \<times> acct_db" where
  "update_profile ev now hdr data db =
     (case token_required ev now db hdr of
        Inl r \<Rightarrow> (r, db)
      | Inr u \<Rightarrow>
          (case update_username db data u of
             Inl r \<Rightarrow> (r, db)
           | Inr u1 \<Rightarrow>
               (case update_email db data u1 of
                  Inl r \<Rightarrow> (r, db)
                | Inr u2 \<Rightarrow>
                    (Resp 200 (JObj [(''message'', JStr ''Profile updated successfully''), (''user'', user_json u2)]),
                     put_user u2 db))))"

text \<open>\<open>change_password\<close> (lines 292-322); the checks before the \<open>try\<close> raise on
  values that are not strings.\<close>

definition change_password :: "env \<Rightarrow> int \<Rightarrow> string option \<Rightarrow> jval \<Rightarrow> acct_db \<Rightarrow> response \<times> acct_db" where
  "change_password ev now hdr body db =
     (case token_required ev now db hdr of
        Inl r \<Rightarrow> (r, db)
      | Inr u \<Rightarrow>
          (case body of
             JObj data \<Rightarrow>
               (let cur = get_default data ''current_password'' (JStr '''');
                    new = get_default data ''new_password'' (JStr '''')
                in if \<not> py_truthy cur \<or> \<not> py_truthy new
                   then (err 400 ''Current and new password are required'', db)
                   else
                     (case check_password_hash (password u) cur of
                        Inl _ \<Rightarrow> (internal_error, db)
                      | Inr False \<Rightarrow> (err 401 ''Current password is incorrect'', db)
                      | Inr True \<Rightarrow>
                          (case validate_password_val new of
                             Inl _ \<Rightarrow> (internal_error, db)
                           | Inr (ok, msg) \<Rightarrow>
                               if \<not> ok then (err 400 msg, db)
                               else
                                 (case new of
                                    JStr p \<Rightarrow>
                                      (Resp 200 (JObj [(''message'', JStr ''Password changed successfully'')]),
                                       put_user (u\<lparr>password := generate_password_hash p\<rparr>) db)
                                  | _ \<Rightarrow> (internal_error, db)))))
           | _ \<Rightarrow> (internal_error, db)))"

text \<open>\<open>BlacklistedToken.cleanup_expired\<close> (token_model.py lines 16-21): rows whose
  \<open>expires_at\<close> is before \<open>datetime.utcnow()\<close> are deleted.\<close>

definition cleanup_expired :: "int \<Rightarrow> acct_db \<Rightarrow> acct_db" where
  "cleanup_expired now db = db\<lparr>blacklist := filter (\<lambda>b. \<not> bl_expires b < now) (blacklist db)\<rparr>"

section \<open>The account service as a state machine\<close>

datatype acct_op =
    Register jval
  | Login jval
  | Logout "string option"
  | RefreshToken "string option"
  | GetProfile "string option"
  | UpdateProfile "string option" jval
  | ChangePassword "string option" jval
  | CleanupExpired

fun acct_handle :: "env \<Rightarrow> int \<Rightarrow> acct_op \<Rightarrow> acct_db \<Rightarrow> response option \<times> acct_db" where
  "acct_handle ev now (Register b) db = apfst Some (register now b db)"
| "acct_handle ev now (Login b) db = apfst Some (login ev now b db)"
| "acct_handle ev now (Logout h) db = apfst Some (logout ev now h db)"
| "acct_handle ev now (RefreshToken h) db = apfst Some (refresh_token ev now h db)"
| "acct_handle ev now (GetProfile h) db = apfst Some (get_profile ev now h db)"
| "acct_handle ev now (UpdateProfile h b) db = apfst Some (update_profile ev now h b db)"
| "acct_handle ev now (ChangePassword h b) db = apfst Some (change_password ev now h b db)"
| "acct_handle ev now CleanupExpired db = (None, cleanup_expired now db)"

text \<open>A run: timed requests handled one after the other.\<close>

definition acct_run :: "env \<Rightarrow> acct_db \<Rightarrow> (int \<times> acct_op) list \<Rightarrow> acct_db" where
  "acct_run ev db ops = foldl (\<lambda>d (t, op). snd (acct_handle ev t op d)) db ops"

inductive acct_reach :: "env \<Rightarrow> acct_db \<Rightarrow> bool" where
  init: "acct_reach ev empty_db"
| step: "acct_reach ev db \<Longrightarrow> acct_reach ev (snd (acct_handle ev now op db))"

text \<open>The invariant: primary keys distinct and below the next key, e-mails and user
  names distinct, every e-mail valid, every stored password satisfying the policy.\<close>

fun pw_policy_ok :: "pw_hash \<Rightarrow> bool" where
  "pw_policy_ok (Pbkdf2Sha256 p) = fst (validate_password p)"

definition acct_inv :: "acct_db \<Rightarrow> bool" where
  "acct_inv db \<longleftrightarrow>
     distinct (map uid (users db)) \<and> list_all (\<lambda>u. uid u < next_id db) (users db) \<and>
     distinct (map email (users db)) \<and> distinct (map username (users db)) \<and>
     list_all (\<lambda>u. validate_email (email u)) (users db) \<and>
     list_all (\<lambda>u. pw_policy_ok (password u)) (users db)"


text \<open>Every blacklisted token was signed with the key and names a user that exists.\<close>

definition bl_inv :: "env \<Rightarrow> acct_db \<Rightarrow> bool" where
  "bl_inv ev db =
     (case secret_key ev of
        None \<Rightarrow> blacklist db = []
      | Some k \<Rightarrow> list_all (\<lambda>b. \<exists>p. jwt_parse k (bl_token b) = Some p \<and> jwt_user_id p < next_id db) (blacklist db))"

text \<open>The token \<open>login\<close> issues at time 0 with key \<open>k\<close> to the first user
  registered with e-mail \<open>ann@ex.io\<close>.\<close>

definition tok_ann :: string where
  "tok_ann = jwt_encode ''k'' \<lparr>jwt_user_id = 1, jwt_email = ''ann@ex.io'', jwt_exp = 86400, jwt_iat = 0\<rparr>"

section \<open>Facts about the account service\<close>

lemma not_local_at [simp]: "\<not> email_local_char CHR ''@''"
  by (simp add: email_local_char_def is_ascii_alpha_def is_ascii_upper_def is_ascii_lower_def is_ascii_digit_def)

lemma not_alpha_dot [simp]: "\<not> is_ascii_alpha CHR ''.''"
  by (simp add: is_ascii_alpha_def is_ascii_upper_def is_ascii_lower_def)





lemma find_user_None: "find_user P db = None \<longleftrightarrow> (\<forall>u\<in>set (users db). \<not> P u)"
  by (auto simp: find_user_def find_None_iff)

lemma find_user_Some: "find_user P db = Some u \<Longrightarrow> u \<in> set (users db) \<and> P u"
  by (auto simp: find_user_def find_Some_iff)

lemma token_required_user: "token_required ev now db hdr = Inr u \<Longrightarrow> u \<in> set (users db)"
  by (auto simp: token_required_def get_user_def Let_def dest!: find_user_Some
      split: option.splits if_splits sum.splits jwt_error.splits)

lemma put_user_split:
  assumes "users db = as @ u0 # bs" and "distinct (map uid (users db))" and "uid u' = uid u0"
  shows "users (put_user u' db) = as @ u' # bs"
proof -
  have "\<forall>x\<in>set as. uid x \<noteq> uid u0" "\<forall>x\<in>set bs. uid x \<noteq> uid u0" using assms(1,2) by (force simp: image_iff)+
  then have "map (\<lambda>v. if uid v = uid u' then u' else v) as = as"
      "map (\<lambda>v. if uid v = uid u' then u' else v) bs = bs"
    using assms(3) by (simp_all add: map_idI)
  then show ?thesis using assms(1,3) by (simp add: put_user_def)
qed

lemma put_user_other [simp]: "next_id (put_user u db) = next_id db" "blacklist (put_user u db) = blacklist db"
  by (simp_all add: put_user_def)

text \<open>Replacing one row keeps the invariant when the new row keeps its key and its
  e-mail and name are its old ones or unused, valid, and its password satisfies the
  policy.\<close>

lemma distinct_replace:
  "distinct (map f (as @ x # bs)) \<Longrightarrow> f y = f x \<or> f y \<notin> f ` set (as @ x # bs) \<Longrightarrow> distinct (map f (as @ y # bs))"
  by (auto intro: rev_image_eqI)

lemma acct_inv_put_user:
  assumes inv: "acct_inv db" and u0: "u0 \<in> set (users db)" and k: "uid u' = uid u0"
    and e: "email u' = email u0 \<or> email u' \<notin> email ` set (users db)"
    and n: "username u' = username u0 \<or> username u' \<notin> username ` set (users db)"
    and v: "validate_email (email u')" and p: "pw_policy_ok (password u')"
  shows "acct_inv (put_user u' db)"
proof -
  obtain as bs where sp: "users db = as @ u0 # bs" using u0 by (metis split_list)
  have d: "distinct (map uid (users db))" using inv by (simp add: acct_inv_def)
  note pu = put_user_split [OF sp d k]
  have "map uid (users (put_user u' db)) = map uid (users db)" using k by (simp add: pu sp)
  moreover have "list_all (\<lambda>u. uid u < next_id db) (users (put_user u' db))"
    using inv k by (simp add: acct_inv_def pu sp)
  moreover have "distinct (map email (users (put_user u' db)))"
    using inv e distinct_replace [of email as u0 bs u'] by (simp add: acct_inv_def pu sp)
  moreover have "distinct (map username (users (put_user u' db)))"
    using inv n distinct_replace [of username as u0 bs u'] by (simp add: acct_inv_def pu sp)
  moreover have "list_all (\<lambda>u. validate_email (email u)) (users (put_user u' db))"
    using inv v by (simp add: acct_inv_def pu sp)
  moreover have "list_all (\<lambda>u. pw_policy_ok (password u)) (users (put_user u' db))"
    using inv p by (simp add: acct_inv_def pu sp)
  ultimately show ?thesis using inv by (simp add: acct_inv_def)
qed

lemma register_cases:
  "snd (register now body db) = db \<or>
   (\<exists>u. users (snd (register now body db)) = users db @ [u] \<and>
        next_id (snd (register now body db)) = Suc (next_id db) \<and>
        blacklist (snd (register now body db)) = blacklist db \<and>
        uid u = next_id db \<and> find_user (\<lambda>v. email v = email u) db = None \<and>
        find_user (\<lambda>v. username v = username u) db = None \<and>
        validate_email (email u) \<and> pw_policy_ok (password u))"
proof (cases body)
  case (JObj data)
  show ?thesis
    unfolding register_def JObj jval.case Let_def
    by (cases "str_strip (get_default data ''email'' (JStr []))";
        cases "str_strip (get_default data ''username'' (JStr []))";
        cases "get_default data ''password'' (JStr [])";
        simp add: validate_password_val_def generate_password_hash_def split: prod.split)
qed (simp_all add: register_def)

lemma acct_inv_register:
  assumes "acct_inv db" shows "acct_inv (snd (register now body db))"
  using register_cases [of now body db]
proof
  assume "snd (register now body db) = db" then show ?thesis using assms by simp
next
  assume "\<exists>u. users (snd (register now body db)) = users db @ [u] \<and>
        next_id (snd (register now body db)) = Suc (next_id db) \<and>
        blacklist (snd (register now body db)) = blacklist db \<and>
        uid u = next_id db \<and> find_user (\<lambda>v. email v = email u) db = None \<and>
        find_user (\<lambda>v. username v = username u) db = None \<and>
        validate_email (email u) \<and> pw_policy_ok (password u)"
  then obtain u where "users (snd (register now body db)) = users db @ [u]"
      "next_id (snd (register now body db)) = Suc (next_id db)" "uid u = next_id db"
      "find_user (\<lambda>v. email v = email u) db = None" "find_user (\<lambda>v. username v = username u) db = None"
      "validate_email (email u)" "pw_policy_ok (password u)" by blast
  then show ?thesis using assms
    unfolding acct_inv_def by (auto simp: list_all_iff less_Suc_eq find_user_None)
qed

lemma acct_inv_same_users:
  "users db' = users db \<Longrightarrow> next_id db' = next_id db \<Longrightarrow> acct_inv db' = acct_inv db"
  by (simp add: acct_inv_def)

lemma acct_inv_row: "acct_inv db \<Longrightarrow> u \<in> set (users db) \<Longrightarrow> validate_email (email u) \<and> pw_policy_ok (password u)"
  by (auto simp: acct_inv_def list_all_iff)

lemma acct_inv_blacklist [simp]: "acct_inv (db\<lparr>blacklist := b\<rparr>) = acct_inv db"
  by (simp add: acct_inv_def)

lemma login_cases:
  "snd (login ev now body db) = db \<or>
   (\<exists>u. u \<in> set (users db) \<and> snd (login ev now body db) = put_user (u\<lparr>last_login := Some now\<rparr>) db)"
proof (cases body)
  case (JObj data)
  show ?thesis
    unfolding login_def JObj jval.case Let_def
    by (auto dest!: find_user_Some split: option.split sum.split bool.split)
qed (simp_all add: login_def)

lemma acct_inv_login:
  assumes "acct_inv db" shows "acct_inv (snd (login ev now body db))"
  using login_cases [of ev now body db]
proof
  assume "snd (login ev now body db) = db" then show ?thesis using assms by simp
next
  assume "\<exists>u. u \<in> set (users db) \<and> snd (login ev now body db) = put_user (u\<lparr>last_login := Some now\<rparr>) db"
  then obtain u where u: "u \<in> set (users db)" and e: "snd (login ev now body db) = put_user (u\<lparr>last_login := Some now\<rparr>) db"
    by blast
  show ?thesis
    unfolding e using acct_inv_put_user [OF assms u] acct_inv_row [OF assms u] by simp
qed

lemma acct_inv_logout: "acct_inv db \<Longrightarrow> acct_inv (snd (logout ev now hdr db))"
  by (simp add: logout_def Let_def split: sum.split option.split prod.split)

lemma acct_inv_refresh: "acct_inv db \<Longrightarrow> acct_inv (snd (refresh_token ev now hdr db))"
  by (simp add: refresh_token_def split: sum.split option.split)

lemma acct_inv_get_profile: "acct_inv db \<Longrightarrow> acct_inv (snd (get_profile ev now hdr db))"
  by (simp add: get_profile_def split: sum.split)

lemma acct_inv_cleanup: "acct_inv db \<Longrightarrow> acct_inv (cleanup_expired now db)"
  by (simp add: cleanup_expired_def acct_inv_def)

lemma update_username_Inr:
  "update_username db data u = Inr u1 \<Longrightarrow>
   uid u1 = uid u \<and> email u1 = email u \<and> password u1 = password u \<and>
   (username u1 = username u \<or> find_user (\<lambda>v. username v = username u1) db = None)"
  by (auto simp: update_username_def split: option.splits bool.splits if_splits)

lemma update_email_Inr:
  "update_email db data u = Inr u2 \<Longrightarrow>
   uid u2 = uid u \<and> username u2 = username u \<and> password u2 = password u \<and>
   (email u2 = email u \<or> (find_user (\<lambda>v. email v = email u2) db = None \<and> validate_email (email u2)))"
  by (auto simp: update_email_def split: option.splits bool.splits if_splits)

lemma acct_inv_update_profile:
  assumes inv: "acct_inv db" shows "acct_inv (snd (update_profile ev now hdr data db))"
proof -
  have "acct_inv (put_user u2 db)"
    if u: "u \<in> set (users db)" and u1: "update_username db data u = Inr u1" and u2: "update_email db data u1 = Inr u2"
    for u u1 u2
  proof (rule acct_inv_put_user [OF inv u])
    note a = update_username_Inr [OF u1] and b = update_email_Inr [OF u2]
    show "uid u2 = uid u" using a b by simp
    show "email u2 = email u \<or> email u2 \<notin> email ` set (users db)"
      using a b by (auto simp: find_user_None)
    show "username u2 = username u \<or> username u2 \<notin> username ` set (users db)"
      using a b by (auto simp: find_user_None)
    show "validate_email (email u2)" using a b acct_inv_row [OF inv u] by auto
    show "pw_policy_ok (password u2)" using a b acct_inv_row [OF inv u] by simp
  qed
  then show ?thesis using inv
    by (auto simp: update_profile_def dest: token_required_user split: sum.split)
qed

lemma acct_inv_change_password:
  assumes inv: "acct_inv db" shows "acct_inv (snd (change_password ev now hdr body db))"
proof (cases "token_required ev now db hdr")
  case (Inr u)
  note u = token_required_user [OF Inr]
  have H: "fst (validate_password p) \<Longrightarrow> acct_inv (put_user (u\<lparr>password := generate_password_hash p\<rparr>) db)" for p
    using acct_inv_put_user [OF inv u] acct_inv_row [OF inv u] by (simp add: generate_password_hash_def)
  show ?thesis
  proof (cases body)
    case (JObj data)
    show ?thesis
      unfolding change_password_def Inr JObj sum.case jval.case Let_def
      using inv H
      by (cases "get_default data ''new_password'' (JStr [])";
          simp add: validate_password_val_def split: sum.split bool.split prod.split)
  qed (simp_all add: change_password_def Inr inv)
qed (simp add: change_password_def inv)

lemma acct_inv_handle: "acct_inv db \<Longrightarrow> acct_inv (snd (acct_handle ev now op db))"
  by (cases op) (simp_all add: acct_inv_register acct_inv_login acct_inv_logout acct_inv_refresh
      acct_inv_get_profile acct_inv_update_profile acct_inv_change_password acct_inv_cleanup)

text \<open>C26: In every database reachable from the empty one by the routes and by \<open>cleanup_expired\<close>, user ids are distinct and below the next id, e-mails and user names are distinct, every e-mail passes \<open>validate_email\<close> and every stored password passes \<open>validate_password\<close>.\<close>

theorem reach_acct_inv: "acct_reach ev db \<Longrightarrow> acct_inv db"
proof (induction rule: acct_reach.induct)
  case (init ev)
  then show ?case by (simp add: acct_inv_def empty_db_def)
next
  case (step ev db now op)
  then show ?case by (simp add: acct_inv_handle)
qed

lemma bearer_strip_bearer: "CHR '' '' \<notin> set t \<Longrightarrow> bearer_strip (''Bearer '' @ t) = t"
  by (simp add: bearer_strip_def split_on_sep_free)

lemma token_required_Inr:
  "token_required ev now db hdr = Inr u \<Longrightarrow>
   \<exists>h k p. hdr = Some h \<and> secret_key ev = Some k \<and> bearer_strip h \<notin> set (map bl_token (blacklist db)) \<and>
     jwt_decode k now (bearer_strip h) = Inr p \<and> get_user db (jwt_user_id p) = Some u"
  unfolding token_required_def Let_def
  by (auto split: option.splits if_splits sum.splits jwt_error.splits)

lemma jwt_decode_Inr: "jwt_decode k now t = Inr p \<Longrightarrow> jwt_parse k t = Some p \<and> jwt_iat p \<le> now \<and> now < jwt_exp p"
  by (auto simp: jwt_decode_def split: option.splits if_splits)

lemma get_user_Some: "get_user db i = Some u \<Longrightarrow> u \<in> set (users db) \<and> uid u = i"
  by (auto simp: get_user_def dest: find_user_Some)

lemma bl_inv_mono: "bl_inv ev db \<Longrightarrow> blacklist db' = blacklist db \<Longrightarrow> next_id db \<le> next_id db' \<Longrightarrow> bl_inv ev db'"
  by (fastforce simp: bl_inv_def list_all_iff split: option.splits)

lemma register_shape: "blacklist (snd (register now body db)) = blacklist db \<and> next_id db \<le> next_id (snd (register now body db))"
  using register_cases [of now body db] by auto

lemma login_shape: "blacklist (snd (login ev now body db)) = blacklist db \<and> next_id (snd (login ev now body db)) = next_id db"
  using login_cases [of ev now body db] by auto

lemma update_profile_shape:
  "blacklist (snd (update_profile ev now hdr data db)) = blacklist db \<and> next_id (snd (update_profile ev now hdr data db)) = next_id db"
  by (simp add: update_profile_def split: sum.split)

lemma change_password_preserves:
  assumes "P db" and "\<And>u. P (put_user u db)" shows "P (snd (change_password ev now hdr body db))"
proof (cases "token_required ev now db hdr")
  case (Inr u)
  show ?thesis
  proof (cases body)
    case (JObj data)
    show ?thesis
      unfolding change_password_def Inr JObj sum.case jval.case Let_def
      using assms
      by (cases "get_default data ''new_password'' (JStr [])";
          simp add: validate_password_val_def split: sum.split bool.split prod.split)
  qed (simp_all add: change_password_def Inr assms)
qed (simp add: change_password_def assms)

lemma bl_inv_logout:
  assumes inv: "acct_inv db" and bl: "bl_inv ev db" shows "bl_inv ev (snd (logout ev now hdr db))"
proof (cases "token_required ev now db hdr")
  case (Inr u)
  obtain h k p where h: "hdr = Some h" and k: "secret_key ev = Some k"
    and d: "jwt_decode k now (bearer_strip h) = Inr p" and g: "get_user db (jwt_user_id p) = Some u"
    using token_required_Inr [OF Inr] by blast
  have "jwt_user_id p < next_id db"
    using get_user_Some [OF g] inv by (auto simp: acct_inv_def list_all_iff)
  then show ?thesis
    using bl Inr h k d jwt_decode_Inr [OF d] by (simp add: logout_def bl_inv_def)
qed (simp add: logout_def bl)

lemma bl_inv_cleanup: "bl_inv ev db \<Longrightarrow> bl_inv ev (cleanup_expired now db)"
  by (auto simp: bl_inv_def cleanup_expired_def list_all_iff split: option.splits)

lemma bl_inv_handle:
  assumes inv: "acct_inv db" and bl: "bl_inv ev db" shows "bl_inv ev (snd (acct_handle ev now op db))"
proof (cases op)
  case (Register b)
  have "bl_inv ev (snd (register now b db))"
    using bl_inv_mono [OF bl] register_shape [of now b db] by blast
  then show ?thesis using Register by simp
next
  case (Login b)
  have "bl_inv ev (snd (login ev now b db))"
    using bl_inv_mono [OF bl] login_shape [of ev now b db] by simp
  then show ?thesis using Login by simp
next
  case (Logout h) then show ?thesis using bl_inv_logout [OF inv bl] by simp
next
  case (RefreshToken h) then show ?thesis using bl by (simp add: refresh_token_def split: sum.split option.split)
next
  case (GetProfile h) then show ?thesis using bl by (simp add: get_profile_def split: sum.split)
next
  case (UpdateProfile h b)
  have "bl_inv ev (snd (update_profile ev now h b db))"
    using bl_inv_mono [OF bl] update_profile_shape [of ev now h b db] by simp
  then show ?thesis using UpdateProfile by simp
next
  case (ChangePassword h b)
  have "bl_inv ev (snd (change_password ev now h b db))"
    using change_password_preserves [of "bl_inv ev" db] bl_inv_mono [OF bl] by simp
  then show ?thesis using ChangePassword by simp
next
  case CleanupExpired then show ?thesis using bl_inv_cleanup [OF bl] by simp
qed

lemma acct_reach_invs: "acct_reach ev db \<Longrightarrow> acct_inv db \<and> bl_inv ev db"
proof (induction rule: acct_reach.induct)
  case (init ev)
  then show ?case by (simp add: acct_inv_def bl_inv_def empty_db_def split: option.split)
next
  case (step ev db now op)
  then show ?case by (simp add: acct_inv_handle bl_inv_handle)
qed

lemma find_append_none: "\<forall>y\<in>set xs. \<not> P y \<Longrightarrow> find P (xs @ ys) = find P ys"
  by (induction xs) auto

lemma register_ok:
  assumes "register now (JObj [(''email'', JStr e), (''password'', JStr p), (''username'', JStr n)]) db = (Resp 201 j, db1)"
  shows "db1 = db\<lparr>users := users db @ [\<lparr>uid = next_id db, email = py_strip e, username = py_strip n,
            password = Pbkdf2Sha256 p, created_at = now, last_login = None\<rparr>], next_id := Suc (next_id db)\<rparr>
         \<and> find_user (\<lambda>u. email u = py_strip e) db = None \<and> p \<noteq> [] \<and> py_strip e \<noteq> []"
  using assms
  by (simp add: register_def dict_get_def get_default_def str_strip_def validate_password_val_def
      generate_password_hash_def err_def internal_error_def Let_def split: if_splits prod.splits)

lemma login_ok:
  assumes "find_user (\<lambda>u. email u = py_strip e) db = Some u" "password u = Pbkdf2Sha256 p"
    "py_strip e \<noteq> []" "p \<noteq> []" "secret_key ev = Some k"
  shows "login ev t (JObj [(''email'', JStr e), (''password'', JStr p)]) db =
    (Resp 200 (JObj [(''message'', JStr ''Login successful''), (''token'', JStr (jwt_encode k (token_payload u t))),
                     (''user'', user_json u), (''expires_in'', JInt 86400)]),
     put_user (u\<lparr>last_login := Some t\<rparr>) db)"
  using assms by (simp add: login_def dict_get_def get_default_def str_strip_def TOKEN_EXPIRY_HOURS_def)

text \<open>C27: After a successful registration in a reachable database, logging in with the same e-mail and password succeeds and returns a token that \<open>token_required\<close> accepts as the new user throughout the next 24 hours.\<close>

theorem register_login_authenticates:
  assumes reach: "acct_reach ev db" and key: "secret_key ev = Some k"
    and reg: "register now (JObj [(''email'', JStr e), (''password'', JStr p), (''username'', JStr n)]) db = (Resp 201 j, db1)"
    and time: "t \<le> t'" "t' < t + 86400"
  shows "\<exists>tok ub db2 u.
           login ev t (JObj [(''email'', JStr e), (''password'', JStr p)]) db1
             = (Resp 200 (JObj [(''message'', JStr ''Login successful''), (''token'', JStr tok), (''user'', ub),
                                (''expires_in'', JInt 86400)]), db2)
         \<and> token_required ev t' db2 (Some (''Bearer '' @ tok)) = Inr u
         \<and> uid u = next_id db \<and> email u = py_strip e \<and> username u = py_strip n"
proof -
  have inv: "acct_inv db" and bl: "bl_inv ev db" using acct_reach_invs [OF reach] by auto
  define u0 where "u0 = \<lparr>uid = next_id db, email = py_strip e, username = py_strip n,
            password = Pbkdf2Sha256 p, created_at = now, last_login = None\<rparr>"
  note r = register_ok [OF reg, folded u0_def]
  have db1: "db1 = db\<lparr>users := users db @ [u0], next_id := Suc (next_id db)\<rparr>" using r by simp
  have none: "\<forall>y\<in>set (users db). email y \<noteq> py_strip e" using r by (simp add: find_user_None)
  have f: "find_user (\<lambda>u. email u = py_strip e) db1 = Some u0"
    using none by (simp add: find_user_def db1 find_append_none u0_def)
  define tok where "tok = jwt_encode k (token_payload u0 t)"
  define db2 where "db2 = put_user (u0\<lparr>last_login := Some t\<rparr>) db1"
  have l: "login ev t (JObj [(''email'', JStr e), (''password'', JStr p)]) db1 =
    (Resp 200 (JObj [(''message'', JStr ''Login successful''), (''token'', JStr tok),
                     (''user'', user_json u0), (''expires_in'', JInt 86400)]), db2)"
    using login_ok [OF f _ _ _ key] r by (simp add: u0_def tok_def db2_def)
  have lt: "\<forall>v\<in>set (users db). uid v < next_id db" using inv by (simp add: acct_inv_def list_all_iff)
  have users2: "users db2 = users db @ [u0\<lparr>last_login := Some t\<rparr>]"
    using lt by (auto simp: db2_def db1 put_user_def u0_def intro!: map_idI)
  have bl2: "blacklist db2 = blacklist db" by (simp add: db2_def db1)
  have notbl: "tok \<notin> set (map bl_token (blacklist db2))"
  proof
    assume "tok \<in> set (map bl_token (blacklist db2))"
    then obtain b where "b \<in> set (blacklist db)" "bl_token b = tok" using bl2 by auto
    then obtain q where "jwt_parse k tok = Some q" "jwt_user_id q < next_id db"
      using bl key by (auto simp: bl_inv_def list_all_iff)
    then show False by (auto simp: tok_def token_payload_def u0_def)
  qed
  have dec: "jwt_decode k t' tok = Inr (token_payload u0 t)"
    using time by (simp add: jwt_decode_def tok_def token_payload_def TOKEN_EXPIRY_HOURS_def)
  have g: "get_user db2 (next_id db) = Some (u0\<lparr>last_login := Some t\<rparr>)"
  proof -
    have "\<forall>y\<in>set (users db). \<not> uid y = next_id db" using lt by auto
    then show ?thesis by (simp add: get_user_def find_user_def users2 find_append_none u0_def)
  qed
  have "token_required ev t' db2 (Some (''Bearer '' @ tok)) = Inr (u0\<lparr>last_login := Some t\<rparr>)"
  proof -
    have sp: "CHR '' '' \<notin> set tok" by (simp add: tok_def)
    have uidp: "jwt_user_id (token_payload u0 t) = next_id db" by (simp add: token_payload_def u0_def)
    have bs: "bearer_strip (''Bearer '' @ tok) = tok" by (rule bearer_strip_bearer [OF sp])
    show ?thesis using notbl dec g key
      using bs by (simp add: token_required_def Let_def uidp)
  qed
  then show ?thesis using l by (auto simp: u0_def)
qed

lemma acct_run_Cons [simp]: "acct_run ev d ((t, op) # ops) = acct_run ev (snd (acct_handle ev t op d)) ops"
  by (simp add: acct_run_def)

lemma acct_run_Nil [simp]: "acct_run ev d [] = d"
  by (simp add: acct_run_def)

lemma blacklist_grows:
  "op \<noteq> CleanupExpired \<Longrightarrow> set (blacklist d) \<subseteq> set (blacklist (snd (acct_handle ev t op d)))"
proof (cases op)
  case (Register b) then show ?thesis using register_shape [of t b d] by simp
next
  case (Login b) then show ?thesis using login_shape [of ev t b d] by simp
next
  case (Logout h) then show ?thesis
    by (auto simp: logout_def Let_def split: sum.split option.split prod.split)
next
  case (RefreshToken h) then show ?thesis by (simp add: refresh_token_def split: sum.split option.split)
next
  case (GetProfile h) then show ?thesis by (simp add: get_profile_def split: sum.split)
next
  case (UpdateProfile h b) then show ?thesis using update_profile_shape [of ev t h b d] by simp
next
  case (ChangePassword h b) then show ?thesis
    using change_password_preserves [of "\<lambda>d'. set (blacklist d) \<subseteq> set (blacklist d')" d] by simp
qed simp

lemma revoke_step:
  assumes "tc \<le> t" and "0 \<le> tz_offset ev"
    and "(\<exists>b\<in>set (blacklist d). bl_token b = T \<and> bl_expires b = ex + tz_offset ev) \<or> ex < tc"
  shows "(\<exists>b\<in>set (blacklist (snd (acct_handle ev t op d))). bl_token b = T \<and> bl_expires b = ex + tz_offset ev) \<or> ex < t"
proof (cases "op = CleanupExpired")
  case True
  then show ?thesis using assms by (auto simp: cleanup_expired_def)
next
  case False
  then show ?thesis using assms blacklist_grows [OF False, of d ev t] by fastforce
qed

lemma revoke_run:
  assumes "sorted (tc # map fst ops)" and "0 \<le> tz_offset ev"
    and "(\<exists>b\<in>set (blacklist d). bl_token b = T \<and> bl_expires b = ex + tz_offset ev) \<or> ex < tc"
  shows "(\<exists>b\<in>set (blacklist (acct_run ev d ops)). bl_token b = T \<and> bl_expires b = ex + tz_offset ev)
         \<or> ex < last (tc # map fst ops)"
  using assms
proof (induction ops arbitrary: tc d)
  case Nil
  then show ?case by simp
next
  case (Cons top ops)
  obtain t op where top: "top = (t, op)" by (cases top)
  have "tc \<le> t" "sorted (t # map fst ops)" using Cons.prems(1) top by auto
  moreover note revoke_step [OF \<open>tc \<le> t\<close> Cons.prems(2) Cons.prems(3), of op]
  ultimately show ?case using Cons.IH [of t "snd (acct_handle ev t op d)"] Cons.prems(2) top by simp
qed

lemma token_required_rejects:
  assumes "secret_key ev = Some k"
    and "bearer_strip h \<in> set (map bl_token (blacklist d)) \<or> (\<exists>e. jwt_decode k now (bearer_strip h) = Inl e)"
  shows "\<exists>e. token_required ev now d (Some h) = Inl e"
  using assms by (auto simp: token_required_def Let_def split: sum.split jwt_error.split option.split)

lemma token_required_Inl: "token_required ev now db hdr = Inl r \<Longrightarrow> \<exists>m. r = err 401 m"
  unfolding token_required_def Let_def
  by (auto split: option.splits if_splits sum.splits jwt_error.splits)

lemma logout_ok:
  assumes "logout ev t0 (Some h) db = (Resp 200 r, db1)"
  shows "\<exists>k p. secret_key ev = Some k \<and> jwt_decode k t0 (bearer_strip h) = Inr p \<and>
     blacklist db1 = blacklist db @ [\<lparr>bl_token = bearer_strip h, bl_on = t0, bl_expires = jwt_exp p + tz_offset ev\<rparr>]"
  using assms
  by (auto simp: logout_def Let_def err_def dest!: token_required_Inl split: sum.splits option.splits prod.splits)

text \<open>C28: When the server runs at UTC or east of it, a token revoked by \<open>logout\<close> is never accepted again by \<open>token_required\<close>, whatever requests and cleanups follow in time order.\<close>

theorem revoked_token_rejected:
  assumes lo: "logout ev t0 (Some h) db = (Resp 200 r, db1)" and tz: "0 \<le> tz_offset ev"
    and srt: "sorted (t0 # map fst ops)" and late: "last (t0 # map fst ops) \<le> now"
  shows "\<exists>e. token_required ev now (acct_run ev db1 ops) (Some h) = Inl e"
proof -
  obtain k p where k: "secret_key ev = Some k" and d: "jwt_decode k t0 (bearer_strip h) = Inr p"
    and b: "blacklist db1 = blacklist db @ [\<lparr>bl_token = bearer_strip h, bl_on = t0, bl_expires = jwt_exp p + tz_offset ev\<rparr>]"
    using logout_ok [OF lo] by blast
  have "(\<exists>b\<in>set (blacklist (acct_run ev db1 ops)). bl_token b = bearer_strip h \<and> bl_expires b = jwt_exp p + tz_offset ev)
         \<or> jwt_exp p < last (t0 # map fst ops)"
    using b by (intro revoke_run [OF srt tz]) auto
  then have "bearer_strip h \<in> set (map bl_token (blacklist (acct_run ev db1 ops))) \<or> jwt_exp p < now"
    using late by force
  moreover have "jwt_exp p < now \<Longrightarrow> \<exists>e. jwt_decode k now (bearer_strip h) = Inl e"
    using jwt_decode_Inr [OF d] by (simp add: jwt_decode_def)
  ultimately show ?thesis using token_required_rejects [OF k] by blast
qed

lemmas acct_eval = register_def login_def logout_def token_required_def cleanup_expired_def
  dict_get_def get_default_def str_strip_def validate_password_val_def validate_password_def
  validate_email_def email_match_def email_domain_ok_def email_local_char_def email_domain_char_def
  is_ascii_alpha_def is_ascii_upper_def is_ascii_lower_def is_ascii_digit_def
  find_user_def get_user_def put_user_def generate_password_hash_def empty_db_def
  token_payload_def TOKEN_EXPIRY_HOURS_def bearer_strip_def py_strip_def py_lstrip_def py_rstrip_def py_isspace_def
  user_json_def err_def Let_def

lemma tok_ann_decode: "jwt_decode ''k'' now tok_ann =
   (if now < 0 then Inl InvalidTokenError else if 86400 \<le> now then Inl ExpiredSignatureError
    else Inr \<lparr>jwt_user_id = 1, jwt_email = ''ann@ex.io'', jwt_exp = 86400, jwt_iat = 0\<rparr>)"
  by (simp add: tok_ann_def jwt_decode_def)

lemma tok_ann_bearer: "bearer_strip (''Bearer '' @ tok_ann) = tok_ann"
  by (rule bearer_strip_bearer) (simp add: tok_ann_def)

lemma logout_ann:
  "logout \<lparr>secret_key = Some ''k'', tz_offset = 0\<rparr> 10 (Some (''Bearer '' @ tok_ann))
      \<lparr>users = [\<lparr>uid = 1, email = ''ann@ex.io'', username = ''ann'', password = Pbkdf2Sha256 ''Secret123'',
                 created_at = 0, last_login = Some 0\<rparr>], next_id = 2, blacklist = []\<rparr>
    = (Resp 200 (JObj [(''message'', JStr ''Logout successful'')]),
       \<lparr>users = [\<lparr>uid = 1, email = ''ann@ex.io'', username = ''ann'', password = Pbkdf2Sha256 ''Secret123'',
                 created_at = 0, last_login = Some 0\<rparr>], next_id = 2,
        blacklist = [\<lparr>bl_token = tok_ann, bl_on = 10, bl_expires = 86400\<rparr>]\<rparr>)"
proof -
  note b = tok_ann_bearer [simplified]
  show ?thesis by (simp add: b logout_def token_required_def Let_def tok_ann_decode get_user_def find_user_def)
qed

lemma logout_success:
  assumes "token_required ev now db (Some h) = Inr u" and "secret_key ev = Some k"
    and "jwt_decode k now (bearer_strip h) = Inr p"
  shows "logout ev now (Some h) db = (Resp 200 (JObj [(''message'', JStr ''Logout successful'')]),
      db\<lparr>blacklist := blacklist db @ [\<lparr>bl_token = bearer_strip h, bl_on = now, bl_expires = jwt_exp p + tz_offset ev\<rparr>]\<rparr>)"
  using assms by (simp add: logout_def Let_def)

text \<open>C29: West of UTC the revocation does not last: \<open>logout\<close> stores \<open>expires_at\<close> as local time (\<open>datetime.fromtimestamp(exp)\<close>, \<open>exp\<close> plus the offset) while \<open>cleanup_expired\<close> compares it with UTC. A token revoked by a successful logout is refused as revoked until a cleanup runs; a cleanup at any time between \<open>exp\<close> plus the offset and \<open>exp\<close> deletes its row, and the token is accepted again as its user.\<close>

theorem revoked_token_accepted_after_cleanup:
  assumes tr: "token_required ev now db (Some h) = Inr u" and "now \<le> t"
    and dec: "jwt_decode k now (bearer_strip h) = Inr p" and sk: "secret_key ev = Some k"
    and "jwt_exp p + tz_offset ev < t" and "t < jwt_exp p"
  shows "\<exists>db1. logout ev now (Some h) db = (Resp 200 (JObj [(''message'', JStr ''Logout successful'')]), db1)
     \<and> token_required ev t db1 (Some h) = Inl (err 401 ''Token has been revoked'')
     \<and> token_required ev t (cleanup_expired t db1) (Some h) = Inr u"
proof -
  obtain h' k' p' where "Some h = Some h'" and "secret_key ev = Some k'"
    and nb: "bearer_strip h' \<notin> set (map bl_token (blacklist db))"
    and d': "jwt_decode k' now (bearer_strip h') = Inr p'" and gu: "get_user db (jwt_user_id p') = Some u"
    using token_required_Inr [OF tr] by blast
  then have hh: "h' = h" "k' = k" "p' = p" using sk dec by auto
  have ne: "h \<noteq> []" using tr by (auto simp: token_required_def)
  have "jwt_iat p \<le> now" "now < jwt_exp p" using dec by (auto simp: jwt_decode_def split: option.splits if_splits)
  then have dt: "jwt_decode k t (bearer_strip h) = Inr p" using jwt_decode_window [OF dec] assms(2,6) by simp
  define db1 where "db1 = db\<lparr>blacklist := blacklist db @ [\<lparr>bl_token = bearer_strip h, bl_on = now, bl_expires = jwt_exp p + tz_offset ev\<rparr>]\<rparr>"
  have lo: "logout ev now (Some h) db = (Resp 200 (JObj [(''message'', JStr ''Logout successful'')]), db1)"
    unfolding db1_def by (rule logout_success [OF tr sk dec])
  have r1: "token_required ev t db1 (Some h) = Inl (err 401 ''Token has been revoked'')"
    using ne by (simp add: token_required_def db1_def)
  have "bearer_strip h \<notin> set (map bl_token (blacklist (cleanup_expired t db1)))"
    using nb hh assms(5) by (auto simp: cleanup_expired_def db1_def)
  moreover have "get_user (cleanup_expired t db1) (jwt_user_id p) = Some u"
    using gu hh by (simp add: cleanup_expired_def db1_def get_user_def find_user_def)
  ultimately have r2: "token_required ev t (cleanup_expired t db1) (Some h) = Inr u"
    using ne sk dt by (simp add: token_required_def)
  show ?thesis using lo r1 r2 by blast
qed

theorem revoked_token_accepted_after_cleanup_witness:
  "\<exists>db1. logout \<lparr>secret_key = Some ''k'', tz_offset = -3600\<rparr> 10 (Some (''Bearer '' @ tok_ann))
      \<lparr>users = [\<lparr>uid = 1, email = ''ann@ex.io'', username = ''ann'', password = Pbkdf2Sha256 ''Secret123'',
                 created_at = 0, last_login = Some 0\<rparr>], next_id = 2, blacklist = []\<rparr>
       = (Resp 200 (JObj [(''message'', JStr ''Logout successful'')]), db1)
     \<and> token_required \<lparr>secret_key = Some ''k'', tz_offset = -3600\<rparr> 82801 db1 (Some (''Bearer '' @ tok_ann))
       = Inl (err 401 ''Token has been revoked'')
     \<and> token_required \<lparr>secret_key = Some ''k'', tz_offset = -3600\<rparr> 82801 (cleanup_expired 82801 db1) (Some (''Bearer '' @ tok_ann))
       = Inr \<lparr>uid = 1, email = ''ann@ex.io'', username = ''ann'', password = Pbkdf2Sha256 ''Secret123'',
                 created_at = 0, last_login = Some 0\<rparr>"
proof -
  note b = tok_ann_bearer [simplified]
  have tr: "token_required \<lparr>secret_key = Some ''k'', tz_offset = -3600\<rparr> 10
      \<lparr>users = [\<lparr>uid = 1, email = ''ann@ex.io'', username = ''ann'', password = Pbkdf2Sha256 ''Secret123'',
                 created_at = 0, last_login = Some 0\<rparr>], next_id = 2, blacklist = []\<rparr> (Some (''Bearer '' @ tok_ann))
    = Inr \<lparr>uid = 1, email = ''ann@ex.io'', username = ''ann'', password = Pbkdf2Sha256 ''Secret123'',
                 created_at = 0, last_login = Some 0\<rparr>"
    by (simp add: b token_required_def tok_ann_decode get_user_def find_user_def)
  have dec: "jwt_decode ''k'' 10 (bearer_strip (''Bearer '' @ tok_ann)) = Inr \<lparr>jwt_user_id = 1, jwt_email = ''ann@ex.io'', jwt_exp = 86400, jwt_iat = 0\<rparr>"
    by (simp add: b tok_ann_decode)
  show ?thesis
    using revoked_token_accepted_after_cleanup [OF tr _ dec, of 82801] by simp
qed

text \<open>C30: \<open>update_profile\<close> strips the new user name but never checks that it is non-empty: \<open>register\<close> refuses every whitespace-only user name, yet a profile update with such a name, when no user has the empty name, succeeds and stores the empty name.\<close>

theorem update_profile_empty_username:
  assumes "py_strip un = []" and tr: "token_required ev now db hdr = Inr u"
    and none: "find_user (\<lambda>v. username v = []) db = None"
  shows "fst (register now' (JObj [(''email'', JStr em), (''password'', pw), (''username'', JStr un)]) db)
       = err 400 ''Email, username, and password are required''
    \<and> update_profile ev now hdr (JObj [(''username'', JStr un)]) db
       = (Resp 200 (JObj [(''message'', JStr ''Profile updated successfully''), (''user'', user_json (u\<lparr>username := []\<rparr>))]),
          put_user (u\<lparr>username := []\<rparr>) db)"
proof
  show "fst (register now' (JObj [(''email'', JStr em), (''password'', pw), (''username'', JStr un)]) db)
       = err 400 ''Email, username, and password are required''"
    using assms(1) by (simp add: register_def str_strip_def get_default_def dict_get_def Let_def)
next
  have "u \<in> set (users db)" using tr by (rule token_required_user)
  then have "username u \<noteq> []" using none by (auto simp: find_user_def find_None_iff)
  then show "update_profile ev now hdr (JObj [(''username'', JStr un)]) db
       = (Resp 200 (JObj [(''message'', JStr ''Profile updated successfully''), (''user'', user_json (u\<lparr>username := []\<rparr>))]),
          put_user (u\<lparr>username := []\<rparr>) db)"
    using assms(1) tr none
    by (simp add: update_profile_def update_username_def update_email_def py_contains_def py_getitem_def
        dict_get_def str_strip_def)
qed

theorem update_profile_empty_username_witness:
  "fst (register 0 (JObj [(''email'', JStr ''ann@ex.io''), (''password'', JStr ''Secret123''), (''username'', JStr '' '')])
      \<lparr>users = [\<lparr>uid = 1, email = ''ann@ex.io'', username = ''ann'', password = Pbkdf2Sha256 ''Secret123'',
                 created_at = 0, last_login = Some 0\<rparr>], next_id = 2, blacklist = []\<rparr>)
     = err 400 ''Email, username, and password are required''
   \<and> snd (update_profile \<lparr>secret_key = Some ''k'', tz_offset = 0\<rparr> 20 (Some (''Bearer '' @ tok_ann)) (JObj [(''username'', JStr '' '')])
      \<lparr>users = [\<lparr>uid = 1, email = ''ann@ex.io'', username = ''ann'', password = Pbkdf2Sha256 ''Secret123'',
                 created_at = 0, last_login = Some 0\<rparr>], next_id = 2, blacklist = []\<rparr>)
     = \<lparr>users = [\<lparr>uid = 1, email = ''ann@ex.io'', username = [], password = Pbkdf2Sha256 ''Secret123'',
                 created_at = 0, last_login = Some 0\<rparr>], next_id = 2, blacklist = []\<rparr>"
proof -
  note b = tok_ann_bearer [simplified]
  have tr: "token_required \<lparr>secret_key = Some ''k'', tz_offset = 0\<rparr> 20
      \<lparr>users = [\<lparr>uid = 1, email = ''ann@ex.io'', username = ''ann'', password = Pbkdf2Sha256 ''Secret123'',
                 created_at = 0, last_login = Some 0\<rparr>], next_id = 2, blacklist = []\<rparr> (Some (''Bearer '' @ tok_ann))
    = Inr \<lparr>uid = 1, email = ''ann@ex.io'', username = ''ann'', password = Pbkdf2Sha256 ''Secret123'',
                 created_at = 0, last_login = Some 0\<rparr>"
    by (simp add: b token_required_def tok_ann_decode get_user_def find_user_def)
  have s: "py_strip '' '' = []" by (simp add: py_strip_def py_lstrip_def py_rstrip_def py_isspace_def)
  have n: "find_user (\<lambda>v. username v = [])
      \<lparr>users = [\<lparr>uid = 1, email = ''ann@ex.io'', username = ''ann'', password = Pbkdf2Sha256 ''Secret123'',
                 created_at = 0, last_login = Some 0\<rparr>], next_id = 2, blacklist = []\<rparr> = None"
    by (simp add: find_user_def)
  show ?thesis
    using update_profile_empty_username [OF s tr n, of 0 "''ann@ex.io''" "JStr ''Secret123''"]
    by (simp add: put_user_def)
qed

theorem reach_acct_inv_witness: "acct_reach \<lparr>secret_key = None, tz_offset = 0\<rparr> empty_db \<and> acct_inv empty_db"
  using reach_acct_inv [of "\<lparr>secret_key = None, tz_offset = 0\<rparr>" empty_db] acct_reach.init by blast

theorem revoked_token_rejected_witness:
  "logout \<lparr>secret_key = Some ''k'', tz_offset = 0\<rparr> 10 (Some (''Bearer '' @ tok_ann))
      \<lparr>users = [\<lparr>uid = 1, email = ''ann@ex.io'', username = ''ann'', password = Pbkdf2Sha256 ''Secret123'',
                 created_at = 0, last_login = Some 0\<rparr>], next_id = 2, blacklist = []\<rparr>
    = (Resp 200 (JObj [(''message'', JStr ''Logout successful'')]),
       \<lparr>users = [\<lparr>uid = 1, email = ''ann@ex.io'', username = ''ann'', password = Pbkdf2Sha256 ''Secret123'',
                 created_at = 0, last_login = Some 0\<rparr>], next_id = 2,
        blacklist = [\<lparr>bl_token = tok_ann, bl_on = 10, bl_expires = 86400\<rparr>]\<rparr>)
   \<and> (0::int) \<le> 0 \<and> sorted [10::int, 100] \<and> last [10::int, 100] \<le> 100
   \<and> (\<exists>e. token_required \<lparr>secret_key = Some ''k'', tz_offset = 0\<rparr> 100
          (acct_run \<lparr>secret_key = Some ''k'', tz_offset = 0\<rparr>
             \<lparr>users = [\<lparr>uid = 1, email = ''ann@ex.io'', username = ''ann'', password = Pbkdf2Sha256 ''Secret123'',
                 created_at = 0, last_login = Some 0\<rparr>], next_id = 2,
              blacklist = [\<lparr>bl_token = tok_ann, bl_on = 10, bl_expires = 86400\<rparr>]\<rparr>
             [(100, CleanupExpired)])
          (Some (''Bearer '' @ tok_ann)) = Inl e)"
proof -
  show ?thesis
    using logout_ann revoked_token_rejected [OF logout_ann, of "[(100, CleanupExpired)]" 100] by simp
qed

theorem register_login_authenticates_witness:
  "acct_reach \<lparr>secret_key = Some ''k'', tz_offset = 0\<rparr> empty_db \<and>
   register 0 (JObj [(''email'', JStr ''ann@ex.io''), (''password'', JStr ''Secret123''), (''username'', JStr ''ann'')]) empty_db
     = (Resp 201 (JObj [(''message'', JStr ''User registered successfully''),
          (''user'', JObj [(''id'', JInt 1), (''email'', JStr ''ann@ex.io''), (''username'', JStr ''ann'')])]),
        \<lparr>users = [\<lparr>uid = 1, email = ''ann@ex.io'', username = ''ann'', password = Pbkdf2Sha256 ''Secret123'',
                 created_at = 0, last_login = None\<rparr>], next_id = 2, blacklist = []\<rparr>) \<and>
   (\<exists>tok ub db2 u.
       login \<lparr>secret_key = Some ''k'', tz_offset = 0\<rparr> 5 (JObj [(''email'', JStr ''ann@ex.io''), (''password'', JStr ''Secret123'')])
         \<lparr>users = [\<lparr>uid = 1, email = ''ann@ex.io'', username = ''ann'', password = Pbkdf2Sha256 ''Secret123'',
                 created_at = 0, last_login = None\<rparr>], next_id = 2, blacklist = []\<rparr>
         = (Resp 200 (JObj [(''message'', JStr ''Login successful''), (''token'', JStr tok), (''user'', ub),
                            (''expires_in'', JInt 86400)]), db2)
     \<and> token_required \<lparr>secret_key = Some ''k'', tz_offset = 0\<rparr> 3600 db2 (Some (''Bearer '' @ tok)) = Inr u
     \<and> uid u = 1 \<and> email u = ''ann@ex.io'' \<and> username u = ''ann'')"
proof -
  have reg: "register 0 (JObj [(''email'', JStr ''ann@ex.io''), (''password'', JStr ''Secret123''), (''username'', JStr ''ann'')]) empty_db
     = (Resp 201 (JObj [(''message'', JStr ''User registered successfully''),
          (''user'', JObj [(''id'', JInt 1), (''email'', JStr ''ann@ex.io''), (''username'', JStr ''ann'')])]),
        \<lparr>users = [\<lparr>uid = 1, email = ''ann@ex.io'', username = ''ann'', password = Pbkdf2Sha256 ''Secret123'',
                 created_at = 0, last_login = None\<rparr>], next_id = 2, blacklist = []\<rparr>)"
    by (simp add: acct_eval)
  have r0: "acct_reach \<lparr>secret_key = Some ''k'', tz_offset = 0\<rparr> empty_db" by (rule acct_reach.init)
  show ?thesis
    using register_login_authenticates [OF r0 _ reg, of "''k''" 5 3600] r0 reg
    by (simp add: empty_db_def py_strip_def py_lstrip_def py_rstrip_def py_isspace_def)
qed

end
