(* ===== verification/Routes.thy ===== *)
theory Routes
  imports Analyzer Transform Accounts
begin

text \<open>
  The HTTP routes of src/server/controllers/csv_controller.py (lines 32-56 and
  293-468) and the job queue between them. The server state \<open>server\<close> holds the
  uploaded files (path to text), the Transform's \<open>world\<close> (processed files and the
  Redis keys, here the file metadata \<open>csv_file:<id>\<close> with a 7200-second expiry and the
  progress records) and the RQ jobs in the order they were enqueued, a job's id being
  its position. The CSV blueprint has its own \<open>token_required\<close>: it takes the second
  space-separated word of the header as the token, decodes it with
  \<open>SECRET_KEY\<close> or \<open>dev-secret\<close>, and neither consults the blacklist nor looks the
  user up. \<open>secure_filename\<close> is werkzeug's, modelled from its documentation on ASCII
  names; time stamps are parameters; the worker runs a queued job to completion in one
  step.
\<close>

section \<open>The CSV blueprint's decorator (lines 32-52)\<close>

definition csv_secret :: "env \<Rightarrow> string" where
  "csv_secret ev = (case secret_key ev of Some k \<Rightarrow> k | None \<Rightarrow> ''dev-secret'')"

text \<open>\<open>token.split(" ")[1]\<close> raises \<open>IndexError\<close> on a header without a space, which
  the decorator does not catch.\<close>

definition csv_token_required :: "env \<Rightarrow> int \<Rightarrow> string option \<Rightarrow> response + nat" where
  "csv_token_required ev now hdr =
     (case hdr of
        None \<Rightarrow> Inl (err 401 ''Token is missing'')
      | Some h \<Rightarrow>
          if h = [] then Inl (err 401 ''Token is missing'')
          else
            (let parts = split_on CHR '' '' h in
             if length parts < 2 then Inl internal_error
             else
               (case jwt_decode (csv_secret ev) now (parts ! 1) of
                  Inl ExpiredSignatureError \<Rightarrow> Inl (err 401 ''Token has expired'')
                | Inl InvalidTokenError \<Rightarrow> Inl (err 401 ''Invalid token'')
                | Inr p \<Rightarrow> Inr (jwt_user_id p))))"

section \<open>File names (lines 54-56, 312)\<close>

text \<open>\<open>'.' in filename and filename.rsplit('.', 1)[1].lower() in {'csv'}\<close>.\<close>

definition allowed_file :: "string \<Rightarrow> bool" where
  "allowed_file filename \<longleftrightarrow> CHR ''.'' \<in> set filename \<and> py_lower (py_rsplit1 CHR ''.'' filename ! 1) = ''csv''"

text \<open>\<open>str.split()\<close>: the words between runs of blanks.\<close>

fun py_words :: "string \<Rightarrow> string list" where
  "py_words [] = []"
| "py_words (c # cs) =
     (if py_isspace c then py_words cs
      else (let w = takeWhile (\<lambda>x. \<not> py_isspace x) (c # cs) in w # py_words (drop (length w) (c # cs))))"

definition filename_char :: "char \<Rightarrow> bool" where
  "filename_char c \<longleftrightarrow> is_ascii_alpha c \<or> is_ascii_digit c \<or> c \<in> set ''_.-''"

definition strip_chars :: "string \<Rightarrow> string \<Rightarrow> string" where
  "strip_chars cs s = rev (dropWhile (\<lambda>c. c \<in> set cs) (rev (dropWhile (\<lambda>c. c \<in> set cs) s)))"

text \<open>\<open>werkzeug.utils.secure_filename\<close> on a POSIX system: non-ASCII characters are
  dropped, \<open>/\<close> becomes a blank, blank-separated words are joined by \<open>_\<close>, characters
  outside \<open>[A-Za-z0-9_.-]\<close> are removed, and dots and underscores are stripped from both
  ends.\<close>

definition secure_filename :: "string \<Rightarrow> string" where
  "secure_filename f =
     strip_chars ''._''
       (filter filename_char
         (py_join ''_'' (py_words (map (\<lambda>c. if c = CHR ''/'' then CHR '' '' else c)
                                        (filter (\<lambda>c. of_char c < (128::nat)) f)))))"

definition UPLOAD_FOLDER :: string where
  "UPLOAD_FOLDER = ''uploads''"

definition MAX_FILE_SIZE :: nat where
  "MAX_FILE_SIZE = 100 * 1024 * 1024"

section \<open>Server state\<close>

text \<open>A job holds the arguments it was enqueued with until the worker has run it, then
  the dictionary the task returned.\<close>

datatype job = Queued string jval | Finished jval

record server =
  files :: "string \<Rightarrow> string option"
  store :: world
  jobs :: "job list"

section \<open>JSON renderings\<close>

text \<open>The first error of a list of results, or all the values.\<close>

fun those_sum :: "('e + 'a) list \<Rightarrow> 'e + 'a list" where
  "those_sum [] = Inr []"
| "those_sum (Inl e # _) = Inl e"
| "those_sum (Inr x # xs) = map_sum id (Cons x) (those_sum xs)"

definition cell_pyval :: "cell \<Rightarrow> pyval" where
  "cell_pyval c = (case c of NA \<Rightarrow> PyNaN | CInt i \<Rightarrow> NpInt i | CFloat r \<Rightarrow> NpFloat r | CStr s \<Rightarrow> PyStr s)"

text \<open>Lines 325-342: the preview, the first ten rows read leniently with types, every
  cell through \<open>safe_convert_value\<close>; a file pandas cannot read gives no rows. The
  cells keep their column's type: the upcast of \<open>iterrows\<close> (a row of an int and
  a float column becomes floats) is not modelled.\<close>

definition preview_records :: "string \<Rightarrow> py_error + jval list" where
  "preview_records text =
     (case read_csv_lenient 10 text of
        Inl _ \<Rightarrow> Inr []
      | Inr t \<Rightarrow>
          (let f = to_frame t in
           those_sum (map (\<lambda>row. map_sum id (\<lambda>vs. JObj (zip (fcolumns f) vs))
                                   (those_sum (map (\<lambda>c. safe_convert_value (cell_pyval c)) row)))
                          (frame_rows f))))"

definition unique_json :: "unique_count \<Rightarrow> jval" where
  "unique_json u = (case u of UCount n \<Rightarrow> JInt (int n) | UCapped \<Rightarrow> JStr ''1000+'')"

text \<open>Lines 142-173: the report as the dictionary the route returns.\<close>

definition report_fields :: "quality_report \<Rightarrow> (string \<times> jval) list" where
  "report_fields r =
     [(''total_rows'', JInt (int (total_rows r))), (''total_columns'', JInt (int (total_columns r))),
           (''total_cells'', JInt (int (total_cells r))), (''missing_cells'', JInt (int (missing_cells r))),
           (''missing_percentage'', JFloat (missing_percentage r)),
           (''column_analysis'', JObj (map (\<lambda>(c, cr). (c, JObj [(''dtype'', JStr (dtype cr)),
                (''missing_count'', JInt (int (col_missing cr))), (''missing_percentage'', JFloat (col_missing_pct cr)),
                (''unique_values'', unique_json (unique_values cr)), (''sample_values'', JList (sample_values cr))]))
              (column_analysis r))),
           (''duplicate_rows'', JInt (int (duplicate_rows r))), (''memory_usage'', JFloat (memory_usage r)),
           (''is_large_file'', JBool (is_large_file r))]"

definition report_json :: "quality_report \<Rightarrow> jval" where
  "report_json r = JObj (report_fields r)"

text \<open>The dictionary \<open>preprocess_csv_task_chunked\<close> returns (lines 209-215, 244-255).\<close>

definition task_json :: "task_result \<Rightarrow> jval" where
  "task_json r =
     (case r of
        TaskSuccess out n removed cols \<Rightarrow>
          JObj ([(''status'', JStr ''success''), (''output_path'', JStr out), (''rows_processed'', JInt (int n))]
                @ (case removed of None \<Rightarrow> [] | Some k \<Rightarrow> [(''rows_removed'', JInt (int k))])
                @ [(''columns'', JList (map JStr cols))])
      | TaskError e \<Rightarrow> JObj [(''status'', JStr ''error''), (''error'', JStr ''read error'')])"

section \<open>Routes\<close>

text \<open>\<open>upload_csv\<close> (lines 293-381). \<open>stamp\<close> is \<open>datetime.now().strftime('%Y%m%d_%H%M%S')\<close>,
  \<open>now_iso\<close> is \<open>datetime.now().isoformat()\<close>; the file is \<open>(filename, text)\<close>. The
  analysis wraps every exception of pandas into a plain \<open>Exception\<close>, so the
  \<open>EmptyDataError\<close> and \<open>ParserError\<close> handlers are not reached from it: an unreadable
  file ends in the last handler, which deletes the saved file and answers 500.\<close>

definition upload_csv ::
  "env \<Rightarrow> int \<Rightarrow> string \<Rightarrow> string \<Rightarrow> string option \<Rightarrow> (string \<times> string) option \<Rightarrow> server \<Rightarrow> response \<times> server" where
  "upload_csv ev now stamp now_iso hdr file s =
     (case csv_token_required ev now hdr of
        Inl r \<Rightarrow> (r, s)
      | Inr user_id \<Rightarrow>
          (case file of
             None \<Rightarrow> (err 400 ''No file provided'', s)
           | Some (fname, content) \<Rightarrow>
               if fname = [] then (err 400 ''No file selected'', s)
               else if \<not> allowed_file fname then (err 400 ''Invalid file type. Only CSV files are allowed'', s)
               else
                 (let filename = secure_filename fname;
                      unique_filename = show_nat user_id @ ''_'' @ stamp @ ''_'' @ filename;
                      file_path = UPLOAD_FOLDER @ ''/'' @ unique_filename;
                      saved = s\<lparr>files := (files s)(file_path \<mapsto> content)\<rparr>;
                      removed = s\<lparr>files := (files s)(file_path := None)\<rparr>;
                      file_size = length content
                  in if MAX_FILE_SIZE < file_size then (err 400 ''File size exceeds 100.0MB limit'', removed)
                     else
                       (case preview_records content of
                          Inl _ \<Rightarrow> (err 500 ''Upload failed'', removed)
                        | Inr recs \<Rightarrow>
                            (case analyze_csv_quality_chunked CHUNK_SIZE 10000 file_size content of
                               Inl _ \<Rightarrow> (err 500 ''Upload failed'', removed)
                             | Inr rep \<Rightarrow>
                                 (Resp 200 (JObj [(''message'', JStr ''File uploaded successfully''),
                                                  (''file_id'', JStr unique_filename),
                                                  (''file_size_mb'', JFloat (round2 (real file_size / 1024 / 1024))),
                                                  (''preview'', JList recs), (''quality_report'', report_json rep),
                                                  (''is_large_file'', JBool (is_large_file rep))]),
                                  saved\<lparr>store := setex (''csv_file:'' @ unique_filename) 7200
                                     (JObj [(''original_filename'', JStr filename), (''file_path'', JStr file_path),
                                            (''uploaded_at'', JStr now_iso), (''user_id'', JInt (int user_id)),
                                            (''file_size'', JInt (int file_size))]) (store saved)\<rparr>))))))"

text \<open>The text of a JSON value in \<open>f"csv_file:{file_id}"\<close>; only strings and integers
  can name an uploaded file (its id starts with digits and holds an underscore).\<close>

definition id_text :: "jval \<Rightarrow> string option" where
  "id_text v = (case v of JStr s \<Rightarrow> Some s | JInt i \<Rightarrow> Some (show_int i) | _ \<Rightarrow> None)"

definition file_meta :: "server \<Rightarrow> jval \<Rightarrow> py_dict option" where
  "file_meta s fid =
     (case id_text fid of
        None \<Rightarrow> None
      | Some t \<Rightarrow> (case redis (store s) (''csv_file:'' @ t) of Some (JObj d, _) \<Rightarrow> Some d | _ \<Rightarrow> None))"

definition meta_path :: "py_dict \<Rightarrow> string" where
  "meta_path d = (case dict_get d ''file_path'' of Some (JStr p) \<Rightarrow> p | _ \<Rightarrow> [])"

text \<open>\<open>preprocess_csv\<close> (lines 383-414): the job is enqueued with the file's path and
  the options as sent.\<close>

definition preprocess_csv :: "env \<Rightarrow> int \<Rightarrow> string option \<Rightarrow> jval \<Rightarrow> server \<Rightarrow> response \<times> server" where
  "preprocess_csv ev now hdr body s =
     (case csv_token_required ev now hdr of
        Inl r \<Rightarrow> (r, s)
      | Inr _ \<Rightarrow>
          (case body of
             JObj data \<Rightarrow>
               (let file_id = get_default data ''file_id'' JNull;
                    options = get_default data ''options'' (JObj [])
                in if \<not> py_truthy file_id then (err 400 ''File ID is required'', s)
                   else
                     (case file_meta s file_id of
                        None \<Rightarrow> (err 404 ''File not found or expired'', s)
                      | Some d \<Rightarrow>
                          (Resp 202 (JObj [(''message'', JStr ''Preprocessing started''),
                                           (''task_id'', JStr (show_nat (length (jobs s)))),
                                           (''status'', JStr ''queued''),
                                           (''estimated_time'', JStr ''This may take several minutes for large files'')]),
                           s\<lparr>jobs := jobs s @ [Queued (meta_path d) options]\<rparr>)))
           | _ \<Rightarrow> (internal_error, s)))"

text \<open>The worker running job \<open>i\<close>: \<open>preprocess_csv_task_chunked(file_path, options)\<close>
  on the uploaded text. A missing file, or options that are not a dictionary
  (\<open>options.get\<close> raises after the first read), end in the task's error result.
  The \<open>job_timeout='30m'\<close> and \<open>result_ttl=3600\<close> of the enqueue call are not
  modelled: a job runs to its end, and its result stays.\<close>

definition run_job :: "nat \<Rightarrow> server \<Rightarrow> server" where
  "run_job i s =
     (if i < length (jobs s) then
        (case jobs s ! i of
           Queued p opts \<Rightarrow>
             (case (files s p, opts) of
                (Some text, JObj od) \<Rightarrow>
                  (case preprocess_csv_task_chunked CHUNK_SIZE od p text (store s) of
                     (r, w') \<Rightarrow> s\<lparr>store := w', jobs := (jobs s)[i := Finished (task_json r)]\<rparr>)
              | _ \<Rightarrow> s\<lparr>jobs := (jobs s)[i := Finished (JObj [(''status'', JStr ''error''), (''error'', JStr ''task failed'')])]\<rparr>)
         | Finished _ \<Rightarrow> s)
      else s)"

text \<open>\<open>get_task_status\<close> (lines 416-447). A job not yet finished reports the progress
  record of its file, or 0 rows when there is none.\<close>

definition get_task_status :: "env \<Rightarrow> int \<Rightarrow> string option \<Rightarrow> string \<Rightarrow> server \<Rightarrow> response" where
  "get_task_status ev now hdr task_id s =
     (case csv_token_required ev now hdr of
        Inl r \<Rightarrow> r
      | Inr _ \<Rightarrow>
          (case parse_nat task_id of
             None \<Rightarrow> err 404 ''Task not found''
           | Some i \<Rightarrow>
               if length (jobs s) \<le> i then err 404 ''Task not found''
               else
                 (case jobs s ! i of
                    Finished res \<Rightarrow> Resp 200 (JObj [(''status'', JStr ''completed''), (''result'', res)])
                  | Queued p _ \<Rightarrow>
                      (let rows = (case redis (store s) (progress_key p) of
                                     Some (JObj d, _) \<Rightarrow> get_default d ''rows_processed'' (JInt 0)
                                   | _ \<Rightarrow> JInt 0)
                       in Resp 200 (JObj [(''status'', JStr ''processing''), (''progress'', JInt 0),
                                          (''rows_processed'', rows)])))))"

text \<open>\<open>download_processed_csv\<close> (lines 449-468): the body is the file \<open>send_file\<close>
  sends. \<open>os.path.exists\<close> sees one file system: a processed file written by a task
  (its header and rows, \<open>CsvFile\<close>) and, failing that, an uploaded file at the same path,
  sent as its raw text (\<open>CsvRaw\<close>). The two coincide only when \<open>replace\<close> leaves the
  path unchanged; the processed file is the later write and wins.\<close>

datatype download = CsvFile string "string list \<times> cell list list" | CsvRaw string string
  | DownloadError response

definition download_processed_csv :: "env \<Rightarrow> int \<Rightarrow> string option \<Rightarrow> string \<Rightarrow> server \<Rightarrow> download" where
  "download_processed_csv ev now hdr file_id s =
     (case csv_token_required ev now hdr of
        Inl r \<Rightarrow> DownloadError r
      | Inr _ \<Rightarrow>
          (case file_meta s (JStr file_id) of
             None \<Rightarrow> DownloadError (err 404 ''File not found or expired'')
           | Some d \<Rightarrow>
               (let p = processed_path (meta_path d);
                    name = ''processed_'' @ (case dict_get d ''original_filename'' of Some (JStr f) \<Rightarrow> f | _ \<Rightarrow> [])
                in case outputs (store s) p of
                  Some content \<Rightarrow> CsvFile name content
                | None \<Rightarrow>
                    (case files s p of
                       Some text \<Rightarrow> CsvRaw name text
                     | None \<Rightarrow> DownloadError (err 404 ''Processed file not found'')))))"

text \<open>A second token of the examples, for user 2.\<close>

definition tok_bob :: string where
  "tok_bob = jwt_encode ''k'' \<lparr>jwt_user_id = 2, jwt_email = ''bob@ex.io'', jwt_exp = 86400, jwt_iat = 0\<rparr>"

section \<open>Facts about the routes\<close>

lemma split_bearer: "CHR '' '' \<notin> set t \<Longrightarrow> split_on CHR '' '' (''Bearer '' @ t) = [''Bearer'', t]"
  by (simp add: split_on_sep_free)

lemma csv_token_bearer:
  "CHR '' '' \<notin> set t \<Longrightarrow> csv_token_required ev now (Some (''Bearer '' @ t)) =
     (case jwt_decode (csv_secret ev) now t of
        Inl ExpiredSignatureError \<Rightarrow> Inl (err 401 ''Token has expired'')
      | Inl InvalidTokenError \<Rightarrow> Inl (err 401 ''Invalid token'')
      | Inr p \<Rightarrow> Inr (jwt_user_id p))"
proof -
  assume sp: "CHR '' '' \<notin> set t"
  have ne: "''Bearer '' @ t \<noteq> []" by simp
  show ?thesis
    using split_bearer [OF sp] ne unfolding csv_token_required_def Let_def
    by (simp only: option.case if_False) simp
qed

lemma proc_chunk_no_opts: "proc_chunk [] None hdr c = to_frame \<lparr>tcolumns = hdr, trows = c\<rparr>"
  by (simp add: proc_chunk_def apply_preprocessing_options_def handle_missing_def opt_flag_def dict_get_def)

lemma safe_convert_cell: "\<exists>v. safe_convert_value (cell_pyval c) = Inr v"
  by (cases c) (auto simp: cell_pyval_def safe_convert_value_def isna_elem_def)

lemma those_sum_Inr: "(\<forall>x\<in>set xs. \<exists>v. x = Inr v) \<Longrightarrow> \<exists>vs. those_sum xs = Inr vs"
  by (induction xs rule: those_sum.induct) auto

lemma preview_records_Inr: "\<exists>recs. preview_records text = Inr recs"
proof -
  have "\<exists>vs. those_sum (map (\<lambda>c. safe_convert_value (cell_pyval c)) row) = Inr vs" for row
    using safe_convert_cell by (intro those_sum_Inr) auto
  then have "\<exists>vs. those_sum (map (\<lambda>row. map_sum id g (those_sum (map (\<lambda>c. safe_convert_value (cell_pyval c)) row))) rows) = Inr vs"
    for g :: "jval list \<Rightarrow> jval" and rows
    by (intro those_sum_Inr) (auto, metis map_sum.simps(2))
  then show ?thesis by (simp add: preview_records_def split: sum.split)
qed

lemma upload_csv_ok:
  fixes stamp fname :: string
  assumes "csv_token_required ev now hdr = Inr usr" and "fname \<noteq> []" and "allowed_file fname"
    and "length content \<le> MAX_FILE_SIZE" and "read_csv_strict content = Inr t"
  defines "u \<equiv> show_nat usr @ ''_'' @ stamp @ ''_'' @ secure_filename fname"
  defines "path \<equiv> UPLOAD_FOLDER @ ''/'' @ u"
  shows "\<exists>J. upload_csv ev now stamp now_iso hdr (Some (fname, content)) s =
    (Resp 200 (JObj J), s\<lparr>files := (files s)(path \<mapsto> content),
       store := setex (''csv_file:'' @ u) 7200
         (JObj [(''original_filename'', JStr (secure_filename fname)), (''file_path'', JStr path),
                (''uploaded_at'', JStr now_iso), (''user_id'', JInt (int usr)),
                (''file_size'', JInt (int (length content)))]) (store s)\<rparr>)
    \<and> dict_get J ''file_id'' = Some (JStr u)"
proof -
  obtain recs where pr: "preview_records content = Inr recs" using preview_records_Inr by blast
  show ?thesis
    using assms(1-5) pr analyze_readable [OF assms(5)]
    by (simp add: upload_csv_def u_def path_def Let_def dict_get_def)
qed

lemma preprocess_csv_ok:
  assumes "csv_token_required ev now hdr = Inr usr" and "u \<noteq> []"
    and "redis (store s) (''csv_file:'' @ u) = Some (JObj d, ttl)"
  shows "preprocess_csv ev now hdr (JObj [(''file_id'', JStr u)]) s =
    (Resp 202 (JObj [(''message'', JStr ''Preprocessing started''), (''task_id'', JStr (show_nat (length (jobs s)))),
                     (''status'', JStr ''queued''),
                     (''estimated_time'', JStr ''This may take several minutes for large files'')]),
     s\<lparr>jobs := jobs s @ [Queued (meta_path d) (JObj [])]\<rparr>)"
  using assms by (simp add: preprocess_csv_def get_default_def file_meta_def id_text_def dict_get_def)

lemma flen_proc_chunk_no_opts: "flen (proc_chunk [] None hdr c) = length c"
  by (simp add: proc_chunk_no_opts)

lemma sum_flen_no_opts: "sum_list (map (\<lambda>c. flen (proc_chunk [] None hdr c)) cks) = length (concat cks)"
  by (induction cks) (simp_all add: flen_proc_chunk_no_opts)

lemma task_no_opts:
  assumes "read_csv_strict text = Inr t"
  shows "\<exists>rows. preprocess_csv_task_chunked n [] p text w =
    (TaskSuccess (processed_path p) (length (trows t)) None (tcolumns t),
     w\<lparr>outputs := (outputs w)(processed_path p \<mapsto> (tcolumns t, rows)),
       redis := (redis w)(progress_key p \<mapsto> (progress_value (length (trows t)), 300))\<rparr>)
    \<and> length rows = length (trows t)"
proof -
  obtain c cs where cks: "pd_chunks n (trows t) = c # cs" using pd_chunks_ne by blast
  have nd: "\<not> opt_flag [] ''remove_duplicates''" by (simp add: opt_flag_def dict_get_def)
  have ns: "\<not> opt_flag [] ''standardize_columns''" by (simp add: opt_flag_def dict_get_def)
  have "length (concat (c # cs)) = length (trows t)" using concat_pd_chunks [of n "trows t"] cks by simp
  then show ?thesis
    using task_stream_eq [OF assms nd cks, of p w] ns sum_flen_rows [of "[]" None "tcolumns t" "c # cs"]
    by (simp only: if_False sum_flen_no_opts fcolumns_proc_chunk) (fastforce simp: proc_chunk_no_opts)
qed

lemma run_job_queued:
  assumes "i < length (jobs s)" and "jobs s ! i = Queued p (JObj od)" and "files s p = Some text"
  shows "run_job i s = s\<lparr>store := snd (preprocess_csv_task_chunked CHUNK_SIZE od p text (store s)),
     jobs := (jobs s)[i := Finished (task_json (fst (preprocess_csv_task_chunked CHUNK_SIZE od p text (store s))))]\<rparr>"
  using assms by (simp add: run_job_def split: prod.split)

lemma run_job_no_opts:
  assumes "read_csv_strict content = Inr t" and "jobs s2 = js @ [Queued path (JObj [])]"
    and "files s2 path = Some content"
  shows "\<exists>rows. run_job (length js) s2 = s2\<lparr>store := (store s2)\<lparr>outputs := (outputs (store s2))(processed_path path \<mapsto> (tcolumns t, rows)),
       redis := (redis (store s2))(progress_key path \<mapsto> (progress_value (length (trows t)), 300))\<rparr>,
     jobs := js @ [Finished (task_json (TaskSuccess (processed_path path) (length (trows t)) None (tcolumns t)))]\<rparr>
     \<and> length rows = length (trows t)"
proof -
  obtain rows where tk: "preprocess_csv_task_chunked CHUNK_SIZE [] path content (store s2) =
    (TaskSuccess (processed_path path) (length (trows t)) None (tcolumns t),
     (store s2)\<lparr>outputs := (outputs (store s2))(processed_path path \<mapsto> (tcolumns t, rows)),
       redis := (redis (store s2))(progress_key path \<mapsto> (progress_value (length (trows t)), 300))\<rparr>)"
    and len: "length rows = length (trows t)"
    using task_no_opts [OF assms(1)] by blast
  show ?thesis using run_job_queued [of "length js" s2 path "[]" content] assms(2,3) tk len by auto
qed

lemma meta_path_upload:
  "meta_path [(''original_filename'', JStr f), (''file_path'', JStr p), (''uploaded_at'', JStr a),
              (''user_id'', JInt n), (''file_size'', JInt z)] = p"
  by (simp add: meta_path_def dict_get_def)

lemma no_dot_csv: "CHR ''.'' \<notin> set a \<Longrightarrow> \<not> occurs_in ''.csv'' (a @ ''.CSV'')"
proof (unfold occurs_in_def, clarify)
  fix i assume a: "CHR ''.'' \<notin> set a" and i: "i \<le> length (a @ ''.CSV'')"
    and eq: "take (length ''.csv'') (drop i (a @ ''.CSV'')) = ''.csv''"
  show False
  proof (cases "i < length a")
    case True
    define xs where "xs = a @ ''.CSV''"
    have e1: "take (length ''.csv'') (drop i xs) = ''.csv''" using eq by (simp only: xs_def)
    have "take (length ''.csv'') (drop i xs) ! 0 = drop i xs ! 0" by (rule nth_take) simp
    also have "\<dots> = xs ! i" using True by (simp add: xs_def nth_append)
    also have "\<dots> = a ! i" using True by (simp add: xs_def nth_append)
    finally have "a ! i = ''.csv'' ! 0" by (simp only: e1)
    then have "a ! i = CHR ''.''" by simp
    then show False using a nth_mem [OF True] by simp
  next
    case False
    then have "drop i (a @ ''.CSV'') = drop (i - length a) ''.CSV''" by simp
    moreover have "i - length a \<le> 4" using i by simp
    ultimately show False using eq
      by (cases "i - length a"; cases "i - length a - 1"; cases "i - length a - 2"; cases "i - length a - 3"; simp)
  qed
qed

lemma csv_token_ann: "csv_token_required \<lparr>secret_key = Some ''k'', tz_offset = z\<rparr> 100 (Some (''Bearer '' @ tok_ann)) = Inr 1"
proof -
  have "CHR '' '' \<notin> set tok_ann" by (simp add: tok_ann_def)
  from csv_token_bearer [OF this, of "\<lparr>secret_key = Some ''k'', tz_offset = z\<rparr>" 100] show ?thesis
    by (simp add: tok_ann_decode csv_secret_def)
qed

lemma allowed_d_csv: "allowed_file ''d.csv''"
  by (simp add: allowed_file_def py_rsplit1_def py_lower_def py_lower_char_def ascii_upper_def ascii_lower_def)

lemma csv_token_bob: "csv_token_required \<lparr>secret_key = Some ''k'', tz_offset = 0\<rparr> 100 (Some (''Bearer '' @ tok_bob)) = Inr 2"
proof -
  have "CHR '' '' \<notin> set tok_bob" by (simp add: tok_bob_def)
  from csv_token_bearer [OF this, of "\<lparr>secret_key = Some ''k'', tz_offset = 0\<rparr>" 100] show ?thesis
    by (simp add: tok_bob_def jwt_decode_def csv_secret_def)
qed

section \<open>Properties of the routes\<close>

text \<open>C32: The routes compose: an authenticated upload of a readable CSV file with an accepted name answers 200 with a \<open>file_id\<close>; preprocessing that id with no options answers 202 and enqueues a job; once the worker has run the job, its status is \<open>completed\<close> with every row of the file processed and the input's columns, and the download route serves the processed file, with as many rows as the input. The stored name must not make \<open>replace\<close> leave the path unchanged (an upper-case extension does), since the task would then overwrite the file it is reading.\<close>

theorem upload_process_download:
  fixes stamp fname :: string
  assumes tok: "csv_token_required ev now hdr = Inr usr" and fn: "fname \<noteq> []" "allowed_file fname"
    and sz: "length content \<le> MAX_FILE_SIZE" and rd: "read_csv_strict content = Inr t"
  defines "u \<equiv> show_nat usr @ ''_'' @ stamp @ ''_'' @ secure_filename fname"
  assumes "processed_path (UPLOAD_FOLDER @ ''/'' @ u) \<noteq> UPLOAD_FOLDER @ ''/'' @ u"
  shows "\<exists>J s1 J2 s2 rows.
     upload_csv ev now stamp now_iso hdr (Some (fname, content)) s = (Resp 200 (JObj J), s1)
     \<and> dict_get J ''file_id'' = Some (JStr u)
     \<and> preprocess_csv ev now hdr (JObj [(''file_id'', JStr u)]) s1 = (Resp 202 J2, s2)
     \<and> get_task_status ev now hdr (show_nat (length (jobs s))) (run_job (length (jobs s)) s2) =
          Resp 200 (JObj [(''status'', JStr ''completed''),
            (''result'', task_json (TaskSuccess (processed_path (UPLOAD_FOLDER @ ''/'' @ u)) (length (trows t)) None (tcolumns t)))])
     \<and> download_processed_csv ev now hdr u (run_job (length (jobs s)) s2) =
          CsvFile (''processed_'' @ secure_filename fname) (tcolumns t, rows)
     \<and> length rows = length (trows t)"
proof -
  define path where "path = UPLOAD_FOLDER @ ''/'' @ u"
  obtain J s1 where up: "upload_csv ev now stamp now_iso hdr (Some (fname, content)) s = (Resp 200 (JObj J), s1)"
    and fid: "dict_get J ''file_id'' = Some (JStr u)"
    and s1: "s1 = s\<lparr>files := (files s)(path \<mapsto> content),
       store := setex (''csv_file:'' @ u) 7200
         (JObj [(''original_filename'', JStr (secure_filename fname)), (''file_path'', JStr path),
                (''uploaded_at'', JStr now_iso), (''user_id'', JInt (int usr)),
                (''file_size'', JInt (int (length content)))]) (store s)\<rparr>"
    using upload_csv_ok [OF tok fn sz rd, of stamp now_iso s] unfolding u_def path_def by blast
  define s2 where "s2 = s1\<lparr>jobs := jobs s1 @ [Queued path (JObj [])]\<rparr>"
  have pp: "\<exists>J2. preprocess_csv ev now hdr (JObj [(''file_id'', JStr u)]) s1 = (Resp 202 J2, s2)"
    using preprocess_csv_ok [OF tok, of u s1] s1 unfolding s2_def u_def
    by (simp add: setex_def meta_path_upload)
  have j2: "jobs s2 = jobs s @ [Queued path (JObj [])]" and f2: "files s2 path = Some content"
    by (simp_all add: s2_def s1)
  obtain rows where s3: "run_job (length (jobs s)) s2 = s2\<lparr>store := (store s2)\<lparr>outputs := (outputs (store s2))(processed_path path \<mapsto> (tcolumns t, rows)),
       redis := (redis (store s2))(progress_key path \<mapsto> (progress_value (length (trows t)), 300))\<rparr>,
     jobs := jobs s @ [Finished (task_json (TaskSuccess (processed_path path) (length (trows t)) None (tcolumns t)))]\<rparr>"
    and len: "length rows = length (trows t)"
    using run_job_no_opts [OF rd j2 f2] by blast
  define D where "D = [(''original_filename'', JStr (secure_filename fname)), (''file_path'', JStr path),
                (''uploaded_at'', JStr now_iso), (''user_id'', JInt (int usr)),
                (''file_size'', JInt (int (length content)))]"
  have ptxt: "progress_key path \<noteq> ''csv_file:'' @ u" by (simp add: progress_key_def)
  have meta: "file_meta (run_job (length (jobs s)) s2) (JStr u) = Some D"
    using ptxt unfolding s3 by (simp add: file_meta_def id_text_def s2_def s1 setex_def D_def)
  have mp: "meta_path D = path" by (simp add: D_def meta_path_upload)
  have ofn: "dict_get D ''original_filename'' = Some (JStr (secure_filename fname))"
    by (simp add: D_def dict_get_def)
  have out: "outputs (store (run_job (length (jobs s)) s2)) (processed_path path) = Some (tcolumns t, rows)"
    unfolding s3 by simp
  have dl: "download_processed_csv ev now hdr u (run_job (length (jobs s)) s2) =
          CsvFile (''processed_'' @ secure_filename fname) (tcolumns t, rows)"
    using tok meta mp ofn out by (simp add: download_processed_csv_def)
  have gts: "get_task_status ev now hdr (show_nat (length (jobs s))) (run_job (length (jobs s)) s2) =
          Resp 200 (JObj [(''status'', JStr ''completed''),
            (''result'', task_json (TaskSuccess (processed_path path) (length (trows t)) None (tcolumns t)))])"
    using tok unfolding s3 by (simp add: get_task_status_def)
  obtain J2 where pp2: "preprocess_csv ev now hdr (JObj [(''file_id'', JStr u)]) s1 = (Resp 202 J2, s2)"
    using pp by blast
  show ?thesis
    using up fid pp2 gts dl len unfolding path_def by blast
qed

theorem upload_process_download_witness:
  "\<exists>J s1 J2 s2 rows.
     upload_csv \<lparr>secret_key = Some ''k'', tz_offset = 0\<rparr> 100 ''20250101_120000'' ''2025-01-01T12:00:00'' (Some (''Bearer '' @ tok_ann))
       (Some (''d.csv'', ''a,b\<newline>1,2\<newline>3,\<newline>5,6'')) \<lparr>files = (\<lambda>_. None), store = empty_world, jobs = []\<rparr> = (Resp 200 (JObj J), s1)
     \<and> dict_get J ''file_id'' = Some (JStr (show_nat 1 @ ''_'' @ ''20250101_120000'' @ ''_'' @ secure_filename ''d.csv''))
     \<and> preprocess_csv \<lparr>secret_key = Some ''k'', tz_offset = 0\<rparr> 100 (Some (''Bearer '' @ tok_ann))
         (JObj [(''file_id'', JStr (show_nat 1 @ ''_'' @ ''20250101_120000'' @ ''_'' @ secure_filename ''d.csv''))]) s1 = (Resp 202 J2, s2)
     \<and> get_task_status \<lparr>secret_key = Some ''k'', tz_offset = 0\<rparr> 100 (Some (''Bearer '' @ tok_ann)) (show_nat 0) (run_job 0 s2) =
          Resp 200 (JObj [(''status'', JStr ''completed''),
            (''result'', task_json (TaskSuccess (processed_path (UPLOAD_FOLDER @ ''/'' @ show_nat 1 @ ''_'' @ ''20250101_120000'' @ ''_'' @ secure_filename ''d.csv'')) 3 None [''a'', ''b'']))])
     \<and> download_processed_csv \<lparr>secret_key = Some ''k'', tz_offset = 0\<rparr> 100 (Some (''Bearer '' @ tok_ann))
         (show_nat 1 @ ''_'' @ ''20250101_120000'' @ ''_'' @ secure_filename ''d.csv'') (run_job 0 s2) =
          CsvFile (''processed_'' @ secure_filename ''d.csv'') ([''a'', ''b''], rows)
     \<and> length rows = 3"
proof -
  have p1: "''d.csv'' \<noteq> []" by simp
  have p2: "length ''a,b\<newline>1,2\<newline>3,\<newline>5,6'' \<le> MAX_FILE_SIZE" by (simp add: MAX_FILE_SIZE_def)
  have ip: "processed_path (UPLOAD_FOLDER @ ''/'' @ show_nat 1 @ ''_'' @ ''20250101_120000'' @ ''_'' @ secure_filename ''d.csv'')
      \<noteq> UPLOAD_FOLDER @ ''/'' @ show_nat 1 @ ''_'' @ ''20250101_120000'' @ ''_'' @ secure_filename ''d.csv''"
    by (simp add: processed_path_def py_replace_def replace_ne.simps UPLOAD_FOLDER_def show_nat.simps secure_filename_def
        strip_chars_def filename_char_def is_ascii_alpha_def is_ascii_upper_def is_ascii_lower_def py_isspace_def)
  note f = upload_process_download [OF csv_token_ann [where z = 0] p1 allowed_d_csv p2 ex_read, where stamp = "''20250101_120000''"
      and now_iso = "''2025-01-01T12:00:00''" and s = "\<lparr>files = (\<lambda>_. None), store = empty_world, jobs = []\<rparr>", OF ip]

  show ?thesis using f by (simp add: numeral_3_eq_3)
qed

text \<open>C21: An upload that pandas cannot read (an empty file or a malformed line) answers 500 \<open>Upload failed\<close> and deletes the saved file: the analysis re-raises every pandas error as a plain \<open>Exception\<close>, so the route's 400 handlers for \<open>EmptyDataError\<close> and \<open>ParserError\<close> are never reached.\<close>

theorem upload_unreadable_500:
  fixes stamp fname :: string
  assumes "csv_token_required ev now hdr = Inr usr" and "fname \<noteq> []" and "allowed_file fname"
    and "length content \<le> MAX_FILE_SIZE" and "read_csv_strict content = Inl e"
  shows "upload_csv ev now stamp now_iso hdr (Some (fname, content)) s =
    (err 500 ''Upload failed'',
     s\<lparr>files := (files s)(UPLOAD_FOLDER @ ''/'' @ show_nat usr @ ''_'' @ stamp @ ''_'' @ secure_filename fname := None)\<rparr>)"
proof -
  obtain recs where pr: "preview_records content = Inr recs" using preview_records_Inr by blast
  obtain e' where an: "analyze_csv_quality_chunked CHUNK_SIZE 10000 (length content) content = Inl e'"
    using analyze_unreadable [OF assms(5)] by blast
  show ?thesis using assms(1-4) pr an by (simp add: upload_csv_def Let_def)
qed

theorem upload_unreadable_500_witness:
  "upload_csv \<lparr>secret_key = Some ''k'', tz_offset = 0\<rparr> 100 ''20250101_120000'' ''2025-01-01T12:00:00''
     (Some (''Bearer '' @ tok_ann)) (Some (''d.csv'', [])) \<lparr>files = (\<lambda>_. None), store = empty_world, jobs = []\<rparr> =
   (err 500 ''Upload failed'', \<lparr>files = (\<lambda>_. None), store = empty_world, jobs = []\<rparr>)"
proof -
  have p1: "''d.csv'' \<noteq> []" by simp
  have p2: "length ([]::string) \<le> MAX_FILE_SIZE" by simp
  have rd: "read_csv_strict [] = Inl EmptyDataError" by (simp add: read_csv_strict_def read_header_def csv_lines_def)
  show ?thesis
    using upload_unreadable_500 [OF csv_token_ann [where z = 0] p1 allowed_d_csv p2 rd, where stamp = "''20250101_120000''"
      and now_iso = "''2025-01-01T12:00:00''" and s = "\<lparr>files = (\<lambda>_. None), store = empty_world, jobs = []\<rparr>"]
    by simp
qed

text \<open>C23: \<open>allowed_file\<close> accepts an upper-case extension, but the processed path is computed by a case-sensitive \<open>replace('.csv', '_processed.csv')\<close>: for \<open>data.CSV\<close> the output path of the preprocessing task is the uploaded file itself.\<close>

theorem upper_case_extension_in_place:
  fixes stamp :: string
  assumes "CHR ''.'' \<notin> set stamp"
  shows "allowed_file ''data.CSV'' \<and>
    processed_path (UPLOAD_FOLDER @ ''/'' @ show_nat usr @ ''_'' @ stamp @ ''_'' @ secure_filename ''data.CSV'')
      = UPLOAD_FOLDER @ ''/'' @ show_nat usr @ ''_'' @ stamp @ ''_'' @ secure_filename ''data.CSV''"
proof
  show "allowed_file ''data.CSV''"
    by (simp add: allowed_file_def py_rsplit1_def py_lower_def py_lower_char_def ascii_upper_def ascii_lower_def)
next
  have sf: "secure_filename ''data.CSV'' = ''data'' @ ''.CSV''"
    by (simp add: secure_filename_def strip_chars_def filename_char_def is_ascii_alpha_def is_ascii_upper_def
        is_ascii_lower_def py_isspace_def)
  have nd: "CHR ''.'' \<notin> set (UPLOAD_FOLDER @ ''/'' @ show_nat usr @ ''_'' @ stamp @ ''_'' @ ''data'')"
    using assms set_show_nat [of usr] by (auto simp: UPLOAD_FOLDER_def)
  show "processed_path (UPLOAD_FOLDER @ ''/'' @ show_nat usr @ ''_'' @ stamp @ ''_'' @ secure_filename ''data.CSV'')
      = UPLOAD_FOLDER @ ''/'' @ show_nat usr @ ''_'' @ stamp @ ''_'' @ secure_filename ''data.CSV''"
    using py_replace_absent [OF _ no_dot_csv [OF nd]] unfolding sf processed_path_def by simp
qed

theorem upper_case_extension_in_place_witness:
  "allowed_file ''data.CSV'' \<and>
    processed_path (UPLOAD_FOLDER @ ''/'' @ show_nat 1 @ ''_'' @ ''20250101_120000'' @ ''_'' @ secure_filename ''data.CSV'')
      = UPLOAD_FOLDER @ ''/'' @ show_nat 1 @ ''_'' @ ''20250101_120000'' @ ''_'' @ secure_filename ''data.CSV''"
  by (rule upper_case_extension_in_place) simp

text \<open>A non-empty Authorization header without a blank (a bare token, which the user routes accept) makes the CSV routes' decorator raise \<open>IndexError\<close>, answered as an internal error.\<close>

theorem csv_token_no_bearer:
  "h \<noteq> [] \<Longrightarrow> CHR '' '' \<notin> set h \<Longrightarrow> csv_token_required ev now (Some h) = Inl internal_error"
  by (simp add: csv_token_required_def split_on_sep_free)

theorem csv_token_no_bearer_witness:
  "csv_token_required \<lparr>secret_key = Some ''k'', tz_offset = 0\<rparr> 100 (Some tok_ann) = Inl internal_error"
proof -
  have "tok_ann \<noteq> []" by (simp add: tok_ann_def jwt_encode_def)
  moreover have "CHR '' '' \<notin> set tok_ann" by (simp add: tok_ann_def)
  ultimately show ?thesis using csv_token_no_bearer by blast
qed

text \<open>While a job is queued and its file has no progress record, the task status reports 0 rows processed rather than an unknown count.\<close>

theorem task_status_absent_progress:
  assumes "csv_token_required ev now hdr = Inr u" and "i < length (jobs s)" and "jobs s ! i = Queued p opts"
    and "redis (store s) (progress_key p) = None"
  shows "get_task_status ev now hdr (show_nat i) s =
           Resp 200 (JObj [(''status'', JStr ''processing''), (''progress'', JInt 0), (''rows_processed'', JInt 0)])"
  using assms by (simp add: get_task_status_def)

theorem task_status_absent_progress_witness:
  "get_task_status \<lparr>secret_key = Some ''k'', tz_offset = 0\<rparr> 100 (Some (''Bearer '' @ tok_ann)) (show_nat 0)
     \<lparr>files = (\<lambda>_. None), store = empty_world, jobs = [Queued ''uploads/d.csv'' (JObj [])]\<rparr> =
   Resp 200 (JObj [(''status'', JStr ''processing''), (''progress'', JInt 0), (''rows_processed'', JInt 0)])"
  by (rule task_status_absent_progress [OF csv_token_ann [where z = 0]]) (simp_all add: empty_world_def)

text \<open>C25: The download route does not compare the requester with the uploader recorded in the file metadata: any two authenticated users get the same answer for the same file id.\<close>

theorem download_ignores_owner:
  assumes "csv_token_required ev now h1 = Inr u1" and "csv_token_required ev now h2 = Inr u2"
  shows "download_processed_csv ev now h1 fid s = download_processed_csv ev now h2 fid s"
  using assms by (simp add: download_processed_csv_def)

theorem download_ignores_owner_witness:
  "download_processed_csv \<lparr>secret_key = Some ''k'', tz_offset = 0\<rparr> 100 (Some (''Bearer '' @ tok_ann)) ''f''
     \<lparr>files = (\<lambda>_. None), store = setex ''csv_file:f'' 7200 (JObj [(''file_path'', JStr ''uploads/d.csv''), (''user_id'', JInt 1)]) empty_world,
      jobs = []\<rparr> =
   download_processed_csv \<lparr>secret_key = Some ''k'', tz_offset = 0\<rparr> 100 (Some (''Bearer '' @ tok_bob)) ''f''
     \<lparr>files = (\<lambda>_. None), store = setex ''csv_file:f'' 7200 (JObj [(''file_path'', JStr ''uploads/d.csv''), (''user_id'', JInt 1)]) empty_world,
      jobs = []\<rparr>"
  by (rule download_ignores_owner [OF csv_token_ann [where z = 0] csv_token_bob])

end
