(* ===== verification/Analyze_Route.thy ===== *)
theory Analyze_Route
  imports Routes
begin

text \<open>
  The analyze route of src/server/controllers/csv_controller.py (lines 470-509): the
  quality report of an uploaded file, completed by a statistics pass over the first
  10000 rows read with type inference. For every numeric column (\<open>int64\<close> or
  \<open>float64\<close>, \<open>select_dtypes(include=['number'])\<close>) the route reports the mean,
  median, sample standard deviation (\<open>ddof=1\<close>), minimum and maximum of its present
  values, each through \<open>float()\<close>. pandas returns NaN for a statistic of too few values
  (none for the mean, median, minimum and maximum; fewer than two for the standard
  deviation), and \<open>jsonify\<close> writes a NaN as the token \<open>NaN\<close>, which is not JSON.
  Column names are those of the reader, distinct in the files the claims are about.
\<close>

section \<open>The statistics pass (lines 485-502)\<close>

text \<open>The present values of a numeric column; a column of text is not numeric.\<close>

fun num_values :: "column \<Rightarrow> real list option" where
  "num_values (IntCol xs) = Some (map real_of_int xs)"
| "num_values (FloatCol xs) = Some (somes xs)"
| "num_values (ObjCol _) = None"

text \<open>\<open>Series.std()\<close>: the sample standard deviation.\<close>

definition sample_std :: "real list \<Rightarrow> real" where
  "sample_std xs = sqrt (sum_list (map (\<lambda>x. (x - mean_of xs)\<^sup>2) xs) / real (length xs - 1))"

definition py_min :: "real list \<Rightarrow> real" where
  "py_min xs = fold min (tl xs) (hd xs)"

definition py_max :: "real list \<Rightarrow> real" where
  "py_max xs = fold max (tl xs) (hd xs)"

text \<open>\<open>float(s)\<close> of a pandas statistic that is NaN when there are fewer than \<open>k\<close>
  values.\<close>

definition stat_value :: "nat \<Rightarrow> (real list \<Rightarrow> real) \<Rightarrow> real list \<Rightarrow> jval" where
  "stat_value k stat xs = (if length xs < k then JNaN else JFloat (stat xs))"

definition column_stats :: "real list \<Rightarrow> jval" where
  "column_stats xs =
     JObj [(''mean'', stat_value 1 mean_of xs), (''median'', stat_value 1 median_of xs),
           (''std'', stat_value 2 sample_std xs), (''min'', stat_value 1 py_min xs),
           (''max'', stat_value 1 py_max xs)]"

text \<open>Lines 489-500: the loop over the numeric columns, in column order.\<close>

fun numeric_stats :: "(string \<times> column) list \<Rightarrow> (string \<times> jval) list" where
  "numeric_stats [] = []"
| "numeric_stats ((c, col) # cs) =
     (case num_values col of None \<Rightarrow> numeric_stats cs | Some xs \<Rightarrow> (c, column_stats xs) # numeric_stats cs)"

text \<open>Lines 485-502: a file pandas cannot read with \<open>nrows=10000\<close> gives no
  statistics.\<close>

definition sample_statistics :: "string \<Rightarrow> jval" where
  "sample_statistics text =
     (case read_csv_nrows 10000 text of
        Inl _ \<Rightarrow> JObj []
      | Inr t \<Rightarrow>
          (let f = to_frame t in JObj (numeric_stats (zip (fcolumns f) (fdata f)))))"

section \<open>The route (lines 470-509)\<close>

text \<open>The file's metadata must name its path (\<open>file_metadata['file_path']\<close> outside
  the \<open>try\<close>); a file that is gone or that the analysis rejects answers 500.\<close>

definition analyze_csv :: "env \<Rightarrow> int \<Rightarrow> string option \<Rightarrow> string \<Rightarrow> server \<Rightarrow> response" where
  "analyze_csv ev now hdr file_id s =
     (case csv_token_required ev now hdr of
        Inl r \<Rightarrow> r
      | Inr _ \<Rightarrow>
          (case file_meta s (JStr file_id) of
             None \<Rightarrow> err 404 ''File not found or expired''
           | Some d \<Rightarrow>
               (case dict_get d ''file_path'' of
                  Some (JStr p) \<Rightarrow>
                    (case files s p of
                       None \<Rightarrow> err 500 ''Analysis failed''
                     | Some text \<Rightarrow>
                         (case analyze_csv_quality_chunked CHUNK_SIZE 10000 (length text) text of
                            Inl _ \<Rightarrow> err 500 ''Analysis failed''
                          | Inr rep \<Rightarrow>
                              Resp 200 (JObj (report_fields rep @ [(''statistics'', sample_statistics text)]))))
                | _ \<Rightarrow> internal_error)))"

text \<open>The sample values a column's statistics hold are JSON values without NaN.\<close>

definition samples_safe :: "col_stats \<Rightarrow> bool" where
  "samples_safe cs \<longleftrightarrow> (\<forall>v\<in>set (sample_vals cs). json_safe v)"

section \<open>Facts about the analyze route\<close>

lemma json_safe_stat_value [simp]: "json_safe (stat_value k stat xs) \<longleftrightarrow> k \<le> length xs"
  by (simp add: stat_value_def)

lemma json_safe_column_stats: "json_safe (column_stats xs) \<longleftrightarrow> 2 \<le> length xs"
  by (auto simp: column_stats_def)

lemma json_safe_numeric_stats:
  "json_safe (JObj (numeric_stats cs)) \<longleftrightarrow> (\<forall>col\<in>set (map snd cs). \<forall>xs. num_values col = Some xs \<longrightarrow> 2 \<le> length xs)"
  by (induction cs rule: numeric_stats.induct) (auto simp: json_safe_column_stats split: option.splits)

lemma map_snd_zip_fdata: "wf_frame f \<Longrightarrow> map snd (zip (fcolumns f) (fdata f)) = fdata f"
  by (simp add: wf_frame_def)

lemma sample_statistics_readable:
  assumes "read_csv_strict text = Inr t"
  shows "json_safe (sample_statistics text) \<longleftrightarrow>
    (\<forall>col\<in>set (fdata (to_frame \<lparr>tcolumns = tcolumns t, trows = take 10000 (trows t)\<rparr>)).
       \<forall>xs. num_values col = Some xs \<longrightarrow> 2 \<le> length xs)"
proof -
  let ?f = "to_frame \<lparr>tcolumns = tcolumns t, trows = take 10000 (trows t)\<rparr>"
  have "sample_statistics text = JObj (numeric_stats (zip (fcolumns ?f) (fdata ?f)))"
    by (simp add: sample_statistics_def read_csv_nrows_strict [OF assms])
  then show ?thesis by (simp only: json_safe_numeric_stats map_snd_zip_fdata [OF wf_to_frame])
qed

lemma collect_samples_set: "set (collect_samples sv vs) \<subseteq> set sv \<union> JStr ` set vs"
  by (induction sv vs rule: collect_samples.induct) (auto split: if_splits)

lemma samples_safe_col_step: "samples_safe cs \<Longrightarrow> samples_safe (col_step i cs vals)"
  using collect_samples_set [of "sample_vals cs" "take 3 (present vals)"]
  by (auto simp: samples_safe_def col_step_def Let_def dest: in_set_takeD)

lemma samples_safe_scan_chunks:
  "\<forall>c. samples_safe (col_stats st c) \<Longrightarrow> samples_safe (col_stats (scan_chunks cols i st cks) c)"
proof (induction cols i st cks rule: scan_chunks.induct)
  case (1 cols i st)
  then show ?case by simp
next
  case (2 cols i st ck cks)
  have "\<forall>c. samples_safe (col_stats (scan_chunk cols i st ck) c)"
    using "2.prems" by (auto simp: scan_chunk_def intro: upd_each_inv samples_safe_col_step)
  then show ?case using "2.IH" by simp
qed

lemma json_safe_report_fields:
  assumes "\<forall>c. samples_safe (col_stats st c)"
  shows "json_safe (JObj (report_fields (build_report cols st ss sz text)))"
  using assms
  by (auto simp: report_fields_def build_report_def Let_def mk_column_report_def unique_json_def samples_safe_def
      dest: in_set_takeD split: unique_count.split)

lemma analyze_report_safe:
  assumes "analyze_csv_quality_chunked n ss sz text = Inr r"
  shows "json_safe (JObj (report_fields r))"
proof -
  obtain t where "read_csv_strict text = Inr t"
    and r: "r = build_report (tcolumns t) (scan_chunks (tcolumns t) 0 init_scan (pd_chunks n (trows t))) ss sz text"
    using assms by (rule analyze_Inr)
  have "\<forall>c. samples_safe (col_stats init_scan c)" by (simp add: init_scan_def empty_stats_def samples_safe_def)
  then show ?thesis unfolding r by (blast intro: json_safe_report_fields samples_safe_scan_chunks)
qed

lemma ex_one_row_read:
  "read_csv_strict ''a,b\<newline>1,x'' = Inr \<lparr>tcolumns = [''a'', ''b''], trows = [[Some ''1'', Some ''x'']]\<rparr>"
  by (simp add: read_csv_strict_def read_header_def csv_lines_def mk_table_def pad_row_def read_cell_def
      na_values_def row_ok_def data_width_def read_row_def)

section \<open>Properties of the analyze route\<close>

text \<open>C7: The answer of the analyze route for an uploaded readable file is a 200 whose body is valid JSON (no NaN) exactly when every numeric column of the first 10000 rows has at least two present values: a numeric column with one value, or none, makes \<open>jsonify\<close> write the token NaN.\<close>

theorem analyze_valid_json_iff:
  assumes "csv_token_required ev now hdr = Inr u" and "file_meta s (JStr fid) = Some d"
    and "dict_get d ''file_path'' = Some (JStr p)" and "files s p = Some text" and "read_csv_strict text = Inr t"
  shows "\<exists>body. analyze_csv ev now hdr fid s = Resp 200 body \<and>
    (json_safe body \<longleftrightarrow>
      (\<forall>col\<in>set (fdata (to_frame \<lparr>tcolumns = tcolumns t, trows = take 10000 (trows t)\<rparr>)).
         \<forall>xs. num_values col = Some xs \<longrightarrow> 2 \<le> length xs))"
proof -
  obtain rep where rep: "analyze_csv_quality_chunked CHUNK_SIZE 10000 (length text) text = Inr rep"
    using analyze_readable [OF assms(5)] by blast
  have a: "analyze_csv ev now hdr fid s = Resp 200 (JObj (report_fields rep @ [(''statistics'', sample_statistics text)]))"
    using assms(1-4) rep by (simp add: analyze_csv_def)
  have "json_safe (JObj (report_fields rep @ [(''statistics'', sample_statistics text)]))
        \<longleftrightarrow> json_safe (sample_statistics text)"
    using analyze_report_safe [OF rep] by simp
  then show ?thesis using a sample_statistics_readable [OF assms(5)] by simp
qed

theorem analyze_valid_json_iff_witness:
  "\<exists>body. analyze_csv \<lparr>secret_key = Some ''k'', tz_offset = 0\<rparr> 100 (Some (''Bearer '' @ tok_ann)) ''f''
      \<lparr>files = (\<lambda>_. None)(''uploads/d.csv'' \<mapsto> ''a,b\<newline>1,x''),
       store = setex ''csv_file:f'' 7200 (JObj [(''file_path'', JStr ''uploads/d.csv'')]) empty_world, jobs = []\<rparr>
    = Resp 200 body \<and> \<not> json_safe body"
proof -
  have m: "file_meta \<lparr>files = (\<lambda>_. None)(''uploads/d.csv'' \<mapsto> ''a,b\<newline>1,x''),
       store = setex ''csv_file:f'' 7200 (JObj [(''file_path'', JStr ''uploads/d.csv'')]) empty_world, jobs = []\<rparr> (JStr ''f'')
    = Some [(''file_path'', JStr ''uploads/d.csv'')]"
    by (simp add: file_meta_def id_text_def setex_def)
  have dp: "dict_get [(''file_path'', JStr ''uploads/d.csv'')] ''file_path'' = Some (JStr ''uploads/d.csv'')"
    by (simp add: dict_get_def)
  have col: "\<not> (\<forall>col\<in>set (fdata (to_frame \<lparr>tcolumns = [''a'', ''b''], trows = take 10000 [[Some ''1'', Some ''x'']]\<rparr>)).
         \<forall>xs. num_values col = Some xs \<longrightarrow> 2 \<le> length xs)"
    by (simp add: to_frame_def infer_column_def all_present_def int_lit_def lex_number_def lex_sign_def is_digit_def digits_val_def)
  show ?thesis
    using analyze_valid_json_iff [OF csv_token_ann [where z = 0] m dp _ ex_one_row_read] col by simp blast
qed

end
