(* ===== verification/App.thy ===== *)
theory App
  imports Analyze_Route
begin

text \<open>
  The Flask application of src/server/app.py and src/server/routes.py, composing the
  two blueprints, and the RQ worker that runs the enqueued jobs. The system state
  \<open>system\<close> is the account database (\<open>acct_db\<close>, the tables of SQLAlchemy) beside
  the CSV server (\<open>server\<close>: uploads, Redis, job queue). A request (\<open>request\<close>) is one
  of the routes registered under \<open>/api/user\<close>, \<open>/api/csv\<close> and \<open>/api/health\<close>;
  \<open>app_step\<close> dispatches it to the blueprint's handler with the clock readings of
  the request (the time in seconds, the stamp \<open>%Y%m%d_%H%M%S\<close> and the ISO time).
  \<open>MAX_CONTENT_LENGTH\<close> makes werkzeug refuse a larger request body with 413 when the
  upload route first reads \<open>request.files\<close>, after the token check; the app's 413
  handler gives the JSON answer. The worker (\<open>rq worker --burst\<close>) takes the queued
  jobs in order and runs each to completion (\<open>worker_drain\<close>).
\<close>

section \<open>Configuration and handlers (app.py lines 13-42, routes.py)\<close>

definition MAX_CONTENT_LENGTH :: nat where
  "MAX_CONTENT_LENGTH = 100 * 1024 * 1024"

definition too_large :: response where
  "too_large = Resp 413 (JObj [(''error'', JStr ''File too large. Maximum size is 100MB'')])"

definition health_check :: response where
  "health_check = Resp 200 (JObj [(''status'', JStr ''healthy''), (''message'', JStr ''API is running'')])"

text \<open>Lines 13-18: the configuration read from the process environment \<open>getenv\<close>.\<close>

record app_config =
  cfg_secret_key :: "string option"
  cfg_database_uri :: string
  cfg_track_modifications :: bool
  cfg_max_content_length :: nat
  cfg_send_file_max_age :: nat

definition flask_config :: "(string \<Rightarrow> string option) \<Rightarrow> app_config" where
  "flask_config getenv =
     \<lparr>cfg_secret_key = getenv ''SECRET_KEY'',
      cfg_database_uri = (case getenv ''DATABASE_URL'' of Some u \<Rightarrow> u | None \<Rightarrow> ''sqlite:///data_cleanser.db''),
      cfg_track_modifications = False, cfg_max_content_length = MAX_CONTENT_LENGTH, cfg_send_file_max_age = 0\<rparr>"

text \<open>What the controllers read: \<open>os.getenv('SECRET_KEY')\<close> (user_controller.py
  line 17; csv_controller.py line 43 with the default \<open>dev-secret\<close>), and the
  server's offset from UTC.\<close>

definition server_env :: "(string \<Rightarrow> string option) \<Rightarrow> int \<Rightarrow> env" where
  "server_env getenv tz = \<lparr>secret_key = getenv ''SECRET_KEY'', tz_offset = tz\<rparr>"

text \<open>Lines 21-25: Flask-CORS answers a request whose path matches \<open>/api/*\<close> and
  whose \<open>Origin\<close> is the front end with that origin in
  \<open>Access-Control-Allow-Origin\<close>; any other request gets no CORS header.\<close>

definition cors_allow_origin :: "string \<Rightarrow> string option \<Rightarrow> string option" where
  "cors_allow_origin path origin =
     (if take 5 path = ''/api/'' \<and> origin = Some ''http://localhost:3000'' then origin else None)"

text \<open>Lines 40-42: the 504 handler. No route of the app raises 504; a proxy in front
  of it would.\<close>

definition gateway_timeout :: response where
  "gateway_timeout = Resp 504 (JObj [(''error'', JStr ''Request timeout. File processing is taking longer than expected.'')])"

text \<open>Lines 48-54: how \<open>python app.py\<close> serves the app.\<close>

record run_options =
  run_debug :: bool
  run_host :: string
  run_port :: nat

definition main_run_options :: "(string \<Rightarrow> string option) \<Rightarrow> run_options" where
  "main_run_options getenv =
     \<lparr>run_debug = ((case getenv ''FLASK_DEBUG'' of Some v \<Rightarrow> v | None \<Rightarrow> ''True'') = ''True''),
      run_host = ''0.0.0.0'', run_port = 5000\<rparr>"

section \<open>Requests and the system state\<close>

text \<open>An upload carries its Authorization header, the length of its body and the
  file part (name and text), if any.\<close>

datatype request =
    UserApi acct_op
  | UploadApi "string option" nat "(string \<times> string) option"
  | PreprocessApi "string option" jval
  | TaskStatusApi "string option" string
  | DownloadApi "string option" string
  | AnalyzeApi "string option" string
  | HealthApi

datatype reply = Json response | Attachment string "string list \<times> cell list list"
  | RawAttachment string string

record system =
  accounts :: acct_db
  srv :: server

text \<open>A fresh deployment: \<open>db.create_all()\<close> on an empty database (create_tables.py),
  an empty upload folder, Redis and queue.\<close>

definition empty_system :: system where
  "empty_system = \<lparr>accounts = empty_db, srv = \<lparr>files = (\<lambda>_. None), store = empty_world, jobs = []\<rparr>\<rparr>"

section \<open>Dispatch\<close>

text \<open>The upload route behind the body-size limit: the decorator runs first, then the
  first access to \<open>request.files\<close> raises \<open>RequestEntityTooLarge\<close>.\<close>

definition upload_request ::
  "env \<Rightarrow> int \<Rightarrow> string \<Rightarrow> string \<Rightarrow> string option \<Rightarrow> nat \<Rightarrow> (string \<times> string) option \<Rightarrow> server \<Rightarrow> response \<times> server" where
  "upload_request ev now stamp now_iso hdr clen file s =
     (case csv_token_required ev now hdr of
        Inl r \<Rightarrow> (r, s)
      | Inr _ \<Rightarrow>
          if MAX_CONTENT_LENGTH < clen then (too_large, s)
          else upload_csv ev now stamp now_iso hdr file s)"

text \<open>\<open>CleanupExpired\<close> is not a route; it answers nothing.\<close>

fun app_step :: "env \<Rightarrow> int \<Rightarrow> string \<Rightarrow> string \<Rightarrow> request \<Rightarrow> system \<Rightarrow> reply option \<times> system" where
  "app_step ev now stamp now_iso (UserApi op) sys =
     (case acct_handle ev now op (accounts sys) of (r, db') \<Rightarrow> (map_option Json r, sys\<lparr>accounts := db'\<rparr>))"
| "app_step ev now stamp now_iso (UploadApi hdr clen file) sys =
     (case upload_request ev now stamp now_iso hdr clen file (srv sys) of (r, s') \<Rightarrow> (Some (Json r), sys\<lparr>srv := s'\<rparr>))"
| "app_step ev now stamp now_iso (PreprocessApi hdr body) sys =
     (case preprocess_csv ev now hdr body (srv sys) of (r, s') \<Rightarrow> (Some (Json r), sys\<lparr>srv := s'\<rparr>))"
| "app_step ev now stamp now_iso (TaskStatusApi hdr tid) sys =
     (Some (Json (get_task_status ev now hdr tid (srv sys))), sys)"
| "app_step ev now stamp now_iso (DownloadApi hdr fid) sys =
     (case download_processed_csv ev now hdr fid (srv sys) of
        CsvFile n c \<Rightarrow> (Some (Attachment n c), sys)
      | CsvRaw n c \<Rightarrow> (Some (RawAttachment n c), sys)
      | DownloadError r \<Rightarrow> (Some (Json r), sys))"
| "app_step ev now stamp now_iso (AnalyzeApi hdr fid) sys =
     (Some (Json (analyze_csv ev now hdr fid (srv sys))), sys)"
| "app_step ev now stamp now_iso HealthApi sys = (Some (Json health_check), sys)"

text \<open>A run of timed requests, each with its clock readings.\<close>

definition app_run :: "env \<Rightarrow> system \<Rightarrow> (int \<times> string \<times> string \<times> request) list \<Rightarrow> system" where
  "app_run ev sys rs = foldl (\<lambda>s (now, stamp, now_iso, req). snd (app_step ev now stamp now_iso req s)) sys rs"

section \<open>The worker\<close>

fun is_queued :: "job \<Rightarrow> bool" where
  "is_queued (Queued _ _) = True"
| "is_queued (Finished _) = False"

fun first_queued :: "job list \<Rightarrow> nat option" where
  "first_queued [] = None"
| "first_queued (j # js) = (if is_queued j then Some 0 else map_option Suc (first_queued js))"

definition queued_count :: "job list \<Rightarrow> nat" where
  "queued_count js = length (filter is_queued js)"

text \<open>The burst worker: run the oldest queued job until none is left.\<close>

function worker_drain :: "server \<Rightarrow> server" where
  "worker_drain s = (case first_queued (jobs s) of None \<Rightarrow> s | Some i \<Rightarrow> worker_drain (run_job i s))"
  by pat_completeness auto

section \<open>Termination of the worker\<close>

lemma first_queued_Some: "first_queued js = Some i \<Longrightarrow> i < length js \<and> is_queued (js ! i)"
  by (induction js arbitrary: i) (auto split: if_splits)

lemma first_queued_None: "first_queued js = None \<longleftrightarrow> (\<forall>j\<in>set js. \<not> is_queued j)"
  by (induction js) auto

lemma queued_count_update:
  "i < length js \<Longrightarrow> is_queued (js ! i) \<Longrightarrow> \<not> is_queued j \<Longrightarrow> queued_count (js[i := j]) < queued_count js"
proof (induction js arbitrary: i)
  case Nil
  then show ?case by simp
next
  case (Cons x xs)
  then show ?case by (cases i) (auto simp: queued_count_def)
qed

lemma run_job_jobs:
  "i < length (jobs s) \<Longrightarrow> jobs s ! i = Queued p opts \<Longrightarrow> \<exists>res. jobs (run_job i s) = (jobs s)[i := Finished res]"
  by (auto simp: run_job_def split: option.split prod.split jval.split)

lemma run_job_decreases:
  assumes "first_queued (jobs s) = Some i"
  shows "queued_count (jobs (run_job i s)) < queued_count (jobs s)"
proof -
  have i: "i < length (jobs s)" and q: "is_queued (jobs s ! i)" using first_queued_Some [OF assms] by auto
  then obtain p opts where "jobs s ! i = Queued p opts" by (cases "jobs s ! i") auto
  then obtain res where "jobs (run_job i s) = (jobs s)[i := Finished res]" using run_job_jobs i by blast
  then show ?thesis using queued_count_update [OF i q] by simp
qed

termination worker_drain
  by (relation "measure (\<lambda>s. queued_count (jobs s))") (auto intro: run_job_decreases)

declare worker_drain.simps [simp del]

lemma worker_drain_None: "first_queued (jobs s) = None \<Longrightarrow> worker_drain s = s"
  by (simp add: worker_drain.simps)

lemma worker_drain_Some: "first_queued (jobs s) = Some i \<Longrightarrow> worker_drain s = worker_drain (run_job i s)"
  by (simp add: worker_drain.simps)

section \<open>Facts about the application\<close>

lemma worker_drain_done: "\<forall>j\<in>set (jobs (worker_drain s)). \<not> is_queued j"
proof (induction s rule: worker_drain.induct)
  case (1 s)
  then show ?case
    by (cases "first_queued (jobs s)") (simp_all add: first_queued_None worker_drain_None worker_drain_Some)
qed

lemma length_run_job [simp]: "length (jobs (run_job i s)) = length (jobs s)"
  by (simp add: run_job_def split: job.split option.split prod.split jval.split)

lemma worker_drain_length [simp]: "length (jobs (worker_drain s)) = length (jobs s)"
proof (induction s rule: worker_drain.induct)
  case (1 s)
  then show ?case by (cases "first_queued (jobs s)") (simp_all add: worker_drain_None worker_drain_Some)
qed

text \<open>The body-size limit of the app (100 MB) is the upload route's own limit, and the body holds the file: the route's size check never answers.\<close>

lemma upload_size_branch_unreachable:
  assumes "csv_token_required ev now hdr = Inr u" and "length content \<le> clen"
  shows "fst (upload_request ev now stamp now_iso hdr clen (Some (fname, content)) s) \<noteq> err 400 ''File size exceeds 100.0MB limit''"
proof (cases "MAX_CONTENT_LENGTH < clen")
  case True
  then show ?thesis using assms(1) by (simp add: upload_request_def too_large_def err_def)
next
  case False
  then have "\<not> MAX_FILE_SIZE < length content" using assms(2) by (simp add: MAX_CONTENT_LENGTH_def MAX_FILE_SIZE_def)
  then show ?thesis using assms(1) False
    by (simp add: upload_request_def upload_csv_def Let_def err_def split: sum.split option.split)
qed

text \<open>Run as a script, the app serves the Werkzeug debugger on every interface unless FLASK_DEBUG says otherwise.\<close>

lemma debug_by_default:
  "getenv ''FLASK_DEBUG'' = None \<Longrightarrow> run_debug (main_run_options getenv) \<and> run_host (main_run_options getenv) = ''0.0.0.0''"
  by (simp add: main_run_options_def)

lemma login_without_secret:
  assumes "secret_key ev = None"
  shows "fst (login ev now body db) \<noteq> Resp 200 r"
proof (cases body)
  case (JObj data)
  show ?thesis
    using assms unfolding login_def JObj jval.case Let_def
    by (auto simp: err_def internal_error_def split: option.split sum.split bool.split)
qed (simp_all add: login_def internal_error_def)

section \<open>Properties of the application\<close>

text \<open>C24: Without \<open>SECRET_KEY\<close> in the environment the account service cannot issue a token (every login fails), yet the CSV routes fall back to the published key \<open>dev-secret\<close>: a token anyone signs with it for any user id is accepted as that user throughout its validity window.\<close>

theorem unset_secret_forgery:
  assumes "getenv ''SECRET_KEY'' = None" and "jwt_iat p \<le> now" and "now < jwt_exp p"
  shows "csv_token_required (server_env getenv tz) now (Some (''Bearer '' @ jwt_encode ''dev-secret'' p)) = Inr (jwt_user_id p)
    \<and> (\<forall>b db r. fst (login (server_env getenv tz) now b db) \<noteq> Resp 200 r)"
proof
  have sp: "CHR '' '' \<notin> set (jwt_encode ''dev-secret'' p)" by simp
  show "csv_token_required (server_env getenv tz) now (Some (''Bearer '' @ jwt_encode ''dev-secret'' p)) = Inr (jwt_user_id p)"
    using csv_token_bearer [OF sp, of "server_env getenv tz" now] assms
    by (simp add: server_env_def csv_secret_def jwt_decode_def)
next
  show "\<forall>b db r. fst (login (server_env getenv tz) now b db) \<noteq> Resp 200 r"
    using assms(1) login_without_secret by (simp add: server_env_def)
qed

theorem unset_secret_forgery_witness:
  "csv_token_required (server_env (\<lambda>_. None) 0) 100
      (Some (''Bearer '' @ jwt_encode ''dev-secret'' \<lparr>jwt_user_id = 7, jwt_email = ''x@y.io'', jwt_exp = 86400, jwt_iat = 0\<rparr>)) = Inr 7
   \<and> (\<forall>b db r. fst (login (server_env (\<lambda>_. None) 0) 100 b db) \<noteq> Resp 200 r)"
  using unset_secret_forgery [of "\<lambda>_. None" "\<lparr>jwt_user_id = 7, jwt_email = ''x@y.io'', jwt_exp = 86400, jwt_iat = 0\<rparr>" 100 0]
  by simp

end
