(* ===== verification/Spec2Isabelle.thy ===== *)
theory Spec2Isabelle
  imports App
begin

text \<open>
  \<^bold>\<open>A verification development for the data-cleanser server.\<close>

  The program (src/server) is a Flask application with two blueprints. The CSV
  blueprint (controllers/csv_controller.py) analyses an uploaded CSV file for data
  quality (\<open>analyze_csv_quality_chunked\<close>), cleans it in a background RQ job
  (\<open>preprocess_csv_task_chunked\<close>, \<open>apply_preprocessing_options\<close>) with progress
  written to Redis, and serves the result; cell values are made JSON-safe by
  \<open>safe_convert_value\<close>. The user blueprint (controllers/user_controller.py) keeps
  accounts and issues JWTs, revoked through the \<open>BlacklistedToken\<close> table
  (models/token_model.py). app.py and routes.py wire both under one app.

  \<^bold>\<open>Theories,\<close> bottom up.
  \<^item> \<open>Prelude\<close>: fixed-size batching (\<open>chunks\<close>, pandas' \<open>chunksize\<close>),
    first-occurrence deduplication (\<open>unique\<close>, \<open>duplicated\<close>, proved equal to the
    reference \<open>remdups_first\<close>), \<open>upd_each\<close> (update every column's dictionary
    entry once) with its invariant rule.
  \<^item> \<open>Py_Builtins\<close>: Python's \<open>strip\<close>, \<open>lower\<close>, \<open>replace\<close>, \<open>split\<close>,
    \<open>rsplit\<close>, \<open>join\<close> on ASCII text, with idempotence and split/join round trips.
  \<^item> \<open>Values\<close>: the Value Normalizer (csv_controller.py lines 59-72), Python/numpy
    values \<open>pyval\<close>, JSON values \<open>jval\<close> with \<open>json_safe\<close> (no NaN).
  \<^item> \<open>Csv_Reader\<close>: \<open>pd.read_csv\<close> as library behaviour (strict, \<open>nrows\<close>,
    lenient, \<open>chunksize\<close>, the implicit index taken when the first data line is
    wider than the header, the option check that rejects \<open>low_memory\<close> with the
    Python engine), from the spec and pandas' documentation.
  \<^item> \<open>Analyzer\<close>: \<open>analyze_csv_quality_chunked\<close> (lines 74-178): the scan state
    \<open>scan_state\<close>, one column of a batch \<open>col_step\<close>, the loop \<open>scan_chunks\<close>, the
    report \<open>build_report\<close>. Claims C1-C6, C8-C10.
  \<^item> \<open>Frames\<close>: typed DataFrames (\<open>int64\<close>, \<open>float64\<close>, \<open>object\<close>) and pandas'
    type inference. \<open>Transform\<close>: \<open>apply_preprocessing_options\<close> (lines 257-291) and
    \<open>preprocess_csv_task_chunked\<close> (lines 180-255) over a \<open>world\<close> of output files
    and Redis keys, streaming (\<open>stream_step\<close>) and whole-file (\<open>dedup_mode\<close>).
    Claims C11-C20, C22.
  \<^item> \<open>Jwt\<close>: PyJWT's \<open>encode\<close>/\<open>decode\<close> as library behaviour: hex segments, a
    signature injective in the key and the text, \<open>iat\<close> then \<open>exp\<close> checks.
  \<^item> \<open>Accounts\<close>: every route of user_controller.py and
    \<open>BlacklistedToken.cleanup_expired\<close> on the record \<open>acct_db\<close> (users, next id,
    blacklist); request sequences \<open>acct_run\<close> and the reachability relation
    \<open>acct_reach\<close>. Claims C26-C31.
  \<^item> \<open>Routes\<close>: the CSV blueprint's own \<open>token_required\<close> and the routes upload,
    preprocess, task status and download (lines 32-56, 293-468) on the record
    \<open>server\<close> (uploaded files, the Transform's world, the job list). Claims C21,
    C23, C25, C32. \<open>Analyze_Route\<close>: the analyze route with its statistics pass
    (lines 470-509). Claim C7.
  \<^item> \<open>App\<close>: app.py and routes.py: \<open>app_step\<close> dispatches a \<open>request\<close> to the
    blueprints over the \<open>system\<close> (accounts beside the server), behind the 100 MB body
    limit and its 413 handler, with the configuration read from the environment
    (\<open>flask_config\<close>, \<open>server_env\<close>), the CORS policy and the options of
    \<open>app.run\<close>; \<open>worker_drain\<close> is the RQ burst worker, a \<open>function\<close> whose
    termination is proved by the number of queued jobs. Claim C24.
  \<^item> This theory: C33, which spans the two blueprints.

  \<^bold>\<open>What is proved.\<close> The report of a readable file is exact and, but for the
  capped unique counts, independent of the batch size (C1-C6, C9, C10); streaming
  and whole-file cleaning count, write and report progress as stated, errors before
  and after the first write behave differently, \<open>fill_mean\<close> and \<open>fill_mode\<close>
  fill with the column's mean and smallest mode (C11-C20); every reachable account
  database satisfies the key, uniqueness and validation invariant, a registered user
  can log in, revocation holds at UTC or east of it, \<open>validate_email\<close> accepts
  the pattern's language (C26-C28, C31); the routes compose from upload to download
  (C32); the analyze answer is valid JSON exactly when every numeric column has two
  values (C7). Several claims prove deviations from the spec or from the code's
  intent (see the findings in PROJECT.json): the duplicate estimate is always 0
  (C8), the unique count never reaches 1000+ (C6), dedup ignores renaming (C16),
  trimming writes "nan" into missing text cells (C22), unreadable uploads answer 500
  (C21), \<open>.CSV\<close> uploads are processed in place (C23), an unset
  \<open>SECRET_KEY\<close> lets anyone forge CSV tokens with \<open>dev-secret\<close> (C24),
  downloads are not checked against the owner (C25), revocation is lost west of UTC
  (C29), a profile update stores an empty user name (C30), the CSV routes ignore the
  blacklist (C33).

  \<^bold>\<open>Modelling choices.\<close> Python ints are \<open>int\<close>/\<open>nat\<close>; floats are \<open>real\<close>
  computed exactly; NaN is a value of its own (\<open>JNaN\<close>). Times are seconds since the
  epoch; the server's UTC offset is \<open>tz_offset\<close>; the clock readings of a request are
  parameters. Password hashing is a perfect hash (\<open>Pbkdf2Sha256\<close>); the JWT
  signature is injective, and secrecy is not modelled. The batch size is a parameter
  (the code's \<open>CHUNK_SIZE = 10000\<close>); the worker runs one job in one step, and the
  burst worker terminates because each step finishes one queued job.
  \<open>UPLOAD_FOLDER\<close> is the relative \<open>uploads\<close>; column names are assumed distinct
  where a claim says so. Uploaded files and processed files are two maps that the
  download route consults in that order (\<open>os.path.exists\<close> sees both); a task
  reads its input before it writes, so the in-place case (the path
  \<open>replace('.csv', ...)\<close> leaves unchanged), where the real first write truncates
  the file pandas is still reading, is excluded by a hypothesis wherever a claim
  depends on the output (C13, C15, C32) and only its path is claimed (C23). Python's
  \<open>round(x, 2)\<close> rounds the binary float half to even; \<open>round2\<close> rounds the exact
  real half up, so the last digit can differ at or next to a tie; the claims on
  rounded values (C1, C10) hold for either rounding.

  \<^bold>\<open>Not modelled.\<close> CSV quoting, non-ASCII text; SQLAlchemy's engine behind the
  database URI (the tables are the record \<open>acct_db\<close>); the console output of
  create_tables.py and \<open>__repr__\<close> of the models; what raises 504 (a proxy, not
  the app); concurrency between requests and the worker beyond their
  interleaving as a sequence of steps; the \<open>job_timeout\<close> and \<open>result_ttl\<close> of
  RQ (a job is assumed to finish, and its result to stay) and the expiry of Redis keys
  in time. In the reader, CRLF line ends and lines of blanks only (pandas skips the
  latter, the model reads them as a row) are not modelled. The preview rows of the
  upload answer are the typed cells of the first ten rows (\<open>preview_records\<close>);
  \<open>iterrows\<close> makes each row a Series of one dtype, so a row of an int and a
  float column is upcast to floats, which the model does not do; no claim depends on
  the preview's values.
\<close>

section \<open>Properties across components\<close>

text \<open>C33: The two decorators disagree on revocation: once \<open>logout\<close> has succeeded and put the token on the blacklist, the CSV routes' \<open>token_required\<close>, which never reads the blacklist, still accepts the token as its user for the whole validity window of the token, the time of the logout included.\<close>

theorem csv_routes_accept_revoked:
  assumes lo: "logout ev t0 (Some (''Bearer '' @ tok)) db = (Resp 200 r, db1)" and sp: "CHR '' '' \<notin> set tok"
  shows "tok \<in> set (map bl_token (blacklist db1)) \<and>
    (\<exists>p :: payload. jwt_iat p \<le> t0 \<and> t0 < jwt_exp p \<and>
       (\<forall>now. jwt_iat p \<le> now \<and> now < jwt_exp p \<longrightarrow>
          csv_token_required ev now (Some (''Bearer '' @ tok)) = Inr (jwt_user_id p)))"
proof -
  obtain k p where k: "secret_key ev = Some k" and d: "jwt_decode k t0 tok = Inr p"
    and bl: "blacklist db1 = blacklist db @ [\<lparr>bl_token = tok, bl_on = t0, bl_expires = jwt_exp p + tz_offset ev\<rparr>]"
    using logout_ok [OF lo] bearer_strip_bearer [OF sp] by auto
  have w: "jwt_iat p \<le> t0 \<and> t0 < jwt_exp p" using jwt_decode_Inr [OF d] by simp
  have a: "csv_token_required ev now (Some (''Bearer '' @ tok)) = Inr (jwt_user_id p)"
    if "jwt_iat p \<le> now" "now < jwt_exp p" for now
    using csv_token_bearer [OF sp, of ev now] jwt_decode_window [OF d that] k by (simp add: csv_secret_def)
  have m: "tok \<in> set (map bl_token (blacklist db1))" using bl by simp
  show ?thesis using m w a by blast
qed

theorem csv_routes_accept_revoked_witness:
  "tok_ann \<in> set (map bl_token [\<lparr>bl_token = tok_ann, bl_on = 10, bl_expires = 86400\<rparr>]) \<and>
    (\<exists>p :: payload. jwt_iat p \<le> 10 \<and> 10 < jwt_exp p \<and>
       (\<forall>now. jwt_iat p \<le> now \<and> now < jwt_exp p \<longrightarrow>
          csv_token_required \<lparr>secret_key = Some ''k'', tz_offset = 0\<rparr> now (Some (''Bearer '' @ tok_ann)) = Inr (jwt_user_id p)))"
proof -
  have sp: "CHR '' '' \<notin> set tok_ann" by (simp add: tok_ann_def)
  show ?thesis using csv_routes_accept_revoked [OF logout_ann sp] by simp
qed

end
